theory Spec2Isabelle
  imports Main "HOL-Library.Word"
begin

section \<open>The abstract syntax tree (ast.h)\<close>

text \<open>
  \<^verbatim>\<open>ASTNode\<close> is a tagged union with a source line. Every constructor below carries the
  line first and then the fields of its payload struct. A child pointer that the generator
  tests against \<^verbatim>\<open>NULL\<close> (or hands to \<^verbatim>\<open>codegen_expr\<close>, which tests it) is an
  \<open>option\<close>. The argument array of a call and the right operator of a pipeline are
  dereferenced without a test, so they are plain nodes. The \<^verbatim>\<open>int value\<close> of a number is
  a 32-bit word.
\<close>

datatype OperatorType =
  OP_PLUS | OP_MINUS | OP_MULTIPLY | OP_DIVIDE
| OP_EQ | OP_NEQ | OP_LT | OP_GT | OP_LTE | OP_GTE
| OP_AND | OP_OR | OP_NOT

datatype NodeType =
  T_NUMBER | T_IDENTIFIER | T_BINARY_OP | T_ASSIGNMENT | T_FUNCTION_DEF | T_FUNCTION_CALL
| T_PIPELINE | T_IF_ELSE | T_FOR_LOOP | T_RANGE | T_RETURN | T_STATEMENT_LIST
| T_PRINT_CALL | T_UNARY_OP

datatype ASTNode =
  NODE_NUMBER int "32 word"
| NODE_IDENTIFIER int string
| NODE_BINARY_OP int OperatorType "ASTNode option" "ASTNode option"
| NODE_ASSIGNMENT int string "ASTNode option"
| NODE_FUNCTION_DEF int string "string list" "ASTNode option"
| NODE_FUNCTION_CALL int string "ASTNode list"
| NODE_PIPELINE int "ASTNode option" ASTNode
| NODE_IF_ELSE int "ASTNode option" "ASTNode option" "ASTNode option"
| NODE_FOR_LOOP int "ASTNode option" string "ASTNode option"
| NODE_RANGE int "ASTNode option" "ASTNode option"
| NODE_RETURN int "ASTNode option"
| NODE_STATEMENT_LIST int "ASTNode option list"
| NODE_PRINT_CALL int "ASTNode option"
| NODE_UNARY_OP int OperatorType "ASTNode option"

fun line_num :: "ASTNode \<Rightarrow> int" where
  "line_num (NODE_NUMBER l _) = l"
| "line_num (NODE_IDENTIFIER l _) = l"
| "line_num (NODE_BINARY_OP l _ _ _) = l"
| "line_num (NODE_ASSIGNMENT l _ _) = l"
| "line_num (NODE_FUNCTION_DEF l _ _ _) = l"
| "line_num (NODE_FUNCTION_CALL l _ _) = l"
| "line_num (NODE_PIPELINE l _ _) = l"
| "line_num (NODE_IF_ELSE l _ _ _) = l"
| "line_num (NODE_FOR_LOOP l _ _ _) = l"
| "line_num (NODE_RANGE l _ _) = l"
| "line_num (NODE_RETURN l _) = l"
| "line_num (NODE_STATEMENT_LIST l _) = l"
| "line_num (NODE_PRINT_CALL l _) = l"
| "line_num (NODE_UNARY_OP l _ _) = l"

fun node_type :: "ASTNode \<Rightarrow> NodeType" where
  "node_type (NODE_NUMBER _ _) = T_NUMBER"
| "node_type (NODE_IDENTIFIER _ _) = T_IDENTIFIER"
| "node_type (NODE_BINARY_OP _ _ _ _) = T_BINARY_OP"
| "node_type (NODE_ASSIGNMENT _ _ _) = T_ASSIGNMENT"
| "node_type (NODE_FUNCTION_DEF _ _ _ _) = T_FUNCTION_DEF"
| "node_type (NODE_FUNCTION_CALL _ _ _) = T_FUNCTION_CALL"
| "node_type (NODE_PIPELINE _ _ _) = T_PIPELINE"
| "node_type (NODE_IF_ELSE _ _ _ _) = T_IF_ELSE"
| "node_type (NODE_FOR_LOOP _ _ _ _) = T_FOR_LOOP"
| "node_type (NODE_RANGE _ _ _) = T_RANGE"
| "node_type (NODE_RETURN _ _) = T_RETURN"
| "node_type (NODE_STATEMENT_LIST _ _) = T_STATEMENT_LIST"
| "node_type (NODE_PRINT_CALL _ _) = T_PRINT_CALL"
| "node_type (NODE_UNARY_OP _ _ _) = T_UNARY_OP"

section \<open>The IR that the generator drives\<close>

text \<open>
  Modelled from the spec: the IR builder of section 6 (the LLVM-C library, which is not part
  of the repository). Types, values, instructions, basic blocks, functions and globals are
  the data the generator reads back (type kinds, element types, terminators, entry blocks,
  named functions). The builder appends every instruction it is asked for and folds
  nothing; instruction names are kept only for stack slots.
\<close>

datatype LLVMType =
  IntegerType nat
| FloatType
| DoubleType
| VoidType
| PointerType LLVMType
| FunctionType LLVMType "LLVMType list" bool

type_synonym LLVMBasicBlockRef = nat

datatype LLVMValue =
  ConstInt LLVMType "32 word"
| ConstNull LLVMType
| Instruction nat LLVMType
| AllocaInst nat LLVMType
| Function nat LLVMType
| Argument nat nat LLVMType
| GlobalVariable nat LLVMType
| GlobalStringPtr nat

datatype IntPredicate = IntEQ | IntNE | IntSLT | IntSGT | IntSLE | IntSGE

datatype opcode =
  Add LLVMValue LLVMValue
| Sub LLVMValue LLVMValue
| Mul LLVMValue LLVMValue
| SDiv LLVMValue LLVMValue
| ICmp IntPredicate LLVMValue LLVMValue
| Neg LLVMValue
| FPExt LLVMValue LLVMType
| Load LLVMType LLVMValue
| Store LLVMValue LLVMValue
| Alloca LLVMType string
| Call LLVMType LLVMValue "LLVMValue list"
| Phi LLVMType "(LLVMValue \<times> LLVMBasicBlockRef) list"
| Br LLVMBasicBlockRef
| CondBr LLVMValue LLVMBasicBlockRef LLVMBasicBlockRef
| Ret LLVMValue
| RetVoid

text \<open>An instruction is its number (the identity of its \<^verbatim>\<open>LLVMValueRef\<close>) and its operation.\<close>

type_synonym instr = "nat \<times> opcode"

record basic_block =
  bb_name :: string
  bb_parent :: "nat option"
  bb_instrs :: "instr list"

record ir_function =
  fn_name :: string
  fn_type :: LLVMType
  fn_blocks :: "LLVMBasicBlockRef list"

datatype initializer = ZeroInit | StringInit string

record ir_global =
  g_name :: string
  g_type :: LLVMType
  g_init :: initializer
  g_constant :: bool

fun LLVMTypeOf :: "LLVMValue \<Rightarrow> LLVMType" where
  "LLVMTypeOf (ConstInt t _) = t"
| "LLVMTypeOf (ConstNull t) = t"
| "LLVMTypeOf (Instruction _ t) = t"
| "LLVMTypeOf (AllocaInst _ t) = PointerType t"
| "LLVMTypeOf (Function _ t) = PointerType t"
| "LLVMTypeOf (Argument _ _ t) = t"
| "LLVMTypeOf (GlobalVariable _ t) = PointerType t"
| "LLVMTypeOf (GlobalStringPtr _) = PointerType (IntegerType 8)"

text \<open>The element type of a pointer; the generator asks it of pointer types only.\<close>

fun LLVMGetElementType :: "LLVMType \<Rightarrow> LLVMType" where
  "LLVMGetElementType (PointerType t) = t"
| "LLVMGetElementType t = t"

fun LLVMIsAAllocaInst :: "LLVMValue \<Rightarrow> bool" where
  "LLVMIsAAllocaInst (AllocaInst _ _) = True"
| "LLVMIsAAllocaInst _ = False"

fun LLVMIsAGlobalVariable :: "LLVMValue \<Rightarrow> bool" where
  "LLVMIsAGlobalVariable (GlobalVariable _ _) = True"
| "LLVMIsAGlobalVariable _ = False"

fun is_terminator :: "opcode \<Rightarrow> bool" where
  "is_terminator (Br _) = True"
| "is_terminator (CondBr _ _ _) = True"
| "is_terminator (Ret _) = True"
| "is_terminator RetVoid = True"
| "is_terminator _ = False"

section \<open>Symbol tables and the generator state (llvm_generator.c, llvm_generator.h)\<close>

record Symbol =
  sym_name :: string
  sym_value :: LLVMValue
  sym_type :: LLVMType
  is_param :: bool

text \<open>
  A \<^verbatim>\<open>SymbolTable\<close> lives on the heap and is shared through its address: the global table
  is the parent of every function scope. The heap of tables is the list \<open>symtabs\<close>, an
  address is an index into it, and a freed table is \<open>None\<close>.
\<close>

record SymbolTable =
  entries :: "Symbol list"
  parent :: "nat option"

text \<open>
  What the generator prints on \<^verbatim>\<open>stderr\<close>, one value for each message. The last
  value stands for no message: it marks a run that hands a null block or function to the IR
  library (the C program stops there), which no run started by
  \<^verbatim>\<open>llvm_generate_code\<close> does.
\<close>

datatype diagnostic =
  SymbolTableOverflow string
| UndeclaredIdentifier int string
| OperandError int
| UnknownBinaryOperator int OperatorType
| UnknownUnaryOperator int OperatorType
| AssignmentFailed int string
| NotModifiable int string
| TypeMismatch int string LLVMType LLVMType
| UndefinedFunction int string
| NotAFunction int string
| IncorrectArgumentCount int string nat nat
| ArgumentFailed int nat string
| InvalidPipelineRHS int NodeType
| IfOutsideFunction int
| RangeOperandError int
| ForOutsideFunction int
| ForRequiresRange int
| ForRangeFailed int
| ReturnOutsideFunction int
| PrintNoArgument int
| PrintUnhandledType int LLVMType
| NotAnExpression int NodeType
| DereferencedNull
| RootNotStatementList

text \<open>
  \<^verbatim>\<open>LLVMGeneratorState\<close>. The context, module and builder handles are spelled out as what
  they hold: the blocks of the context, the functions and globals of the module, the
  number of the next value, and the block the builder inserts into (it always inserts at
  the end of that block). \<open>stderr\<close> collects the diagnostics.
\<close>

record LLVMGeneratorState =
  ctx_blocks :: "basic_block list"
  mod_functions :: "ir_function list"
  mod_globals :: "ir_global list"
  next_value :: nat
  builder :: "LLVMBasicBlockRef option"
  current_function :: "nat option"
  current_scope_symbols :: nat
  global_symbols :: nat
  symtabs :: "SymbolTable option list"
  piped_value :: "LLVMValue option"
  current_loop_var_name :: "string option"
  current_loop_var_ptr :: "LLVMValue option"
  current_loop_cond_bb :: "LLVMBasicBlockRef option"
  current_loop_end_bb :: "LLVMBasicBlockRef option"
  stderr :: "diagnostic list"

definition report :: "diagnostic \<Rightarrow> LLVMGeneratorState \<Rightarrow> LLVMGeneratorState" where
  "report d s = s\<lparr>stderr := stderr s @ [d]\<rparr>"

definition SYMBOL_TABLE_SIZE :: nat where
  "SYMBOL_TABLE_SIZE = 100"

definition get_symtab :: "LLVMGeneratorState \<Rightarrow> nat \<Rightarrow> SymbolTable option" where
  "get_symtab s st = (if st < length (symtabs s) then symtabs s ! st else None)"

definition create_symbol_table ::
  "nat option \<Rightarrow> LLVMGeneratorState \<Rightarrow> nat \<times> LLVMGeneratorState" where
  "create_symbol_table par s =
     (length (symtabs s),
      s\<lparr>symtabs := symtabs s @ [Some \<lparr>entries = [], parent = par\<rparr>]\<rparr>)"

definition free_symbol_table :: "nat \<Rightarrow> LLVMGeneratorState \<Rightarrow> LLVMGeneratorState" where
  "free_symbol_table st s = s\<lparr>symtabs := (symtabs s)[st := None]\<rparr>"

text \<open>The redefinition loop of \<^verbatim>\<open>add_symbol\<close>: the first entry of that name is overwritten.\<close>

fun update_entry :: "Symbol \<Rightarrow> Symbol list \<Rightarrow> Symbol list option" where
  "update_entry y [] = None"
| "update_entry y (e # es) =
     (if sym_name e = sym_name y then Some (y # es)
      else map_option ((#) e) (update_entry y es))"

definition add_symbol ::
  "nat \<Rightarrow> string \<Rightarrow> LLVMValue \<Rightarrow> LLVMType \<Rightarrow> bool \<Rightarrow> LLVMGeneratorState \<Rightarrow> LLVMGeneratorState"
  where
  "add_symbol st nm v t p s =
     (case get_symtab s st of
        None \<Rightarrow> s
      | Some tab \<Rightarrow>
          if length (entries tab) \<ge> SYMBOL_TABLE_SIZE then report (SymbolTableOverflow nm) s
          else
            (let y = \<lparr>sym_name = nm, sym_value = v, sym_type = t, is_param = p\<rparr>;
                 es = (case update_entry y (entries tab) of
                         Some es' \<Rightarrow> es'
                       | None \<Rightarrow> entries tab @ [y])
             in s\<lparr>symtabs := (symtabs s)[st := Some (tab\<lparr>entries := es\<rparr>)]\<rparr>))"

text \<open>
  \<^verbatim>\<open>find_symbol\<close> walks the parent pointers. Tables are allocated at increasing addresses
  and a table's parent exists before it, so the walk only ever steps to a smaller address;
  the model stops at a parent that is not smaller, which no table built by
  \<open>create_symbol_table\<close> has.
\<close>

function find_symbol :: "LLVMGeneratorState \<Rightarrow> nat \<Rightarrow> string \<Rightarrow> Symbol option" where
  "find_symbol s st nm =
     (case get_symtab s st of
        None \<Rightarrow> None
      | Some tab \<Rightarrow>
          (case find (\<lambda>e. sym_name e = nm) (entries tab) of
             Some e \<Rightarrow> Some e
           | None \<Rightarrow>
               (case parent tab of
                  None \<Rightarrow> None
                | Some p \<Rightarrow> if p < st then find_symbol s p nm else None)))"
  by pat_completeness auto
termination
  by (relation "measure (\<lambda>(s, st, nm). st)") auto

declare find_symbol.simps [simp del]

section \<open>The builder's operations\<close>

definition LLVMGetInsertBlock :: "LLVMGeneratorState \<Rightarrow> LLVMBasicBlockRef option" where
  "LLVMGetInsertBlock s = builder s"

definition LLVMPositionBuilderAtEnd ::
  "LLVMBasicBlockRef \<Rightarrow> LLVMGeneratorState \<Rightarrow> LLVMGeneratorState" where
  "LLVMPositionBuilderAtEnd b s = s\<lparr>builder := Some b\<rparr>"

definition LLVMClearInsertionPosition :: "LLVMGeneratorState \<Rightarrow> LLVMGeneratorState" where
  "LLVMClearInsertionPosition s = s\<lparr>builder := None\<rparr>"

definition block_instrs :: "LLVMGeneratorState \<Rightarrow> LLVMBasicBlockRef \<Rightarrow> instr list" where
  "block_instrs s b = (if b < length (ctx_blocks s) then bb_instrs (ctx_blocks s ! b) else [])"

text \<open>The terminator of a block is its last instruction, when that is a terminator.\<close>

definition LLVMGetBasicBlockTerminator ::
  "LLVMGeneratorState \<Rightarrow> LLVMBasicBlockRef \<Rightarrow> instr option" where
  "LLVMGetBasicBlockTerminator s b =
     (case rev (block_instrs s b) of
        [] \<Rightarrow> None
      | i # _ \<Rightarrow> if is_terminator (snd i) then Some i else None)"

definition LLVMGetBasicBlockParent :: "LLVMGeneratorState \<Rightarrow> LLVMBasicBlockRef \<Rightarrow> nat option"
  where
  "LLVMGetBasicBlockParent s b =
     (if b < length (ctx_blocks s) then bb_parent (ctx_blocks s ! b) else None)"

definition LLVMGetEntryBasicBlock :: "LLVMGeneratorState \<Rightarrow> nat \<Rightarrow> LLVMBasicBlockRef option"
  where
  "LLVMGetEntryBasicBlock s f =
     (if f < length (mod_functions s) then
        (case fn_blocks (mod_functions s ! f) of [] \<Rightarrow> None | b # _ \<Rightarrow> Some b)
      else None)"

text \<open>A block that is created but not yet part of any function.\<close>

definition LLVMCreateBasicBlockInContext ::
  "string \<Rightarrow> LLVMGeneratorState \<Rightarrow> LLVMBasicBlockRef \<times> LLVMGeneratorState" where
  "LLVMCreateBasicBlockInContext nm s =
     (length (ctx_blocks s),
      s\<lparr>ctx_blocks := ctx_blocks s @ [\<lparr>bb_name = nm, bb_parent = None, bb_instrs = []\<rparr>]\<rparr>)"

definition LLVMAppendExistingBasicBlock ::
  "nat \<Rightarrow> LLVMBasicBlockRef \<Rightarrow> LLVMGeneratorState \<Rightarrow> LLVMGeneratorState" where
  "LLVMAppendExistingBasicBlock f b s =
     s\<lparr>ctx_blocks := (ctx_blocks s)[b := (ctx_blocks s ! b)\<lparr>bb_parent := Some f\<rparr>],
       mod_functions := (mod_functions s)[f := (mod_functions s ! f)
                      \<lparr>fn_blocks := fn_blocks (mod_functions s ! f) @ [b]\<rparr>]\<rparr>"

definition LLVMAppendBasicBlockInContext ::
  "nat \<Rightarrow> string \<Rightarrow> LLVMGeneratorState \<Rightarrow> LLVMBasicBlockRef \<times> LLVMGeneratorState" where
  "LLVMAppendBasicBlockInContext f nm s =
     (let (b, s1) = LLVMCreateBasicBlockInContext nm s
      in (b, LLVMAppendExistingBasicBlock f b s1))"

definition LLVMAddFunction ::
  "string \<Rightarrow> LLVMType \<Rightarrow> LLVMGeneratorState \<Rightarrow> LLVMValue \<times> LLVMGeneratorState" where
  "LLVMAddFunction nm t s =
     (Function (length (mod_functions s)) t,
      s\<lparr>mod_functions := mod_functions s @ [\<lparr>fn_name = nm, fn_type = t, fn_blocks = []\<rparr>]\<rparr>)"

fun find_index_from :: "nat \<Rightarrow> ('a \<Rightarrow> bool) \<Rightarrow> 'a list \<Rightarrow> nat option" where
  "find_index_from i P [] = None"
| "find_index_from i P (x # xs) = (if P x then Some i else find_index_from (Suc i) P xs)"

definition LLVMGetNamedFunction :: "LLVMGeneratorState \<Rightarrow> string \<Rightarrow> LLVMValue option" where
  "LLVMGetNamedFunction s nm =
     (case find_index_from 0 (\<lambda>f. fn_name f = nm) (mod_functions s) of
        None \<Rightarrow> None
      | Some i \<Rightarrow> Some (Function i (fn_type (mod_functions s ! i))))"

definition LLVMAddGlobal ::
  "LLVMType \<Rightarrow> string \<Rightarrow> LLVMGeneratorState \<Rightarrow> LLVMValue \<times> LLVMGeneratorState" where
  "LLVMAddGlobal t nm s =
     (GlobalVariable (length (mod_globals s)) t,
      s\<lparr>mod_globals := mod_globals s @
           [\<lparr>g_name = nm, g_type = t, g_init = ZeroInit, g_constant = False\<rparr>]\<rparr>)"

text \<open>
  \<^verbatim>\<open>LLVMBuildGlobalStringPtr\<close> makes a new constant global holding the string on every
  call and returns a pointer to its first byte.
\<close>

definition LLVMBuildGlobalStringPtr ::
  "string \<Rightarrow> string \<Rightarrow> LLVMGeneratorState \<Rightarrow> LLVMValue \<times> LLVMGeneratorState" where
  "LLVMBuildGlobalStringPtr str nm s =
     (GlobalStringPtr (length (mod_globals s)),
      s\<lparr>mod_globals := mod_globals s @
           [\<lparr>g_name = nm, g_type = PointerType (IntegerType 8), g_init = StringInit str,
             g_constant = True\<rparr>]\<rparr>)"

definition append_instr ::
  "LLVMBasicBlockRef \<Rightarrow> instr \<Rightarrow> LLVMGeneratorState \<Rightarrow> LLVMGeneratorState" where
  "append_instr b i s =
     (if b < length (ctx_blocks s) then
        s\<lparr>ctx_blocks := (ctx_blocks s)[b := (ctx_blocks s ! b)\<lparr>bb_instrs := bb_instrs (ctx_blocks s ! b) @ [i]\<rparr>]\<rparr>
      else s)"

definition prepend_instr ::
  "LLVMBasicBlockRef \<Rightarrow> instr \<Rightarrow> LLVMGeneratorState \<Rightarrow> LLVMGeneratorState" where
  "prepend_instr b i s =
     (if b < length (ctx_blocks s) then
        s\<lparr>ctx_blocks := (ctx_blocks s)[b := (ctx_blocks s ! b)\<lparr>bb_instrs := i # bb_instrs (ctx_blocks s ! b)\<rparr>]\<rparr>
      else s)"

text \<open>
  Every \<^verbatim>\<open>LLVMBuild...\<close> call of the state's builder: the instruction gets the next number
  and goes to the end of the insert block (nowhere when the builder has no position); the
  result is the instruction's value, of the given type.
\<close>

definition build ::
  "opcode \<Rightarrow> LLVMType \<Rightarrow> LLVMGeneratorState \<Rightarrow> LLVMValue \<times> LLVMGeneratorState" where
  "build opc t s =
     (let n = next_value s;
          s1 = s\<lparr>next_value := Suc n\<rparr>
      in (Instruction n t,
          case builder s of None \<Rightarrow> s1 | Some b \<Rightarrow> append_instr b (n, opc) s1))"

text \<open>
  The stack slot of a variable, built by a temporary builder placed before the first
  instruction of the function's entry block, or at its end when it is empty: in both
  cases the allocation becomes the first instruction of the entry block. A function
  without blocks has no entry block to ask for.
\<close>

definition build_entry_alloca ::
  "nat \<Rightarrow> LLVMType \<Rightarrow> string \<Rightarrow> LLVMGeneratorState \<Rightarrow> (LLVMValue \<times> LLVMGeneratorState) option"
  where
  "build_entry_alloca f t nm s =
     (case LLVMGetEntryBasicBlock s f of
        None \<Rightarrow> None
      | Some entry_block \<Rightarrow>
          (let n = next_value s
           in Some (AllocaInst n t,
                    prepend_instr entry_block (n, Alloca t nm) (s\<lparr>next_value := Suc n\<rparr>))))"

text \<open>A stack slot built by the state's builder, at the end of the insert block.\<close>

definition LLVMBuildAlloca ::
  "LLVMType \<Rightarrow> string \<Rightarrow> LLVMGeneratorState \<Rightarrow> LLVMValue \<times> LLVMGeneratorState" where
  "LLVMBuildAlloca t nm s =
     (let n = next_value s;
          s1 = s\<lparr>next_value := Suc n\<rparr>
      in (AllocaInst n t,
          case builder s of None \<Rightarrow> s1 | Some b \<Rightarrow> append_instr b (n, Alloca t nm) s1))"

text \<open>\<^verbatim>\<open>LLVMAddIncoming\<close> extends the phi instruction of the given number, wherever it is.\<close>

fun add_incoming_instr ::
  "nat \<Rightarrow> (LLVMValue \<times> LLVMBasicBlockRef) list \<Rightarrow> instr \<Rightarrow> instr" where
  "add_incoming_instr n inc (m, Phi t old) = (if m = n then (m, Phi t (old @ inc)) else (m, Phi t old))"
| "add_incoming_instr n inc i = i"

fun LLVMAddIncoming ::
  "LLVMValue \<Rightarrow> (LLVMValue \<times> LLVMBasicBlockRef) list \<Rightarrow> LLVMGeneratorState \<Rightarrow> LLVMGeneratorState"
  where
  "LLVMAddIncoming (Instruction n t) inc s =
     s\<lparr>ctx_blocks := map (\<lambda>b. b\<lparr>bb_instrs := map (add_incoming_instr n inc) (bb_instrs b)\<rparr>) (ctx_blocks s)\<rparr>"
| "LLVMAddIncoming v inc s = s"

text \<open>The insert block exists and already ends in a terminator.\<close>

definition insert_block_terminated :: "LLVMGeneratorState \<Rightarrow> bool" where
  "insert_block_terminated s =
     (case LLVMGetInsertBlock s of
        None \<Rightarrow> False
      | Some b \<Rightarrow> LLVMGetBasicBlockTerminator s b \<noteq> None)"

text \<open>The insert block exists and has no terminator yet.\<close>

definition insert_block_open :: "LLVMGeneratorState \<Rightarrow> bool" where
  "insert_block_open s =
     (case LLVMGetInsertBlock s of
        None \<Rightarrow> False
      | Some b \<Rightarrow> LLVMGetBasicBlockTerminator s b = None)"

section \<open>Lowering (llvm_generator.c)\<close>

abbreviation LLVMInt32Type :: LLVMType where
  "LLVMInt32Type \<equiv> IntegerType 32"

abbreviation LLVMInt1Type :: LLVMType where
  "LLVMInt1Type \<equiv> IntegerType 1"

abbreviation LLVMInt8Type :: LLVMType where
  "LLVMInt8Type \<equiv> IntegerType 8"

text \<open>A built instruction as the non-null result of a lowering routine.\<close>

definition returning ::
  "LLVMValue \<times> LLVMGeneratorState \<Rightarrow> LLVMValue option \<times> LLVMGeneratorState" where
  "returning r = (Some (fst r), snd r)"

definition codegen_number ::
  "LLVMGeneratorState \<Rightarrow> 32 word \<Rightarrow> LLVMValue option \<times> LLVMGeneratorState" where
  "codegen_number s v = (Some (ConstInt LLVMInt32Type v), s)"

definition codegen_identifier ::
  "LLVMGeneratorState \<Rightarrow> string \<Rightarrow> int \<Rightarrow> LLVMValue option \<times> LLVMGeneratorState" where
  "codegen_identifier s nm ln =
     (case find_symbol s (current_scope_symbols s) nm of
        None \<Rightarrow> (None, report (UndeclaredIdentifier ln nm) s)
      | Some symb \<Rightarrow>
          if LLVMIsAAllocaInst (sym_value symb) then
            returning (build (Load (LLVMGetElementType (LLVMTypeOf (sym_value symb))) (sym_value symb))
                         (LLVMGetElementType (LLVMTypeOf (sym_value symb))) s)
          else (Some (sym_value symb), s))"

text \<open>
  The \<^verbatim>\<open>switch\<close> of \<^verbatim>\<open>codegen_binop\<close> for the operators whose two operands are both
  lowered before it.
\<close>

definition binop_switch ::
  "OperatorType \<Rightarrow> LLVMValue \<Rightarrow> LLVMValue \<Rightarrow> int \<Rightarrow> LLVMGeneratorState
     \<Rightarrow> LLVMValue option \<times> LLVMGeneratorState" where
  "binop_switch op L R ln s =
     (case op of
        OP_PLUS \<Rightarrow> returning (build (Add L R) (LLVMTypeOf L) s)
      | OP_MINUS \<Rightarrow> returning (build (Sub L R) (LLVMTypeOf L) s)
      | OP_MULTIPLY \<Rightarrow> returning (build (Mul L R) (LLVMTypeOf L) s)
      | OP_DIVIDE \<Rightarrow> returning (build (SDiv L R) (LLVMTypeOf L) s)
      | OP_LT \<Rightarrow> returning (build (ICmp IntSLT L R) LLVMInt1Type s)
      | OP_GT \<Rightarrow> returning (build (ICmp IntSGT L R) LLVMInt1Type s)
      | OP_LTE \<Rightarrow> returning (build (ICmp IntSLE L R) LLVMInt1Type s)
      | OP_GTE \<Rightarrow> returning (build (ICmp IntSGE L R) LLVMInt1Type s)
      | OP_EQ \<Rightarrow> returning (build (ICmp IntEQ L R) LLVMInt1Type s)
      | OP_NEQ \<Rightarrow> returning (build (ICmp IntNE L R) LLVMInt1Type s)
      | _ \<Rightarrow> (None, report (UnknownBinaryOperator ln op) s))"

text \<open>
  \<^verbatim>\<open>case OP_AND\<close>, up to the lowering of the right operand: the block the left operand
  ended in, the two new blocks of its function, the test of the left value against zero,
  the branch on it, and the builder moved to the block of the right operand. The result
  names the left block and the merge block.
\<close>

definition and_branch ::
  "LLVMValue \<Rightarrow> LLVMGeneratorState
     \<Rightarrow> (LLVMBasicBlockRef \<times> LLVMBasicBlockRef \<times> LLVMGeneratorState) option" where
  "and_branch L s =
     (case LLVMGetInsertBlock s of
        None \<Rightarrow> None
      | Some eval_L_block \<Rightarrow>
          (case LLVMGetBasicBlockParent s eval_L_block of
             None \<Rightarrow> None
           | Some func \<Rightarrow>
               (let (eval_R_block, s1) = LLVMAppendBasicBlockInContext func ''and.evalR'' s;
                    (merge_block, s2) = LLVMAppendBasicBlockInContext func ''and.merge'' s1;
                    (l_bool, s3) = build (ICmp IntNE L (ConstNull (LLVMTypeOf L))) LLVMInt1Type s2;
                    (br, s4) = build (CondBr l_bool eval_R_block merge_block) VoidType s3
                in Some (eval_L_block, merge_block, LLVMPositionBuilderAtEnd eval_R_block s4))))"

text \<open>
  \<^verbatim>\<open>case OP_AND\<close>, after the lowering of the right operand: a failed right operand counts
  as false, the right value is tested against zero, the block the builder is in now is
  remembered, the branch to the merge block and the phi follow.
\<close>

definition and_merge ::
  "LLVMBasicBlockRef \<Rightarrow> LLVMBasicBlockRef \<Rightarrow> LLVMValue option \<Rightarrow> LLVMGeneratorState
     \<Rightarrow> LLVMValue option \<times> LLVMGeneratorState" where
  "and_merge eval_L_block merge_block R s =
     (let R_val_for_and = (case R of None \<Rightarrow> ConstInt LLVMInt1Type 0 | Some r \<Rightarrow> r);
          (r_bool, s1) = build (ICmp IntNE R_val_for_and (ConstNull (LLVMTypeOf R_val_for_and)))
                           LLVMInt1Type s
      in case LLVMGetInsertBlock s1 of
           None \<Rightarrow> (None, report DereferencedNull s1)
         | Some r_evaluated_block \<Rightarrow>
             (let (br, s2) = build (Br merge_block) VoidType s1;
                  s3 = LLVMPositionBuilderAtEnd merge_block s2;
                  (phi, s4) = build (Phi LLVMInt1Type []) LLVMInt1Type s3
              in (Some phi,
                  LLVMAddIncoming phi
                    [(r_bool, r_evaluated_block), (ConstInt LLVMInt1Type 0, eval_L_block)] s4)))"

text \<open>\<^verbatim>\<open>case OP_OR\<close>, in the same two parts.\<close>

definition or_branch ::
  "LLVMValue \<Rightarrow> LLVMGeneratorState
     \<Rightarrow> (LLVMBasicBlockRef \<times> LLVMBasicBlockRef \<times> LLVMGeneratorState) option" where
  "or_branch L s =
     (case LLVMGetInsertBlock s of
        None \<Rightarrow> None
      | Some eval_L_block \<Rightarrow>
          (case LLVMGetBasicBlockParent s eval_L_block of
             None \<Rightarrow> None
           | Some func \<Rightarrow>
               (let (eval_R_block, s1) = LLVMAppendBasicBlockInContext func ''or.evalR'' s;
                    (merge_block, s2) = LLVMAppendBasicBlockInContext func ''or.merge'' s1;
                    (l_bool, s3) = build (ICmp IntNE L (ConstNull (LLVMTypeOf L))) LLVMInt1Type s2;
                    (br, s4) = build (CondBr l_bool merge_block eval_R_block) VoidType s3
                in Some (eval_L_block, merge_block, LLVMPositionBuilderAtEnd eval_R_block s4))))"

definition or_merge ::
  "LLVMBasicBlockRef \<Rightarrow> LLVMBasicBlockRef \<Rightarrow> LLVMValue option \<Rightarrow> LLVMGeneratorState
     \<Rightarrow> LLVMValue option \<times> LLVMGeneratorState" where
  "or_merge eval_L_block merge_block R s =
     (let R_val_for_or = (case R of None \<Rightarrow> ConstInt LLVMInt1Type 0 | Some r \<Rightarrow> r);
          (r_bool, s1) = build (ICmp IntNE R_val_for_or (ConstNull (LLVMTypeOf R_val_for_or)))
                           LLVMInt1Type s
      in case LLVMGetInsertBlock s1 of
           None \<Rightarrow> (None, report DereferencedNull s1)
         | Some r_evaluated_block \<Rightarrow>
             (let (br, s2) = build (Br merge_block) VoidType s1;
                  s3 = LLVMPositionBuilderAtEnd merge_block s2;
                  (phi, s4) = build (Phi LLVMInt1Type []) LLVMInt1Type s3
              in (Some phi,
                  LLVMAddIncoming phi
                    [(ConstInt LLVMInt1Type 1, eval_L_block), (r_bool, r_evaluated_block)] s4)))"

text \<open>The \<^verbatim>\<open>switch\<close> of \<^verbatim>\<open>codegen_unaryop\<close>.\<close>

definition unaryop_switch ::
  "OperatorType \<Rightarrow> LLVMValue \<Rightarrow> int \<Rightarrow> LLVMGeneratorState
     \<Rightarrow> LLVMValue option \<times> LLVMGeneratorState" where
  "unaryop_switch op operand ln s =
     (case op of
        OP_NOT \<Rightarrow>
          returning (build (ICmp IntEQ operand (ConstNull (LLVMTypeOf operand))) LLVMInt1Type s)
      | OP_MINUS \<Rightarrow> returning (build (Neg operand) (LLVMTypeOf operand) s)
      | _ \<Rightarrow> (None, report (UnknownUnaryOperator ln op) s))"

text \<open>
  \<^verbatim>\<open>codegen_assignment\<close> after its expression is lowered: the slot of the variable is
  looked up or declared, and the value is stored.
\<close>

definition declare_variable ::
  "string \<Rightarrow> LLVMType \<Rightarrow> LLVMGeneratorState \<Rightarrow> (LLVMValue \<times> LLVMGeneratorState) option" where
  "declare_variable var_name val_type s =
     (case current_function s of
        Some f \<Rightarrow> build_entry_alloca f val_type var_name s
      | None \<Rightarrow> Some (LLVMAddGlobal val_type var_name s))"

definition assignment_store ::
  "int \<Rightarrow> string \<Rightarrow> LLVMValue \<Rightarrow> LLVMGeneratorState \<Rightarrow> LLVMValue option \<times> LLVMGeneratorState"
  where
  "assignment_store ln var_name val_to_assign s =
     (case find_symbol s (current_scope_symbols s) var_name of
        None \<Rightarrow>
          (case declare_variable var_name (LLVMTypeOf val_to_assign) s of
             None \<Rightarrow> (None, report DereferencedNull s)
           | Some (var_storage_ptr, s1) \<Rightarrow>
               (let s2 = add_symbol (current_scope_symbols s1) var_name var_storage_ptr
                           (LLVMTypeOf val_to_assign) False s1;
                    (st, s3) = build (Store val_to_assign var_storage_ptr) VoidType s2
                in (Some val_to_assign, s3)))
      | Some symb \<Rightarrow>
          (let var_storage_ptr = sym_value symb in
           if \<not> LLVMIsAAllocaInst var_storage_ptr \<and> \<not> LLVMIsAGlobalVariable var_storage_ptr
           then (None, report (NotModifiable ln var_name) s)
           else
             (let var_element_type = LLVMGetElementType (LLVMTypeOf var_storage_ptr);
                  s1 = (if LLVMTypeOf val_to_assign \<noteq> var_element_type
                        then report (TypeMismatch ln var_name var_element_type
                                       (LLVMTypeOf val_to_assign)) s
                        else s);
                  (st, s2) = build (Store val_to_assign var_storage_ptr) VoidType s1
              in (Some val_to_assign, s2))))"

text \<open>
  \<^verbatim>\<open>codegen_func_def\<close> before the body: the function is added to the module and
  registered in the global table, the builder's block, the current function and the current
  scope are remembered, a new scope is opened, and every parameter gets a slot in the new
  entry block. The verifier's diagnostics are not modelled.
\<close>

fun bind_params ::
  "nat \<Rightarrow> nat \<Rightarrow> string list \<Rightarrow> LLVMGeneratorState \<Rightarrow> LLVMGeneratorState" where
  "bind_params f i [] s = s"
| "bind_params f i (p # ps) s =
     (let (param_alloca, s1) = LLVMBuildAlloca LLVMInt32Type p s;
          (st, s2) = build (Store (Argument f i LLVMInt32Type) param_alloca) VoidType s1
      in bind_params f (Suc i) ps
           (add_symbol (current_scope_symbols s2) p param_alloca LLVMInt32Type True s2))"

declare bind_params.simps [simp del]

record saved_context =
  preserved_insert_block :: "LLVMBasicBlockRef option"
  preserved_current_func :: "nat option"
  preserved_current_scope :: nat

definition func_def_begin ::
  "string \<Rightarrow> string list \<Rightarrow> LLVMGeneratorState
     \<Rightarrow> LLVMValue \<times> saved_context \<times> LLVMGeneratorState" where
  "func_def_begin func_name param_names s =
     (let func_signature_type =
            FunctionType LLVMInt32Type (replicate (length param_names) LLVMInt32Type) False;
          f = length (mod_functions s);
          (func_val, s1) = LLVMAddFunction func_name func_signature_type s;
          s2 = add_symbol (global_symbols s1) func_name func_val func_signature_type False s1;
          saved = \<lparr>preserved_insert_block = LLVMGetInsertBlock s2,
                   preserved_current_func = current_function s2,
                   preserved_current_scope = current_scope_symbols s2\<rparr>;
          (scope, s3) = create_symbol_table (Some (global_symbols s2))
                          (s2\<lparr>current_function := Some f\<rparr>);
          (entry_bb, s4) = LLVMAppendBasicBlockInContext f ''entry''
                             (s3\<lparr>current_scope_symbols := scope\<rparr>)
      in (func_val, saved,
          bind_params f 0 param_names (LLVMPositionBuilderAtEnd entry_bb s4)))"

text \<open>
  \<^verbatim>\<open>codegen_func_def\<close> after the body: the implicit return (the return type is always the
  32-bit integer), then the builder, the current function and the scope are put back and
  the function's scope is freed.
\<close>

definition func_def_end :: "saved_context \<Rightarrow> LLVMGeneratorState \<Rightarrow> LLVMGeneratorState" where
  "func_def_end saved s =
     (let s1 = (if insert_block_open s
                then snd (build (Ret (ConstInt LLVMInt32Type 0)) VoidType s) else s);
          s2 = (case preserved_insert_block saved of
                  Some b \<Rightarrow> LLVMPositionBuilderAtEnd b s1
                | None \<Rightarrow> LLVMClearInsertionPosition s1);
          s3 = s2\<lparr>current_function := preserved_current_func saved\<rparr>;
          s4 = free_symbol_table (current_scope_symbols s3) s3
      in s4\<lparr>current_scope_symbols := preserved_current_scope saved\<rparr>)"

text \<open>The branch that closes a block which has no terminator yet.\<close>

definition branch_if_open :: "LLVMBasicBlockRef \<Rightarrow> LLVMGeneratorState \<Rightarrow> LLVMGeneratorState"
  where
  "branch_if_open target s = (if insert_block_open s then snd (build (Br target) VoidType s) else s)"

text \<open>
  \<^verbatim>\<open>codegen_if_else\<close> from the test of the current function to the lowering of the
  then-list: the three blocks and the conditional branch. The result names the function,
  the else block and the merge block.
\<close>

definition if_else_branch ::
  "nat \<Rightarrow> LLVMValue \<Rightarrow> bool \<Rightarrow> LLVMGeneratorState
     \<Rightarrow> LLVMBasicBlockRef \<times> LLVMBasicBlockRef \<times> LLVMGeneratorState" where
  "if_else_branch f condition_val_llvm has_else s =
     (let (then_bb, s1) = LLVMAppendBasicBlockInContext f ''then'' s;
          (else_bb, s2) = LLVMCreateBasicBlockInContext ''else'' s1;
          (merge_bb, s3) = LLVMCreateBasicBlockInContext ''ifcont'' s2;
          (br, s4) = build (CondBr condition_val_llvm then_bb (if has_else then else_bb else merge_bb))
                       VoidType s3
      in (else_bb, merge_bb, LLVMPositionBuilderAtEnd then_bb s4))"

definition if_else_condition ::
  "LLVMValue \<Rightarrow> LLVMGeneratorState \<Rightarrow> LLVMValue \<times> LLVMGeneratorState" where
  "if_else_condition c s =
     (if LLVMTypeOf c \<noteq> LLVMInt1Type
      then build (ICmp IntNE c (ConstNull (LLVMTypeOf c))) LLVMInt1Type s
      else (c, s))"

definition if_else_merge ::
  "nat \<Rightarrow> LLVMBasicBlockRef \<Rightarrow> LLVMGeneratorState \<Rightarrow> LLVMGeneratorState" where
  "if_else_merge f merge_bb s =
     LLVMPositionBuilderAtEnd merge_bb (LLVMAppendExistingBasicBlock f merge_bb s)"


text \<open>
  \<^verbatim>\<open>codegen_for_loop\<close> between the lowering of the range and the lowering of the body:
  the slot of the loop variable, the loop scope, the store of the start value, the four
  blocks, the test block, and the builder moved into the body block with the loop value
  as the piped value.
\<close>

record loop_context =
  loop_var_alloca :: LLVMValue
  loop_scope :: nat
  old_scope :: nat
  old_continue_target :: "LLVMBasicBlockRef option"
  old_break_target :: "LLVMBasicBlockRef option"
  loop_cond_bb :: LLVMBasicBlockRef
  loop_body_bb :: LLVMBasicBlockRef
  loop_inc_bb :: LLVMBasicBlockRef
  loop_end_bb :: LLVMBasicBlockRef
  old_piped_val_for_body :: "LLVMValue option"

definition for_loop_begin ::
  "string \<Rightarrow> LLVMValue \<Rightarrow> LLVMValue \<Rightarrow> LLVMGeneratorState
     \<Rightarrow> (loop_context \<times> LLVMGeneratorState) option" where
  "for_loop_begin loop_var_name start_val_llvm end_val_llvm s =
     (case current_function s of
        None \<Rightarrow> None
      | Some f \<Rightarrow>
          (case build_entry_alloca f LLVMInt32Type loop_var_name s of
             None \<Rightarrow> None
           | Some (slot, s1) \<Rightarrow>
               (let (scope, s2) = create_symbol_table (Some (current_scope_symbols s1)) s1;
                    old = current_scope_symbols s2;
                    s3 = s2\<lparr>current_scope_symbols := scope\<rparr>;
                    s4 = add_symbol (current_scope_symbols s3) loop_var_name slot LLVMInt32Type
                           False s3;
                    (st, s5) = build (Store start_val_llvm slot) VoidType s4;
                    old_continue = current_loop_cond_bb s5;
                    old_break = current_loop_end_bb s5;
                    (cond_bb, s6) = LLVMAppendBasicBlockInContext f ''loop.cond'' s5;
                    (body_bb, s7) = LLVMAppendBasicBlockInContext f ''loop.body'' s6;
                    (inc_bb, s8) = LLVMAppendBasicBlockInContext f ''loop.inc'' s7;
                    (end_bb, s9) = LLVMAppendBasicBlockInContext f ''loop.end'' s8;
                    s10 = s9\<lparr>current_loop_cond_bb := Some inc_bb,
                              current_loop_end_bb := Some end_bb\<rparr>;
                    (br, s11) = build (Br cond_bb) VoidType s10;
                    s12 = LLVMPositionBuilderAtEnd cond_bb s11;
                    (current_iter_val, s13) = build (Load LLVMInt32Type slot) LLVMInt32Type s12;
                    (condition, s14) = build (ICmp IntSLT current_iter_val end_val_llvm)
                                         LLVMInt1Type s13;
                    (cbr, s15) = build (CondBr condition body_bb end_bb) VoidType s14;
                    s16 = LLVMPositionBuilderAtEnd body_bb s15
                in Some (\<lparr>loop_var_alloca = slot, loop_scope = scope, old_scope = old,
                           old_continue_target = old_continue, old_break_target = old_break,
                           loop_cond_bb = cond_bb, loop_body_bb = body_bb, loop_inc_bb = inc_bb,
                           loop_end_bb = end_bb, old_piped_val_for_body = piped_value s16\<rparr>,
                         s16\<lparr>piped_value := Some current_iter_val\<rparr>))))"

text \<open>
  \<^verbatim>\<open>codegen_for_loop\<close> after the body: the piped value is put back, the body falls
  through to the increment block, which adds one to the slot and goes back to the test;
  the builder ends in the exit block, and the scope and the loop targets are put back.
\<close>

definition for_loop_end :: "loop_context \<Rightarrow> LLVMGeneratorState \<Rightarrow> LLVMGeneratorState" where
  "for_loop_end c s =
     (let s1 = s\<lparr>piped_value := old_piped_val_for_body c\<rparr>;
          s2 = branch_if_open (loop_inc_bb c) s1;
          s3 = LLVMPositionBuilderAtEnd (loop_inc_bb c) s2;
          (val_before_inc, s4) = build (Load LLVMInt32Type (loop_var_alloca c)) LLVMInt32Type s3;
          (next_val, s5) = build (Add val_before_inc (ConstInt LLVMInt32Type 1)) LLVMInt32Type s4;
          (st, s6) = build (Store next_val (loop_var_alloca c)) VoidType s5;
          (br, s7) = build (Br (loop_cond_bb c)) VoidType s6;
          s8 = LLVMPositionBuilderAtEnd (loop_end_bb c) s7;
          s9 = s8\<lparr>current_scope_symbols := old_scope c\<rparr>;
          s10 = free_symbol_table (loop_scope c) s9
      in s10\<lparr>current_loop_cond_bb := old_continue_target c,
              current_loop_end_bb := old_break_target c\<rparr>)"

text \<open>\<^verbatim>\<open>get_printf_function\<close>: the function named \<^verbatim>\<open>printf\<close>, declared on first use.\<close>

definition printf_signature :: LLVMType where
  "printf_signature = FunctionType LLVMInt32Type [PointerType LLVMInt8Type] True"

definition get_printf_function ::
  "LLVMGeneratorState \<Rightarrow> LLVMValue \<times> LLVMGeneratorState" where
  "get_printf_function s =
     (case LLVMGetNamedFunction s ''printf'' of
        Some printf_func_val \<Rightarrow> (printf_func_val, s)
      | None \<Rightarrow> LLVMAddFunction ''printf'' printf_signature s)"

definition fmt_int_ln :: string where "fmt_int_ln = [CHR ''%'', CHR ''d'', CHR 0x0A]"
definition fmt_float_ln :: string where "fmt_float_ln = [CHR ''%'', CHR ''f'', CHR 0x0A]"
definition fmt_str_ln :: string where "fmt_str_ln = [CHR ''%'', CHR ''s'', CHR 0x0A]"
definition fmt_unknown_ln :: string where
  "fmt_unknown_ln = ''Value(type_unhandled_by_print)'' @ [CHR 0x0A]"

text \<open>
  \<^verbatim>\<open>codegen_print_call\<close> once it has a value to print: the format string is chosen by the
  kind of the value's type, made into a global, and passed to \<^verbatim>\<open>printf\<close>. The global
  string belongs to the module of the insert block, so the builder must have one.
\<close>

definition print_call_emit ::
  "int \<Rightarrow> LLVMValue \<Rightarrow> LLVMGeneratorState \<Rightarrow> LLVMValue option \<times> LLVMGeneratorState" where
  "print_call_emit ln arg_to_print_llvm s =
     (let (printf_func_val, s1) = get_printf_function s
      in if LLVMGetInsertBlock s1 = None then (None, report DereferencedNull s1)
         else
           (case LLVMTypeOf arg_to_print_llvm of
              IntegerType w \<Rightarrow>
                (let (format_str_val, s2) = LLVMBuildGlobalStringPtr fmt_int_ln ''.fmt_int_ln'' s1
                 in returning (build (Call printf_signature printf_func_val
                                        [format_str_val, arg_to_print_llvm]) LLVMInt32Type s2))
            | FloatType \<Rightarrow>
                (let (format_str_val, s2) =
                       LLVMBuildGlobalStringPtr fmt_float_ln ''.fmt_float_ln'' s1;
                     (ext, s3) = build (FPExt arg_to_print_llvm DoubleType) DoubleType s2
                 in returning (build (Call printf_signature printf_func_val
                                        [format_str_val, ext]) LLVMInt32Type s3))
            | DoubleType \<Rightarrow>
                (let (format_str_val, s2) =
                       LLVMBuildGlobalStringPtr fmt_float_ln ''.fmt_float_ln'' s1
                 in returning (build (Call printf_signature printf_func_val
                                        [format_str_val, arg_to_print_llvm]) LLVMInt32Type s2))
            | PointerType (IntegerType w) \<Rightarrow>
                if w = 8 then
                  (let (format_str_val, s2) =
                         LLVMBuildGlobalStringPtr fmt_str_ln ''.fmt_str_ln'' s1
                   in returning (build (Call printf_signature printf_func_val
                                          [format_str_val, arg_to_print_llvm]) LLVMInt32Type s2))
                else
                  (let (format_str_val, s2) =
                         LLVMBuildGlobalStringPtr fmt_unknown_ln ''.fmt_unknown_ln''
                           (report (PrintUnhandledType ln (LLVMTypeOf arg_to_print_llvm)) s1)
                   in returning (build (Call printf_signature printf_func_val [format_str_val])
                                   LLVMInt32Type s2))
            | _ \<Rightarrow>
                (let (format_str_val, s2) =
                       LLVMBuildGlobalStringPtr fmt_unknown_ln ''.fmt_unknown_ln''
                         (report (PrintUnhandledType ln (LLVMTypeOf arg_to_print_llvm)) s1)
                 in returning (build (Call printf_signature printf_func_val [format_str_val])
                                 LLVMInt32Type s2))))"

text \<open>The value a print call prints when it has no expression of its own.\<close>

definition print_piped_argument ::
  "int \<Rightarrow> LLVMGeneratorState \<Rightarrow> LLVMValue option \<times> LLVMGeneratorState" where
  "print_piped_argument ln s =
     (case piped_value s of
        Some v \<Rightarrow> (Some v, s)
      | None \<Rightarrow> (None, report (PrintNoArgument ln) s))"

text \<open>The call instruction of \<^verbatim>\<open>codegen_func_call\<close>, the piped value first.\<close>

definition build_call ::
  "Symbol \<Rightarrow> LLVMValue option \<Rightarrow> LLVMValue list \<Rightarrow> LLVMGeneratorState
     \<Rightarrow> LLVMValue option \<times> LLVMGeneratorState" where
  "build_call symb explicit_piped_input_val vs s =
     returning (build (Call (sym_type symb) (sym_value symb)
                         ((case explicit_piped_input_val of Some p \<Rightarrow> [p] | None \<Rightarrow> []) @ vs))
                  (case sym_type symb of FunctionType ret ps va \<Rightarrow> ret | _ \<Rightarrow> VoidType) s)"

definition LLVMCountParamTypes :: "LLVMType \<Rightarrow> nat" where
  "LLVMCountParamTypes t = (case t of FunctionType ret ps va \<Rightarrow> length ps | _ \<Rightarrow> 0)"

definition is_function_type :: "LLVMType \<Rightarrow> bool" where
  "is_function_type t = (case t of FunctionType ret ps va \<Rightarrow> True | _ \<Rightarrow> False)"

text \<open>
  The lowering routines, mutually recursive as in the source. Each takes the node it
  lowers (the payload and the parent node of the C signature are the same node) and
  returns the value with the new state. \<^verbatim>\<open>codegen_call_args\<close> is the argument loop of
  \<^verbatim>\<open>codegen_func_call\<close>, with the index of the next argument.
  \<^verbatim>\<open>codegen_statement_list_node\<close> is the guarded call that lowers a body: the node must be
  present and be a statement list, otherwise nothing is lowered.
\<close>

function
  codegen_expr ::
    "LLVMGeneratorState \<Rightarrow> ASTNode option \<Rightarrow> LLVMValue option \<times> LLVMGeneratorState"
and codegen_binop ::
    "LLVMGeneratorState \<Rightarrow> ASTNode \<Rightarrow> LLVMValue option \<times> LLVMGeneratorState"
and codegen_unaryop ::
    "LLVMGeneratorState \<Rightarrow> ASTNode \<Rightarrow> LLVMValue option \<times> LLVMGeneratorState"
and codegen_assignment ::
    "LLVMGeneratorState \<Rightarrow> ASTNode \<Rightarrow> LLVMValue option \<times> LLVMGeneratorState"
and codegen_func_def ::
    "LLVMGeneratorState \<Rightarrow> ASTNode \<Rightarrow> LLVMValue option \<times> LLVMGeneratorState"
and codegen_func_call ::
    "LLVMGeneratorState \<Rightarrow> ASTNode \<Rightarrow> LLVMValue option
       \<Rightarrow> LLVMValue option \<times> LLVMGeneratorState"
and codegen_call_args ::
    "LLVMGeneratorState \<Rightarrow> string \<Rightarrow> nat \<Rightarrow> ASTNode list
       \<Rightarrow> LLVMValue list option \<times> LLVMGeneratorState"
and codegen_pipeline ::
    "LLVMGeneratorState \<Rightarrow> ASTNode \<Rightarrow> LLVMValue option \<times> LLVMGeneratorState"
and codegen_if_else ::
    "LLVMGeneratorState \<Rightarrow> ASTNode \<Rightarrow> LLVMValue option \<times> LLVMGeneratorState"
and codegen_range ::
    "LLVMGeneratorState \<Rightarrow> ASTNode \<Rightarrow> LLVMValue option \<times> LLVMGeneratorState"
and codegen_for_loop ::
    "LLVMGeneratorState \<Rightarrow> ASTNode \<Rightarrow> LLVMValue option \<times> LLVMGeneratorState"
and codegen_return ::
    "LLVMGeneratorState \<Rightarrow> ASTNode \<Rightarrow> LLVMValue option \<times> LLVMGeneratorState"
and codegen_print_call ::
    "LLVMGeneratorState \<Rightarrow> ASTNode \<Rightarrow> LLVMValue option \<times> LLVMGeneratorState"
and codegen_statement_list_node ::
    "LLVMGeneratorState \<Rightarrow> ASTNode option \<Rightarrow> LLVMGeneratorState"
and codegen_statement_list_payload ::
    "LLVMGeneratorState \<Rightarrow> ASTNode option list \<Rightarrow> LLVMGeneratorState"
where
  "codegen_expr s node =
     (case node of
        None \<Rightarrow> (None, s)
      | Some n \<Rightarrow>
          (case n of
             NODE_NUMBER ln v \<Rightarrow> codegen_number s v
           | NODE_IDENTIFIER ln nm \<Rightarrow> codegen_identifier s nm ln
           | NODE_BINARY_OP ln op l r \<Rightarrow> codegen_binop s n
           | NODE_UNARY_OP ln op x \<Rightarrow> codegen_unaryop s n
           | NODE_ASSIGNMENT ln nm e \<Rightarrow> codegen_assignment s n
           | NODE_FUNCTION_CALL ln nm args \<Rightarrow> codegen_func_call s n None
           | NODE_PIPELINE ln l r \<Rightarrow> codegen_pipeline s n
           | NODE_IF_ELSE ln c t e \<Rightarrow> codegen_if_else s n
           | NODE_PRINT_CALL ln e \<Rightarrow> codegen_print_call s n
           | NODE_RANGE ln a b \<Rightarrow> codegen_range s n
           | _ \<Rightarrow> (None, report (NotAnExpression (line_num n) (node_type n)) s)))"
| "codegen_binop s node =
     (case node of
        NODE_BINARY_OP ln op left right \<Rightarrow>
          (let (L, s1) = codegen_expr s left in
           if op \<noteq> OP_AND \<and> op \<noteq> OP_OR then
             (let (R, s2) = codegen_expr s1 right in
              case L of
                None \<Rightarrow> (None, report (OperandError ln) s2)
              | Some lv \<Rightarrow>
                  (case R of
                     None \<Rightarrow> (None, report (OperandError ln) s2)
                   | Some rv \<Rightarrow> binop_switch op lv rv ln s2))
           else
             (case L of
                None \<Rightarrow> (None, report (OperandError ln) s1)
              | Some lv \<Rightarrow>
                  if op = OP_AND then
                    (case and_branch lv s1 of
                       None \<Rightarrow> (None, report DereferencedNull s1)
                     | Some (eval_L_block, merge_block, s2) \<Rightarrow>
                         (let (R, s3) = codegen_expr s2 right
                          in and_merge eval_L_block merge_block R s3))
                  else
                    (case or_branch lv s1 of
                       None \<Rightarrow> (None, report DereferencedNull s1)
                     | Some (eval_L_block, merge_block, s2) \<Rightarrow>
                         (let (R, s3) = codegen_expr s2 right
                          in or_merge eval_L_block merge_block R s3))))
      | _ \<Rightarrow> (None, s))"
| "codegen_unaryop s node =
     (case node of
        NODE_UNARY_OP ln op operand_node \<Rightarrow>
          (let (operand, s1) = codegen_expr s operand_node in
           case operand of
             None \<Rightarrow> (None, s1)
           | Some v \<Rightarrow> unaryop_switch op v ln s1)
      | _ \<Rightarrow> (None, s))"
| "codegen_assignment s node =
     (case node of
        NODE_ASSIGNMENT ln var_name expression \<Rightarrow>
          (let (val_to_assign, s1) = codegen_expr s expression in
           case val_to_assign of
             None \<Rightarrow> (None, report (AssignmentFailed ln var_name) s1)
           | Some v \<Rightarrow> assignment_store ln var_name v s1)
      | _ \<Rightarrow> (None, s))"
| "codegen_func_def s node =
     (case node of
        NODE_FUNCTION_DEF ln func_name param_names body_stmts_node \<Rightarrow>
          (let (func_val, saved, s1) = func_def_begin func_name param_names s;
               s2 = codegen_statement_list_node s1 body_stmts_node
           in (Some func_val, func_def_end saved s2))
      | _ \<Rightarrow> (None, s))"
| "codegen_func_call s node explicit_piped_input_val =
     (case node of
        NODE_FUNCTION_CALL ln func_name args \<Rightarrow>
          (case find_symbol s (global_symbols s) func_name of
             None \<Rightarrow> (None, report (UndefinedFunction ln func_name) s)
           | Some symb \<Rightarrow>
               if \<not> is_function_type (sym_type symb)
               then (None, report (NotAFunction ln func_name) s)
               else
                 (let expected_param_count = LLVMCountParamTypes (sym_type symb);
                      actual_arg_count =
                        length args + (case explicit_piped_input_val of Some p \<Rightarrow> 1 | None \<Rightarrow> 0)
                  in if expected_param_count \<noteq> actual_arg_count
                     then (None, report (IncorrectArgumentCount ln func_name
                                           expected_param_count actual_arg_count) s)
                     else
                       (let (call_args_llvm, s1) = codegen_call_args s func_name 0 args in
                        case call_args_llvm of
                          None \<Rightarrow> (None, s1)
                        | Some vs \<Rightarrow> build_call symb explicit_piped_input_val vs s1)))
      | _ \<Rightarrow> (None, s))"
| "codegen_call_args s func_name i args =
     (case args of
        [] \<Rightarrow> (Some [], s)
      | a # rest \<Rightarrow>
          (let (v, s1) = codegen_expr s (Some a) in
           case v of
             None \<Rightarrow> (None, report (ArgumentFailed (line_num a) (i + 1) func_name) s1)
           | Some x \<Rightarrow>
               (let (vs, s2) = codegen_call_args s1 func_name (i + 1) rest in
                case vs of
                  None \<Rightarrow> (None, s2)
                | Some xs \<Rightarrow> (Some (x # xs), s2))))"
| "codegen_pipeline s node =
     (case node of
        NODE_PIPELINE ln left_expr right_op \<Rightarrow>
          (let (lhs_val_llvm, s1) = codegen_expr s left_expr;
               preserved_piped_value_in_state = piped_value s1;
               s2 = s1\<lparr>piped_value := lhs_val_llvm\<rparr>;
               (result_llvm, s3) =
                 (case right_op of
                    NODE_FUNCTION_CALL cl nm args \<Rightarrow> codegen_func_call s2 right_op lhs_val_llvm
                  | NODE_IF_ELSE il c t e \<Rightarrow> codegen_expr s2 (Some right_op)
                  | NODE_FOR_LOOP fl original_range_expr loop_var body \<Rightarrow>
                      codegen_expr s2 (Some (NODE_FOR_LOOP fl left_expr loop_var body))
                  | NODE_PRINT_CALL pl e \<Rightarrow> codegen_expr s2 (Some right_op)
                  | _ \<Rightarrow> (None, report (InvalidPipelineRHS (line_num right_op)
                                         (node_type right_op)) s2))
           in (result_llvm, s3\<lparr>piped_value := preserved_piped_value_in_state\<rparr>))
      | _ \<Rightarrow> (None, s))"
| "codegen_if_else s node =
     (case node of
        NODE_IF_ELSE ln condition_expr then_stmts_node else_stmts_node \<Rightarrow>
          (let (condition, s1) = codegen_expr s condition_expr in
           case condition of
             None \<Rightarrow> (None, s1)
           | Some c \<Rightarrow>
               (let (condition_val_llvm, s2) = if_else_condition c s1 in
                case current_function s2 of
                  None \<Rightarrow> (None, report (IfOutsideFunction ln) s2)
                | Some f \<Rightarrow>
                    (let (else_bb, merge_bb, s3) =
                           if_else_branch f condition_val_llvm (else_stmts_node \<noteq> None) s2;
                         s4 = codegen_statement_list_node s3 then_stmts_node;
                         s5 = branch_if_open merge_bb s4;
                         s6 = (case else_stmts_node of
                                 None \<Rightarrow> s5
                               | Some e \<Rightarrow>
                                   branch_if_open merge_bb
                                     (codegen_statement_list_node
                                        (LLVMPositionBuilderAtEnd else_bb
                                           (LLVMAppendExistingBasicBlock f else_bb s5))
                                        else_stmts_node))
                     in (None, if_else_merge f merge_bb s6))))
      | _ \<Rightarrow> (None, s))"
| "codegen_range s node =
     (case node of
        NODE_RANGE ln start_node end_node \<Rightarrow>
          (let (start_val_check, s1) = codegen_expr s start_node;
               (end_val_check, s2) = codegen_expr s1 end_node
           in if start_val_check = None \<or> end_val_check = None
              then (None, report (RangeOperandError ln) s2)
              else (None, s2))
      | _ \<Rightarrow> (None, s))"
| "codegen_for_loop s node =
     (case node of
        NODE_FOR_LOOP ln range_expr loop_var_name body_stmts_node \<Rightarrow>
          if current_function s = None then (None, report (ForOutsideFunction ln) s)
          else
            (case range_expr of
               Some (NODE_RANGE rl start_node end_node) \<Rightarrow>
                 (let (start_val_llvm, s1) = codegen_expr s start_node;
                      (end_val_llvm, s2) = codegen_expr s1 end_node
                  in case start_val_llvm of
                       None \<Rightarrow> (None, report (ForRangeFailed ln) s2)
                     | Some a \<Rightarrow>
                         (case end_val_llvm of
                            None \<Rightarrow> (None, report (ForRangeFailed ln) s2)
                          | Some b \<Rightarrow>
                              (case for_loop_begin loop_var_name a b s2 of
                                 None \<Rightarrow> (None, report DereferencedNull s2)
                               | Some (c, s3) \<Rightarrow>
                                   (None, for_loop_end c
                                            (codegen_statement_list_node s3 body_stmts_node)))))
             | _ \<Rightarrow> (None, report (ForRequiresRange ln) s))
      | _ \<Rightarrow> (None, s))"
| "codegen_return s node =
     (case node of
        NODE_RETURN ln val \<Rightarrow>
          if current_function s = None then (None, report (ReturnOutsideFunction ln) s)
          else
            (case val of
               Some e \<Rightarrow>
                 (let (ret_val_llvm, s1) = codegen_expr s val in
                  case ret_val_llvm of
                    None \<Rightarrow> (None, s1)
                  | Some v \<Rightarrow> returning (build (Ret v) VoidType s1))
             | None \<Rightarrow> returning (build RetVoid VoidType s))
      | _ \<Rightarrow> (None, s))"
| "codegen_print_call s node =
     (case node of
        NODE_PRINT_CALL ln expression \<Rightarrow>
          (let (arg_to_print_llvm, s1) =
                 (case expression of
                    Some e \<Rightarrow> codegen_expr s expression
                  | None \<Rightarrow> print_piped_argument ln s)
           in case arg_to_print_llvm of
                None \<Rightarrow> (None, s1)
              | Some v \<Rightarrow> print_call_emit ln v s1)
      | _ \<Rightarrow> (None, s))"
| "codegen_statement_list_node s node =
     (case node of
        Some (NODE_STATEMENT_LIST ln stmts) \<Rightarrow> codegen_statement_list_payload s stmts
      | _ \<Rightarrow> s)"
| "codegen_statement_list_payload s stmts =
     (case stmts of
        [] \<Rightarrow> s
      | None # rest \<Rightarrow> codegen_statement_list_payload s rest
      | Some stmt_node # rest \<Rightarrow>
          if insert_block_terminated s then s
          else
            (case stmt_node of
               NODE_FUNCTION_DEF ln nm ps b \<Rightarrow>
                 codegen_statement_list_payload (snd (codegen_func_def s stmt_node)) rest
             | NODE_RETURN ln v \<Rightarrow> snd (codegen_return s stmt_node)
             | NODE_FOR_LOOP ln r v b \<Rightarrow>
                 codegen_statement_list_payload (snd (codegen_for_loop s stmt_node)) rest
             | NODE_STATEMENT_LIST ln inner \<Rightarrow>
                 codegen_statement_list_payload (codegen_statement_list_payload s inner) rest
             | _ \<Rightarrow> codegen_statement_list_payload (snd (codegen_expr s (Some stmt_node))) rest))"
  by pat_completeness auto

termination
  by (relation "measure (\<lambda>x. case x of
        Inl (Inl (Inl (s, n))) \<Rightarrow> 2 * size_option size n + 1
      | Inl (Inl (Inr (Inl (s, n)))) \<Rightarrow> 2 * size n + 2
      | Inl (Inl (Inr (Inr (s, n)))) \<Rightarrow> 2 * size n + 2
      | Inl (Inr (Inl (Inl (s, n)))) \<Rightarrow> 2 * size n + 2
      | Inl (Inr (Inl (Inr (s, n)))) \<Rightarrow> 2 * size n + 2
      | Inl (Inr (Inr (Inl (s, n, p)))) \<Rightarrow> 2 * size n + 2
      | Inl (Inr (Inr (Inr (s, nm, i, args)))) \<Rightarrow> 2 * size_list size args + 2
      | Inr (Inl (Inl (Inl (s, n)))) \<Rightarrow> 2 * size n + 2
      | Inr (Inl (Inl (Inr (s, n)))) \<Rightarrow> 2 * size n + 2
      | Inr (Inl (Inr (Inl (s, n)))) \<Rightarrow> 2 * size n + 2
      | Inr (Inl (Inr (Inr (s, n)))) \<Rightarrow> 2 * size n + 2
      | Inr (Inr (Inl (Inl (s, n)))) \<Rightarrow> 2 * size n + 2
      | Inr (Inr (Inl (Inr (s, n)))) \<Rightarrow> 2 * size n + 2
      | Inr (Inr (Inr (Inl (s, n)))) \<Rightarrow> 2 * size_option size n + 1
      | Inr (Inr (Inr (Inr (s, xs)))) \<Rightarrow> 2 * size_list (size_option size) xs + 1)")
     auto

declare codegen_expr.simps [simp del] codegen_binop.simps [simp del]
  codegen_unaryop.simps [simp del] codegen_assignment.simps [simp del]
  codegen_func_def.simps [simp del] codegen_func_call.simps [simp del]
  codegen_call_args.simps [simp del] codegen_pipeline.simps [simp del]
  codegen_if_else.simps [simp del] codegen_range.simps [simp del]
  codegen_for_loop.simps [simp del] codegen_return.simps [simp del]
  codegen_print_call.simps [simp del] codegen_statement_list_node.simps [simp del]
  codegen_statement_list_payload.simps [simp del]

text \<open>
  \<^verbatim>\<open>create_llvm_generator_state\<close>: an empty module, a builder without a position, and the
  global symbol table, which is also the current scope.
\<close>

definition create_llvm_generator_state :: LLVMGeneratorState where
  "create_llvm_generator_state =
     \<lparr>ctx_blocks = [], mod_functions = [], mod_globals = [], next_value = 0,
      builder = None, current_function = None,
      current_scope_symbols = 0, global_symbols = 0,
      symtabs = [Some \<lparr>entries = [], parent = None\<rparr>],
      piped_value = None, current_loop_var_name = None, current_loop_var_ptr = None,
      current_loop_cond_bb = None, current_loop_end_bb = None, stderr = []\<rparr>"

text \<open>
  \<^verbatim>\<open>llvm_generate_code\<close> for a root that is a statement list, up to the lowering of the
  list: \<^verbatim>\<open>main\<close> with its entry block, the builder in it, and a scope under the global
  one. The result carries the function and the scope that were current before.
\<close>

definition generate_code_begin ::
  "LLVMGeneratorState \<Rightarrow> nat option \<times> nat \<times> LLVMGeneratorState" where
  "generate_code_begin s =
     (let f = length (mod_functions s);
          (main_func, s1) = LLVMAddFunction ''main'' (FunctionType LLVMInt32Type [] False) s;
          (main_entry_block, s2) = LLVMAppendBasicBlockInContext f ''main_script_entry'' s1;
          s3 = LLVMPositionBuilderAtEnd main_entry_block s2;
          preserved_outer_func = current_function s3;
          preserved_outer_scope = current_scope_symbols s3;
          (scope, s4) = create_symbol_table (Some (global_symbols s3))
                          (s3\<lparr>current_function := Some f\<rparr>)
      in (preserved_outer_func, preserved_outer_scope, s4\<lparr>current_scope_symbols := scope\<rparr>))"

text \<open>
  \<^verbatim>\<open>llvm_generate_code\<close>: the statements of the root list become the body of \<^verbatim>\<open>main\<close>,
  which returns 0 unless its last block is already closed. A root that is not a statement
  list gets a function that returns 1. The module verifier's diagnostics are not modelled.
\<close>

definition llvm_generate_code :: "LLVMGeneratorState \<Rightarrow> ASTNode option \<Rightarrow> LLVMGeneratorState"
  where
  "llvm_generate_code s root_ast_node =
     (case root_ast_node of
        Some (NODE_STATEMENT_LIST ln stmts) \<Rightarrow>
          (let (preserved_outer_func, preserved_outer_scope, s4) = generate_code_begin s;
               s5 = codegen_statement_list_payload s4 stmts;
               s6 = (if insert_block_open s5
                     then snd (build (Ret (ConstInt LLVMInt32Type 0)) VoidType s5) else s5);
               s7 = s6\<lparr>current_function := preserved_outer_func\<rparr>;
               s8 = free_symbol_table (current_scope_symbols s7) s7
           in s8\<lparr>current_scope_symbols := preserved_outer_scope\<rparr>)
      | _ \<Rightarrow>
          (let f = length (mod_functions s);
               (dummy_func, s1) = LLVMAddFunction ''main_ast_error''
                                    (FunctionType LLVMInt32Type [] False)
                                    (report RootNotStatementList s);
               (dummy_entry, s2) = LLVMAppendBasicBlockInContext f ''entry_ast_error'' s1
           in snd (build (Ret (ConstInt LLVMInt32Type 1)) VoidType
                     (LLVMPositionBuilderAtEnd dummy_entry s2))))"

text \<open>The state in which \<^verbatim>\<open>llvm_generate_code\<close> lowers the first statement of a program.\<close>

definition example_start :: LLVMGeneratorState where
  "example_start = snd (snd (generate_code_begin create_llvm_generator_state))"

text \<open>
  The part of the state that a lowering leaves as it found it: the piped value, the
  current function, the two scopes and the blocks of the enclosing loop.
\<close>

definition context_of ::
  "LLVMGeneratorState \<Rightarrow>
     LLVMValue option \<times> nat option \<times> nat \<times> nat \<times> LLVMBasicBlockRef option \<times> LLVMBasicBlockRef option"
  where
  "context_of s =
     (piped_value s, current_function s, current_scope_symbols s, global_symbols s,
      current_loop_cond_bb s, current_loop_end_bb s)"

text \<open>The number of actual arguments of a call: the explicit ones and the piped one.\<close>

definition actual_arg_count :: "ASTNode list \<Rightarrow> LLVMValue option \<Rightarrow> nat" where
  "actual_arg_count args piped = length args + (case piped of Some p \<Rightarrow> 1 | None \<Rightarrow> 0)"

text \<open>The program \<^verbatim>\<open>func add(a, b) { return a + b; }\<close> and the state after it.\<close>

definition example_add :: ASTNode where
  "example_add =
     NODE_FUNCTION_DEF 1 ''add'' [''a'', ''b'']
       (Some (NODE_STATEMENT_LIST 1
          [Some (NODE_RETURN 1
             (Some (NODE_BINARY_OP 1 OP_PLUS (Some (NODE_IDENTIFIER 1 ''a''))
                (Some (NODE_IDENTIFIER 1 ''b'')))))]))"

definition example_after_add :: LLVMGeneratorState where
  "example_after_add = snd (codegen_func_def example_start example_add)"

text \<open>The program \<^verbatim>\<open>print(1); print(2);\<close>.\<close>

definition example_two_prints :: ASTNode where
  "example_two_prints =
     NODE_STATEMENT_LIST 1
       [Some (NODE_PRINT_CALL 1 (Some (NODE_NUMBER 1 1))),
        Some (NODE_PRINT_CALL 2 (Some (NODE_NUMBER 2 2)))]"

text \<open>The format string that \<^verbatim>\<open>codegen_print_call\<close> picks for a value of the given type.\<close>

fun print_format :: "LLVMType \<Rightarrow> string" where
  "print_format (IntegerType w) = fmt_int_ln"
| "print_format FloatType = fmt_float_ln"
| "print_format DoubleType = fmt_float_ln"
| "print_format (PointerType (IntegerType w)) = (if w = 8 then fmt_str_ln else fmt_unknown_ln)"
| "print_format t = fmt_unknown_ln"

text \<open>The state in which the body of \<^verbatim>\<open>add\<close> is lowered.\<close>

definition example_in_add :: LLVMGeneratorState where
  "example_in_add = snd (snd (func_def_begin ''add'' [''a'', ''b''] example_start))"

text \<open>What the global table holds under a name.\<close>

definition lookup_global :: "LLVMGeneratorState \<Rightarrow> string \<Rightarrow> Symbol option" where
  "lookup_global s nm =
     (case get_symtab s (global_symbols s) of
        None \<Rightarrow> None
      | Some tab \<Rightarrow> find (\<lambda>e. sym_name e = nm) (entries tab))"

text \<open>A step that leaves the symbol tables alone.\<close>

definition same_scopes :: "LLVMGeneratorState \<Rightarrow> LLVMGeneratorState \<Rightarrow> bool" where
  "same_scopes s s' \<longleftrightarrow>
     symtabs s' = symtabs s \<and> global_symbols s' = global_symbols s \<and>
     length (mod_functions s) \<le> length (mod_functions s')"

text \<open>
  A step that keeps every name of the global table bound: to the symbol it had, or to a
  function that the step has added to the module.
\<close>

definition keeps_globals :: "LLVMGeneratorState \<Rightarrow> LLVMGeneratorState \<Rightarrow> bool" where
  "keeps_globals s s' \<longleftrightarrow>
     global_symbols s' = global_symbols s \<and>
     length (symtabs s) \<le> length (symtabs s') \<and>
     length (mod_functions s) \<le> length (mod_functions s') \<and>
     (global_symbols s < length (symtabs s) \<longrightarrow>
        (\<forall>nm e. lookup_global s nm = Some e \<longrightarrow>
           (\<exists>e'. lookup_global s' nm = Some e' \<and>
              (e' = e \<or> (\<exists>i t. sym_value e' = Function i t \<and> length (mod_functions s) \<le> i)))))"

text \<open>
  A program of a hundred functions with empty bodies, named \<^verbatim>\<open>f\<close>, \<^verbatim>\<open>ff\<close>, \<^verbatim>\<open>fff\<close> and so
  on, and the state of the generator after their definitions.
\<close>

definition example_names :: "string list" where
  "example_names = map (\<lambda>i. replicate (Suc i) (CHR ''f'')) [0..<100]"

definition example_empty_def :: "string \<Rightarrow> ASTNode option" where
  "example_empty_def nm = Some (NODE_FUNCTION_DEF 1 nm [] (Some (NODE_STATEMENT_LIST 1 [])))"

definition example_hundred :: LLVMGeneratorState where
  "example_hundred =
     codegen_statement_list_payload example_start (map example_empty_def example_names)"





section \<open>Properties of the generator\<close>

subsection \<open>What each operation of the builder leaves alone\<close>

lemma report_frame [simp]:
  "ctx_blocks (report d s) = ctx_blocks s"
  "mod_functions (report d s) = mod_functions s"
  "mod_globals (report d s) = mod_globals s"
  "next_value (report d s) = next_value s"
  "builder (report d s) = builder s"
  "current_function (report d s) = current_function s"
  "current_scope_symbols (report d s) = current_scope_symbols s"
  "global_symbols (report d s) = global_symbols s"
  "symtabs (report d s) = symtabs s"
  "piped_value (report d s) = piped_value s"
  "current_loop_var_name (report d s) = current_loop_var_name s"
  "current_loop_var_ptr (report d s) = current_loop_var_ptr s"
  "current_loop_cond_bb (report d s) = current_loop_cond_bb s"
  "current_loop_end_bb (report d s) = current_loop_end_bb s"
  by (simp_all add: report_def split: option.splits)

lemma append_instr_frame [simp]:
  "mod_functions (append_instr b i s) = mod_functions s"
  "mod_globals (append_instr b i s) = mod_globals s"
  "next_value (append_instr b i s) = next_value s"
  "builder (append_instr b i s) = builder s"
  "current_function (append_instr b i s) = current_function s"
  "current_scope_symbols (append_instr b i s) = current_scope_symbols s"
  "global_symbols (append_instr b i s) = global_symbols s"
  "symtabs (append_instr b i s) = symtabs s"
  "piped_value (append_instr b i s) = piped_value s"
  "current_loop_var_name (append_instr b i s) = current_loop_var_name s"
  "current_loop_var_ptr (append_instr b i s) = current_loop_var_ptr s"
  "current_loop_cond_bb (append_instr b i s) = current_loop_cond_bb s"
  "current_loop_end_bb (append_instr b i s) = current_loop_end_bb s"
  "stderr (append_instr b i s) = stderr s"
  by (simp_all add: append_instr_def split: option.splits)

lemma prepend_instr_frame [simp]:
  "mod_functions (prepend_instr b i s) = mod_functions s"
  "mod_globals (prepend_instr b i s) = mod_globals s"
  "next_value (prepend_instr b i s) = next_value s"
  "builder (prepend_instr b i s) = builder s"
  "current_function (prepend_instr b i s) = current_function s"
  "current_scope_symbols (prepend_instr b i s) = current_scope_symbols s"
  "global_symbols (prepend_instr b i s) = global_symbols s"
  "symtabs (prepend_instr b i s) = symtabs s"
  "piped_value (prepend_instr b i s) = piped_value s"
  "current_loop_var_name (prepend_instr b i s) = current_loop_var_name s"
  "current_loop_var_ptr (prepend_instr b i s) = current_loop_var_ptr s"
  "current_loop_cond_bb (prepend_instr b i s) = current_loop_cond_bb s"
  "current_loop_end_bb (prepend_instr b i s) = current_loop_end_bb s"
  "stderr (prepend_instr b i s) = stderr s"
  by (simp_all add: prepend_instr_def split: option.splits)

lemma build_frame [simp]:
  "mod_functions (snd (build opc t s)) = mod_functions s"
  "mod_globals (snd (build opc t s)) = mod_globals s"
  "builder (snd (build opc t s)) = builder s"
  "current_function (snd (build opc t s)) = current_function s"
  "current_scope_symbols (snd (build opc t s)) = current_scope_symbols s"
  "global_symbols (snd (build opc t s)) = global_symbols s"
  "symtabs (snd (build opc t s)) = symtabs s"
  "piped_value (snd (build opc t s)) = piped_value s"
  "current_loop_var_name (snd (build opc t s)) = current_loop_var_name s"
  "current_loop_var_ptr (snd (build opc t s)) = current_loop_var_ptr s"
  "current_loop_cond_bb (snd (build opc t s)) = current_loop_cond_bb s"
  "current_loop_end_bb (snd (build opc t s)) = current_loop_end_bb s"
  "stderr (snd (build opc t s)) = stderr s"
  by (simp_all add: build_def Let_def append_instr_def split: option.splits)

lemma LLVMBuildAlloca_frame [simp]:
  "mod_functions (snd (LLVMBuildAlloca t nm s)) = mod_functions s"
  "mod_globals (snd (LLVMBuildAlloca t nm s)) = mod_globals s"
  "builder (snd (LLVMBuildAlloca t nm s)) = builder s"
  "current_function (snd (LLVMBuildAlloca t nm s)) = current_function s"
  "current_scope_symbols (snd (LLVMBuildAlloca t nm s)) = current_scope_symbols s"
  "global_symbols (snd (LLVMBuildAlloca t nm s)) = global_symbols s"
  "symtabs (snd (LLVMBuildAlloca t nm s)) = symtabs s"
  "piped_value (snd (LLVMBuildAlloca t nm s)) = piped_value s"
  "current_loop_var_name (snd (LLVMBuildAlloca t nm s)) = current_loop_var_name s"
  "current_loop_var_ptr (snd (LLVMBuildAlloca t nm s)) = current_loop_var_ptr s"
  "current_loop_cond_bb (snd (LLVMBuildAlloca t nm s)) = current_loop_cond_bb s"
  "current_loop_end_bb (snd (LLVMBuildAlloca t nm s)) = current_loop_end_bb s"
  "stderr (snd (LLVMBuildAlloca t nm s)) = stderr s"
  by (simp_all add: LLVMBuildAlloca_def Let_def append_instr_def split: option.splits)

lemma create_symbol_table_frame [simp]:
  "ctx_blocks (snd (create_symbol_table par s)) = ctx_blocks s"
  "mod_functions (snd (create_symbol_table par s)) = mod_functions s"
  "mod_globals (snd (create_symbol_table par s)) = mod_globals s"
  "next_value (snd (create_symbol_table par s)) = next_value s"
  "builder (snd (create_symbol_table par s)) = builder s"
  "current_function (snd (create_symbol_table par s)) = current_function s"
  "current_scope_symbols (snd (create_symbol_table par s)) = current_scope_symbols s"
  "global_symbols (snd (create_symbol_table par s)) = global_symbols s"
  "piped_value (snd (create_symbol_table par s)) = piped_value s"
  "current_loop_var_name (snd (create_symbol_table par s)) = current_loop_var_name s"
  "current_loop_var_ptr (snd (create_symbol_table par s)) = current_loop_var_ptr s"
  "current_loop_cond_bb (snd (create_symbol_table par s)) = current_loop_cond_bb s"
  "current_loop_end_bb (snd (create_symbol_table par s)) = current_loop_end_bb s"
  "stderr (snd (create_symbol_table par s)) = stderr s"
  by (simp_all add: create_symbol_table_def split: option.splits)

lemma free_symbol_table_frame [simp]:
  "ctx_blocks (free_symbol_table st s) = ctx_blocks s"
  "mod_functions (free_symbol_table st s) = mod_functions s"
  "mod_globals (free_symbol_table st s) = mod_globals s"
  "next_value (free_symbol_table st s) = next_value s"
  "builder (free_symbol_table st s) = builder s"
  "current_function (free_symbol_table st s) = current_function s"
  "current_scope_symbols (free_symbol_table st s) = current_scope_symbols s"
  "global_symbols (free_symbol_table st s) = global_symbols s"
  "piped_value (free_symbol_table st s) = piped_value s"
  "current_loop_var_name (free_symbol_table st s) = current_loop_var_name s"
  "current_loop_var_ptr (free_symbol_table st s) = current_loop_var_ptr s"
  "current_loop_cond_bb (free_symbol_table st s) = current_loop_cond_bb s"
  "current_loop_end_bb (free_symbol_table st s) = current_loop_end_bb s"
  "stderr (free_symbol_table st s) = stderr s"
  by (simp_all add: free_symbol_table_def split: option.splits)

lemma add_symbol_frame [simp]:
  "ctx_blocks (add_symbol st nm v t p s) = ctx_blocks s"
  "mod_functions (add_symbol st nm v t p s) = mod_functions s"
  "mod_globals (add_symbol st nm v t p s) = mod_globals s"
  "next_value (add_symbol st nm v t p s) = next_value s"
  "builder (add_symbol st nm v t p s) = builder s"
  "current_function (add_symbol st nm v t p s) = current_function s"
  "current_scope_symbols (add_symbol st nm v t p s) = current_scope_symbols s"
  "global_symbols (add_symbol st nm v t p s) = global_symbols s"
  "piped_value (add_symbol st nm v t p s) = piped_value s"
  "current_loop_var_name (add_symbol st nm v t p s) = current_loop_var_name s"
  "current_loop_var_ptr (add_symbol st nm v t p s) = current_loop_var_ptr s"
  "current_loop_cond_bb (add_symbol st nm v t p s) = current_loop_cond_bb s"
  "current_loop_end_bb (add_symbol st nm v t p s) = current_loop_end_bb s"
  by (simp_all add: add_symbol_def Let_def report_def split: option.splits)

lemma LLVMPositionBuilderAtEnd_frame [simp]:
  "ctx_blocks (LLVMPositionBuilderAtEnd b s) = ctx_blocks s"
  "mod_functions (LLVMPositionBuilderAtEnd b s) = mod_functions s"
  "mod_globals (LLVMPositionBuilderAtEnd b s) = mod_globals s"
  "next_value (LLVMPositionBuilderAtEnd b s) = next_value s"
  "current_function (LLVMPositionBuilderAtEnd b s) = current_function s"
  "current_scope_symbols (LLVMPositionBuilderAtEnd b s) = current_scope_symbols s"
  "global_symbols (LLVMPositionBuilderAtEnd b s) = global_symbols s"
  "symtabs (LLVMPositionBuilderAtEnd b s) = symtabs s"
  "piped_value (LLVMPositionBuilderAtEnd b s) = piped_value s"
  "current_loop_var_name (LLVMPositionBuilderAtEnd b s) = current_loop_var_name s"
  "current_loop_var_ptr (LLVMPositionBuilderAtEnd b s) = current_loop_var_ptr s"
  "current_loop_cond_bb (LLVMPositionBuilderAtEnd b s) = current_loop_cond_bb s"
  "current_loop_end_bb (LLVMPositionBuilderAtEnd b s) = current_loop_end_bb s"
  "stderr (LLVMPositionBuilderAtEnd b s) = stderr s"
  by (simp_all add: LLVMPositionBuilderAtEnd_def split: option.splits)

lemma LLVMClearInsertionPosition_frame [simp]:
  "ctx_blocks (LLVMClearInsertionPosition s) = ctx_blocks s"
  "mod_functions (LLVMClearInsertionPosition s) = mod_functions s"
  "mod_globals (LLVMClearInsertionPosition s) = mod_globals s"
  "next_value (LLVMClearInsertionPosition s) = next_value s"
  "current_function (LLVMClearInsertionPosition s) = current_function s"
  "current_scope_symbols (LLVMClearInsertionPosition s) = current_scope_symbols s"
  "global_symbols (LLVMClearInsertionPosition s) = global_symbols s"
  "symtabs (LLVMClearInsertionPosition s) = symtabs s"
  "piped_value (LLVMClearInsertionPosition s) = piped_value s"
  "current_loop_var_name (LLVMClearInsertionPosition s) = current_loop_var_name s"
  "current_loop_var_ptr (LLVMClearInsertionPosition s) = current_loop_var_ptr s"
  "current_loop_cond_bb (LLVMClearInsertionPosition s) = current_loop_cond_bb s"
  "current_loop_end_bb (LLVMClearInsertionPosition s) = current_loop_end_bb s"
  "stderr (LLVMClearInsertionPosition s) = stderr s"
  by (simp_all add: LLVMClearInsertionPosition_def split: option.splits)

lemma LLVMCreateBasicBlockInContext_frame [simp]:
  "mod_functions (snd (LLVMCreateBasicBlockInContext nm s)) = mod_functions s"
  "mod_globals (snd (LLVMCreateBasicBlockInContext nm s)) = mod_globals s"
  "next_value (snd (LLVMCreateBasicBlockInContext nm s)) = next_value s"
  "builder (snd (LLVMCreateBasicBlockInContext nm s)) = builder s"
  "current_function (snd (LLVMCreateBasicBlockInContext nm s)) = current_function s"
  "current_scope_symbols (snd (LLVMCreateBasicBlockInContext nm s)) = current_scope_symbols s"
  "global_symbols (snd (LLVMCreateBasicBlockInContext nm s)) = global_symbols s"
  "symtabs (snd (LLVMCreateBasicBlockInContext nm s)) = symtabs s"
  "piped_value (snd (LLVMCreateBasicBlockInContext nm s)) = piped_value s"
  "current_loop_var_name (snd (LLVMCreateBasicBlockInContext nm s)) = current_loop_var_name s"
  "current_loop_var_ptr (snd (LLVMCreateBasicBlockInContext nm s)) = current_loop_var_ptr s"
  "current_loop_cond_bb (snd (LLVMCreateBasicBlockInContext nm s)) = current_loop_cond_bb s"
  "current_loop_end_bb (snd (LLVMCreateBasicBlockInContext nm s)) = current_loop_end_bb s"
  "stderr (snd (LLVMCreateBasicBlockInContext nm s)) = stderr s"
  by (simp_all add: LLVMCreateBasicBlockInContext_def split: option.splits)

lemma LLVMAppendExistingBasicBlock_frame [simp]:
  "mod_globals (LLVMAppendExistingBasicBlock f b s) = mod_globals s"
  "next_value (LLVMAppendExistingBasicBlock f b s) = next_value s"
  "builder (LLVMAppendExistingBasicBlock f b s) = builder s"
  "current_function (LLVMAppendExistingBasicBlock f b s) = current_function s"
  "current_scope_symbols (LLVMAppendExistingBasicBlock f b s) = current_scope_symbols s"
  "global_symbols (LLVMAppendExistingBasicBlock f b s) = global_symbols s"
  "symtabs (LLVMAppendExistingBasicBlock f b s) = symtabs s"
  "piped_value (LLVMAppendExistingBasicBlock f b s) = piped_value s"
  "current_loop_var_name (LLVMAppendExistingBasicBlock f b s) = current_loop_var_name s"
  "current_loop_var_ptr (LLVMAppendExistingBasicBlock f b s) = current_loop_var_ptr s"
  "current_loop_cond_bb (LLVMAppendExistingBasicBlock f b s) = current_loop_cond_bb s"
  "current_loop_end_bb (LLVMAppendExistingBasicBlock f b s) = current_loop_end_bb s"
  "stderr (LLVMAppendExistingBasicBlock f b s) = stderr s"
  by (simp_all add: LLVMAppendExistingBasicBlock_def split: option.splits)

lemma LLVMAppendBasicBlockInContext_frame [simp]:
  "mod_globals (snd (LLVMAppendBasicBlockInContext f nm s)) = mod_globals s"
  "next_value (snd (LLVMAppendBasicBlockInContext f nm s)) = next_value s"
  "builder (snd (LLVMAppendBasicBlockInContext f nm s)) = builder s"
  "current_function (snd (LLVMAppendBasicBlockInContext f nm s)) = current_function s"
  "current_scope_symbols (snd (LLVMAppendBasicBlockInContext f nm s)) = current_scope_symbols s"
  "global_symbols (snd (LLVMAppendBasicBlockInContext f nm s)) = global_symbols s"
  "symtabs (snd (LLVMAppendBasicBlockInContext f nm s)) = symtabs s"
  "piped_value (snd (LLVMAppendBasicBlockInContext f nm s)) = piped_value s"
  "current_loop_var_name (snd (LLVMAppendBasicBlockInContext f nm s)) = current_loop_var_name s"
  "current_loop_var_ptr (snd (LLVMAppendBasicBlockInContext f nm s)) = current_loop_var_ptr s"
  "current_loop_cond_bb (snd (LLVMAppendBasicBlockInContext f nm s)) = current_loop_cond_bb s"
  "current_loop_end_bb (snd (LLVMAppendBasicBlockInContext f nm s)) = current_loop_end_bb s"
  "stderr (snd (LLVMAppendBasicBlockInContext f nm s)) = stderr s"
  by (simp_all add: LLVMAppendBasicBlockInContext_def LLVMCreateBasicBlockInContext_def LLVMAppendExistingBasicBlock_def Let_def split: option.splits)

lemma LLVMAddFunction_frame [simp]:
  "ctx_blocks (snd (LLVMAddFunction nm t s)) = ctx_blocks s"
  "mod_globals (snd (LLVMAddFunction nm t s)) = mod_globals s"
  "next_value (snd (LLVMAddFunction nm t s)) = next_value s"
  "builder (snd (LLVMAddFunction nm t s)) = builder s"
  "current_function (snd (LLVMAddFunction nm t s)) = current_function s"
  "current_scope_symbols (snd (LLVMAddFunction nm t s)) = current_scope_symbols s"
  "global_symbols (snd (LLVMAddFunction nm t s)) = global_symbols s"
  "symtabs (snd (LLVMAddFunction nm t s)) = symtabs s"
  "piped_value (snd (LLVMAddFunction nm t s)) = piped_value s"
  "current_loop_var_name (snd (LLVMAddFunction nm t s)) = current_loop_var_name s"
  "current_loop_var_ptr (snd (LLVMAddFunction nm t s)) = current_loop_var_ptr s"
  "current_loop_cond_bb (snd (LLVMAddFunction nm t s)) = current_loop_cond_bb s"
  "current_loop_end_bb (snd (LLVMAddFunction nm t s)) = current_loop_end_bb s"
  "stderr (snd (LLVMAddFunction nm t s)) = stderr s"
  by (simp_all add: LLVMAddFunction_def split: option.splits)

lemma LLVMAddGlobal_frame [simp]:
  "ctx_blocks (snd (LLVMAddGlobal t nm s)) = ctx_blocks s"
  "mod_functions (snd (LLVMAddGlobal t nm s)) = mod_functions s"
  "next_value (snd (LLVMAddGlobal t nm s)) = next_value s"
  "builder (snd (LLVMAddGlobal t nm s)) = builder s"
  "current_function (snd (LLVMAddGlobal t nm s)) = current_function s"
  "current_scope_symbols (snd (LLVMAddGlobal t nm s)) = current_scope_symbols s"
  "global_symbols (snd (LLVMAddGlobal t nm s)) = global_symbols s"
  "symtabs (snd (LLVMAddGlobal t nm s)) = symtabs s"
  "piped_value (snd (LLVMAddGlobal t nm s)) = piped_value s"
  "current_loop_var_name (snd (LLVMAddGlobal t nm s)) = current_loop_var_name s"
  "current_loop_var_ptr (snd (LLVMAddGlobal t nm s)) = current_loop_var_ptr s"
  "current_loop_cond_bb (snd (LLVMAddGlobal t nm s)) = current_loop_cond_bb s"
  "current_loop_end_bb (snd (LLVMAddGlobal t nm s)) = current_loop_end_bb s"
  "stderr (snd (LLVMAddGlobal t nm s)) = stderr s"
  by (simp_all add: LLVMAddGlobal_def split: option.splits)

lemma LLVMBuildGlobalStringPtr_frame [simp]:
  "ctx_blocks (snd (LLVMBuildGlobalStringPtr str nm s)) = ctx_blocks s"
  "mod_functions (snd (LLVMBuildGlobalStringPtr str nm s)) = mod_functions s"
  "next_value (snd (LLVMBuildGlobalStringPtr str nm s)) = next_value s"
  "builder (snd (LLVMBuildGlobalStringPtr str nm s)) = builder s"
  "current_function (snd (LLVMBuildGlobalStringPtr str nm s)) = current_function s"
  "current_scope_symbols (snd (LLVMBuildGlobalStringPtr str nm s)) = current_scope_symbols s"
  "global_symbols (snd (LLVMBuildGlobalStringPtr str nm s)) = global_symbols s"
  "symtabs (snd (LLVMBuildGlobalStringPtr str nm s)) = symtabs s"
  "piped_value (snd (LLVMBuildGlobalStringPtr str nm s)) = piped_value s"
  "current_loop_var_name (snd (LLVMBuildGlobalStringPtr str nm s)) = current_loop_var_name s"
  "current_loop_var_ptr (snd (LLVMBuildGlobalStringPtr str nm s)) = current_loop_var_ptr s"
  "current_loop_cond_bb (snd (LLVMBuildGlobalStringPtr str nm s)) = current_loop_cond_bb s"
  "current_loop_end_bb (snd (LLVMBuildGlobalStringPtr str nm s)) = current_loop_end_bb s"
  "stderr (snd (LLVMBuildGlobalStringPtr str nm s)) = stderr s"
  by (simp_all add: LLVMBuildGlobalStringPtr_def split: option.splits)

lemma LLVMAddIncoming_frame [simp]:
  "mod_functions (LLVMAddIncoming v inc s) = mod_functions s"
  "mod_globals (LLVMAddIncoming v inc s) = mod_globals s"
  "next_value (LLVMAddIncoming v inc s) = next_value s"
  "builder (LLVMAddIncoming v inc s) = builder s"
  "current_function (LLVMAddIncoming v inc s) = current_function s"
  "current_scope_symbols (LLVMAddIncoming v inc s) = current_scope_symbols s"
  "global_symbols (LLVMAddIncoming v inc s) = global_symbols s"
  "symtabs (LLVMAddIncoming v inc s) = symtabs s"
  "piped_value (LLVMAddIncoming v inc s) = piped_value s"
  "current_loop_var_name (LLVMAddIncoming v inc s) = current_loop_var_name s"
  "current_loop_var_ptr (LLVMAddIncoming v inc s) = current_loop_var_ptr s"
  "current_loop_cond_bb (LLVMAddIncoming v inc s) = current_loop_cond_bb s"
  "current_loop_end_bb (LLVMAddIncoming v inc s) = current_loop_end_bb s"
  "stderr (LLVMAddIncoming v inc s) = stderr s"
  by (cases v; simp)+

lemma returning_snd [simp]: "snd (returning r) = snd r"
  by (simp add: returning_def)

lemma returning_fst [simp]: "fst (returning r) = Some (fst r)"
  by (simp add: returning_def)

lemma context_of_report [simp]: "context_of (report d s) = context_of s"
  by (simp add: context_of_def)

lemma context_of_build [simp]: "context_of (snd (build opc t s)) = context_of s"
  by (simp add: context_of_def)

lemma context_of_position [simp]:
  "context_of (LLVMPositionBuilderAtEnd b s) = context_of s"
  by (simp add: context_of_def)

lemma context_of_append_existing [simp]:
  "context_of (LLVMAppendExistingBasicBlock f b s) = context_of s"
  by (simp add: context_of_def)

lemma context_of_codegen_identifier [simp]:
  "context_of (snd (codegen_identifier s nm ln)) = context_of s"
  by (simp add: context_of_def codegen_identifier_def split: option.splits)

lemma context_of_binop_switch [simp]:
  "context_of (snd (binop_switch op L R ln s)) = context_of s"
  by (simp add: context_of_def binop_switch_def split: OperatorType.splits)

lemma context_of_unaryop_switch [simp]:
  "context_of (snd (unaryop_switch op v ln s)) = context_of s"
  by (simp add: context_of_def unaryop_switch_def split: OperatorType.splits)

lemma context_of_and_branch:
  "and_branch L s = Some (a, b, s') \<Longrightarrow> context_of s' = context_of s"
  by (auto simp: context_of_def and_branch_def Let_def split_def split: option.splits)

lemma context_of_or_branch:
  "or_branch L s = Some (a, b, s') \<Longrightarrow> context_of s' = context_of s"
  by (auto simp: context_of_def or_branch_def Let_def split_def split: option.splits)

lemma context_of_and_merge [simp]: "context_of (snd (and_merge a b R s)) = context_of s"
  by (simp add: context_of_def and_merge_def Let_def split_def split: option.splits)

lemma context_of_or_merge [simp]: "context_of (snd (or_merge a b R s)) = context_of s"
  by (simp add: context_of_def or_merge_def Let_def split_def split: option.splits)

lemma context_of_build_entry_alloca:
  "build_entry_alloca f t nm s = Some (v, s') \<Longrightarrow> context_of s' = context_of s"
  by (auto simp: build_entry_alloca_def Let_def context_of_def split: option.splits)

lemma context_of_declare_variable:
  "declare_variable nm t s = Some (v, s') \<Longrightarrow> context_of s' = context_of s"
  by (auto simp: declare_variable_def context_of_def LLVMAddGlobal_def
           dest: context_of_build_entry_alloca split: option.splits)

lemma context_of_assignment_store [simp]:
  "context_of (snd (assignment_store ln nm v s)) = context_of s"
proof (cases "find_symbol s (current_scope_symbols s) nm")
  case None
  show ?thesis
  proof (cases "declare_variable nm (LLVMTypeOf v) s")
    case N2: None
    with None show ?thesis by (simp add: assignment_store_def context_of_def)
  next
    case (Some r)
    obtain p s1 where r: "r = (p, s1)" by (cases r)
    from Some r have "context_of s1 = context_of s"
      by (simp add: context_of_declare_variable)
    with None Some r show ?thesis
      by (simp add: assignment_store_def Let_def split_def context_of_def)
  qed
next
  case (Some symb)
  then show ?thesis
    by (simp add: assignment_store_def Let_def split_def context_of_def)
qed

lemma context_of_bind_params [simp]: "context_of (bind_params f i ps s) = context_of s"
  by (induction ps arbitrary: i s)
     (simp_all add: bind_params.simps Let_def split_def context_of_def)

lemma context_of_branch_if_open [simp]: "context_of (branch_if_open b s) = context_of s"
  by (simp add: branch_if_open_def context_of_def)

lemma context_of_if_else_condition [simp]:
  "context_of (snd (if_else_condition c s)) = context_of s"
  by (simp add: if_else_condition_def context_of_def)

lemma context_of_if_else_branch [simp]:
  "context_of (snd (snd (if_else_branch f c e s))) = context_of s"
  by (simp add: if_else_branch_def Let_def split_def context_of_def)

lemma context_of_if_else_merge [simp]: "context_of (if_else_merge f b s) = context_of s"
  by (simp add: if_else_merge_def context_of_def)

lemma context_of_get_printf [simp]: "context_of (snd (get_printf_function s)) = context_of s"
  by (simp add: get_printf_function_def context_of_def split: option.splits)

lemma context_of_print_call_emit [simp]:
  "context_of (snd (print_call_emit ln v s)) = context_of s"
proof -
  have *: "context_of (snd (get_printf_function s)) = context_of s" by simp
  show ?thesis
    using * by (simp add: print_call_emit_def Let_def split_def context_of_def split: LLVMType.splits)
qed

lemma context_of_print_piped_argument [simp]:
  "context_of (snd (print_piped_argument ln s)) = context_of s"
  by (simp add: print_piped_argument_def context_of_def split: option.splits)

lemma context_of_build_call [simp]:
  "context_of (snd (build_call symb p vs s)) = context_of s"
  by (simp add: build_call_def context_of_def)


lemma func_def_begin_saved:
  "fst (snd (func_def_begin nm ps s)) =
     \<lparr>preserved_insert_block = builder s, preserved_current_func = current_function s,
      preserved_current_scope = current_scope_symbols s\<rparr>"
  by (simp add: func_def_begin_def Let_def split_def LLVMGetInsertBlock_def)

lemma func_def_begin_frame [simp]:
  "piped_value (snd (snd (func_def_begin nm ps s))) = piped_value s"
  "global_symbols (snd (snd (func_def_begin nm ps s))) = global_symbols s"
  "current_loop_cond_bb (snd (snd (func_def_begin nm ps s))) = current_loop_cond_bb s"
  "current_loop_end_bb (snd (snd (func_def_begin nm ps s))) = current_loop_end_bb s"
  using context_of_bind_params
  by (simp_all add: func_def_begin_def Let_def split_def context_of_def)

lemma func_def_end_frame [simp]:
  "piped_value (func_def_end saved s) = piped_value s"
  "global_symbols (func_def_end saved s) = global_symbols s"
  "current_loop_cond_bb (func_def_end saved s) = current_loop_cond_bb s"
  "current_loop_end_bb (func_def_end saved s) = current_loop_end_bb s"
  "current_function (func_def_end saved s) = preserved_current_func saved"
  "current_scope_symbols (func_def_end saved s) = preserved_current_scope saved"
  "builder (func_def_end saved s) = preserved_insert_block saved"
  by (simp_all add: func_def_end_def Let_def LLVMPositionBuilderAtEnd_def
        LLVMClearInsertionPosition_def split: option.splits)

lemma context_of_func_def:
  assumes "context_of s2 = context_of (snd (snd (func_def_begin nm ps s)))"
  shows "context_of (func_def_end (fst (snd (func_def_begin nm ps s))) s2) = context_of s"
  using assms by (simp add: context_of_def func_def_begin_saved)

lemma for_loop_begin_frame:
  assumes "for_loop_begin nm a b s = Some (c, s1)"
  shows "global_symbols s1 = global_symbols s"
    and "current_function s1 = current_function s"
    and "old_scope c = current_scope_symbols s"
    and "old_continue_target c = current_loop_cond_bb s"
    and "old_break_target c = current_loop_end_bb s"
    and "old_piped_val_for_body c = piped_value s"
  using assms
  by (auto simp: for_loop_begin_def Let_def split_def build_entry_alloca_def
        split: option.splits)

lemma for_loop_end_frame [simp]:
  "piped_value (for_loop_end c s) = old_piped_val_for_body c"
  "global_symbols (for_loop_end c s) = global_symbols s"
  "current_function (for_loop_end c s) = current_function s"
  "current_scope_symbols (for_loop_end c s) = old_scope c"
  "current_loop_cond_bb (for_loop_end c s) = old_continue_target c"
  "current_loop_end_bb (for_loop_end c s) = old_break_target c"
  "builder (for_loop_end c s) = Some (loop_end_bb c)"
  by (simp_all add: for_loop_end_def Let_def split_def branch_if_open_def
        LLVMPositionBuilderAtEnd_def)

lemma context_of_for_loop:
  assumes "for_loop_begin nm a b s = Some (c, s1)" and "context_of s2 = context_of s1"
  shows "context_of (for_loop_end c s2) = context_of s"
  using assms for_loop_begin_frame [OF assms(1)] by (simp add: context_of_def)

lemmas codegen_induct =
  codegen_expr_codegen_binop_codegen_unaryop_codegen_assignment_codegen_func_def_codegen_func_call_codegen_call_args_codegen_pipeline_codegen_if_else_codegen_range_codegen_for_loop_codegen_return_codegen_print_call_codegen_statement_list_node_codegen_statement_list_payload.induct

text \<open>
  One induction over the lowering routines serves every relation between the state before
  and the state after that is reflexive and transitive, holds across each non-recursive
  piece, and holds across each piece that brackets a recursive lowering whenever it holds
  across the bracketed lowering.
\<close>

lemma codegen_rel:
  fixes R :: "LLVMGeneratorState \<Rightarrow> LLVMGeneratorState \<Rightarrow> bool"
  assumes rfl: "\<And>s. R s s"
    and trans: "\<And>a b c. R a b \<Longrightarrow> R b c \<Longrightarrow> R a c"
    and rep: "\<And>s d. R s (report d s)"
    and bld: "\<And>s opc t. R s (snd (build opc t s))"
    and ident: "\<And>s nm ln. R s (snd (codegen_identifier s nm ln))"
    and binsw: "\<And>s op L Rv ln. R s (snd (binop_switch op L Rv ln s))"
    and unsw: "\<And>s op v ln. R s (snd (unaryop_switch op v ln s))"
    and asg: "\<And>s ln nm v. R s (snd (assignment_store ln nm v s))"
    and andr: "\<And>L s1 bL m s2 s3 Rv.
        and_branch L s1 = Some (bL, m, s2) \<Longrightarrow> R s2 s3 \<Longrightarrow> R s1 (snd (and_merge bL m Rv s3))"
    and orr: "\<And>L s1 bL m s2 s3 Rv.
        or_branch L s1 = Some (bL, m, s2) \<Longrightarrow> R s2 s3 \<Longrightarrow> R s1 (snd (or_merge bL m Rv s3))"
    and fdef: "\<And>nm ps s fv saved s1 s2.
        func_def_begin nm ps s = (fv, saved, s1) \<Longrightarrow> R s1 s2 \<Longrightarrow> R s (func_def_end saved s2)"
    and call: "\<And>s symb p vs. R s (snd (build_call symb p vs s))"
    and pipe: "\<And>s1 v s3.
        R (s1\<lparr>piped_value := v\<rparr>) s3 \<Longrightarrow> R s1 (s3\<lparr>piped_value := piped_value s1\<rparr>)"
    and cond: "\<And>c s. R s (snd (if_else_condition c s))"
    and ifthen: "\<And>f cv s2 else_bb merge_bb s3 s4.
        current_function s2 = Some f \<Longrightarrow>
        if_else_branch f cv False s2 = (else_bb, merge_bb, s3) \<Longrightarrow> R s3 s4 \<Longrightarrow>
        R s2 (if_else_merge f merge_bb (branch_if_open merge_bb s4))"
    and ifelse: "\<And>f cv s2 else_bb merge_bb s3 s4 s8.
        current_function s2 = Some f \<Longrightarrow>
        if_else_branch f cv True s2 = (else_bb, merge_bb, s3) \<Longrightarrow> R s3 s4 \<Longrightarrow>
        R (LLVMPositionBuilderAtEnd else_bb
             (LLVMAppendExistingBasicBlock f else_bb (branch_if_open merge_bb s4))) s8 \<Longrightarrow>
        R s2 (if_else_merge f merge_bb (branch_if_open merge_bb s8))"
    and forl: "\<And>nm a b s c s1 s2.
        for_loop_begin nm a b s = Some (c, s1) \<Longrightarrow> R s1 s2 \<Longrightarrow> R s (for_loop_end c s2)"
    and prt: "\<And>s ln v. R s (snd (print_call_emit ln v s))"
  shows "R s (snd (codegen_expr s n))"
    and "R s1 (snd (codegen_binop s1 n1))"
    and "R s2 (snd (codegen_unaryop s2 n2))"
    and "R s3 (snd (codegen_assignment s3 n3))"
    and "R s4 (snd (codegen_func_def s4 n4))"
    and "R s5 (snd (codegen_func_call s5 n5 p5))"
    and "R s6 (snd (codegen_call_args s6 nm6 i6 args6))"
    and "R s7 (snd (codegen_pipeline s7 n7))"
    and "R s8 (snd (codegen_if_else s8 n8))"
    and "R s9 (snd (codegen_range s9 n9))"
    and "R s10 (snd (codegen_for_loop s10 n10))"
    and "R s11 (snd (codegen_return s11 n11))"
    and "R s12 (snd (codegen_print_call s12 n12))"
    and "R s13 (codegen_statement_list_node s13 n13)"
    and "R s14 (codegen_statement_list_payload s14 n14)"
proof (induction s n and s1 n1 and s2 n2 and s3 n3 and s4 n4 and s5 n5 p5 and s6 nm6 i6 args6
    and s7 n7 and s8 n8 and s9 n9 and s10 n10 and s11 n11 and s12 n12 and s13 n13 and s14 n14
    rule: codegen_induct)
  case (1 s node)
  show ?case
  proof (cases node)
    case None
    then show ?thesis by (simp add: codegen_expr.simps rfl)
  next
    case (Some x)
    with "1.IH" show ?thesis
      by (cases x) (simp_all add: codegen_expr.simps codegen_number_def rfl rep ident)
  qed
next
  case (2 s node)
  show ?case
  proof (cases node)
    case (NODE_BINARY_OP ln op l r)
    obtain L t1 where e1: "(L, t1) = codegen_expr s l"
      by (cases "codegen_expr s l") simp
    have r1: "R s t1"
      using "2.IH"(1) [OF NODE_BINARY_OP] e1 [symmetric] by simp
    show ?thesis
    proof (cases "op \<noteq> OP_AND \<and> op \<noteq> OP_OR")
      case True
      obtain Rv t2 where e2: "codegen_expr t1 r = (Rv, t2)"
        by (cases "codegen_expr t1 r")
      have r2: "R t1 t2"
        using "2.IH"(2) [OF NODE_BINARY_OP refl e1 True] e2 by simp
      have r12: "R s t2" using r1 r2 by (rule trans)
      have "R s (snd (codegen_binop s node))"
        using True e1 [symmetric] e2 r12 trans [OF r12 rep] trans [OF r12 binsw]
        by (simp add: codegen_binop.simps NODE_BINARY_OP split: option.splits)
      then show ?thesis .
    next
      case False
      show ?thesis
      proof (cases L)
        case None
        then show ?thesis
          using False e1 [symmetric] trans [OF r1 rep]
          by (auto simp: codegen_binop.simps NODE_BINARY_OP)
      next
        case (Some lv)
        show ?thesis
        proof (cases "op = OP_AND")
          case True
          show ?thesis
          proof (cases "and_branch lv t1")
            case None
            then show ?thesis
              using True Some e1 [symmetric] trans [OF r1 rep]
              by (simp add: codegen_binop.simps NODE_BINARY_OP)
          next
            case br: (Some q)
            obtain bL m t2 where q: "q = (bL, m, t2)" by (cases q)
            have r3: "R t2 (snd (codegen_expr t2 r))"
              using "2.IH"(3) [OF NODE_BINARY_OP refl e1 False Some True br [unfolded q] refl refl] .
            have "R t1 (snd (and_merge bL m (fst (codegen_expr t2 r)) (snd (codegen_expr t2 r))))"
              using br [unfolded q] r3 by (rule andr)
            from trans [OF r1 this] show ?thesis
              using True Some e1 [symmetric] br q
              by (simp add: codegen_binop.simps NODE_BINARY_OP split_def Let_def)
          qed
        next
          case nand: False
          show ?thesis
          proof (cases "or_branch lv t1")
            case None
            then show ?thesis
              using nand False Some e1 [symmetric] trans [OF r1 rep]
              by (simp add: codegen_binop.simps NODE_BINARY_OP)
          next
            case br: (Some q)
            obtain bL m t2 where q: "q = (bL, m, t2)" by (cases q)
            have r3: "R t2 (snd (codegen_expr t2 r))"
              using "2.IH"(4) [OF NODE_BINARY_OP refl e1 False Some nand br [unfolded q] refl refl] .
            have "R t1 (snd (or_merge bL m (fst (codegen_expr t2 r)) (snd (codegen_expr t2 r))))"
              using br [unfolded q] r3 by (rule orr)
            from trans [OF r1 this] show ?thesis
              using nand False Some e1 [symmetric] br q
              by (simp add: codegen_binop.simps NODE_BINARY_OP split_def Let_def)
          qed
        qed
      qed
    qed
  qed (simp_all add: codegen_binop.simps rfl)
next
  case (3 s node)
  show ?case
  proof (cases node)
    case (NODE_UNARY_OP ln op x)
    have r1: "R s (snd (codegen_expr s x))"
      using "3.IH" [OF NODE_UNARY_OP] .
    show ?thesis
      using r1 trans [OF r1 unsw]
      by (simp add: codegen_unaryop.simps NODE_UNARY_OP split_def Let_def split: option.splits)
  qed (simp_all add: codegen_unaryop.simps rfl)
next
  case (4 s node)
  show ?case
  proof (cases node)
    case (NODE_ASSIGNMENT ln nm e)
    have r1: "R s (snd (codegen_expr s e))"
      using "4.IH" [OF NODE_ASSIGNMENT] .
    show ?thesis
      using trans [OF r1 rep] trans [OF r1 asg]
      by (simp add: codegen_assignment.simps NODE_ASSIGNMENT split_def Let_def split: option.splits)
  qed (simp_all add: codegen_assignment.simps rfl)
next
  case (5 s node)
  show ?case
  proof (cases node)
    case (NODE_FUNCTION_DEF ln nm ps body)
    obtain fv saved t1 where b: "func_def_begin nm ps s = (fv, saved, t1)"
      by (cases "func_def_begin nm ps s") auto
    have r1: "R t1 (codegen_statement_list_node t1 body)"
      using "5.IH" [OF NODE_FUNCTION_DEF refl b [symmetric] refl] .
    show ?thesis
      using fdef [OF b r1] b
      by (simp add: codegen_func_def.simps NODE_FUNCTION_DEF)
  qed (simp_all add: codegen_func_def.simps rfl)
next
  case (6 s node explicit_piped_input_val)
  show ?case
  proof (cases node)
    case (NODE_FUNCTION_CALL ln nm args)
    show ?thesis
    proof (cases "find_symbol s (global_symbols s) nm")
      case None
      then show ?thesis by (simp add: codegen_func_call.simps NODE_FUNCTION_CALL rep)
    next
      case (Some symb)
      show ?thesis
      proof (cases "is_function_type (sym_type symb) \<and>
          LLVMCountParamTypes (sym_type symb) =
            length args + (case explicit_piped_input_val of None \<Rightarrow> 0 | Some p \<Rightarrow> 1)")
        case True
        have r1: "R s (snd (codegen_call_args s nm 0 args))"
          using "6.IH" [OF NODE_FUNCTION_CALL Some _ refl refl] True by simp
        show ?thesis
          using True Some r1 trans [OF r1 call]
          by (simp add: codegen_func_call.simps NODE_FUNCTION_CALL split_def Let_def
                split: option.splits)
      next
        case False
        then show ?thesis
          using Some by (auto simp: codegen_func_call.simps NODE_FUNCTION_CALL rep Let_def)
      qed
    qed
  qed (simp_all add: codegen_func_call.simps rfl)
next
  case (7 s func_name i args)
  show ?case
  proof (cases args)
    case Nil
    then show ?thesis by (simp add: codegen_call_args.simps rfl)
  next
    case (Cons a rest)
    obtain v t1 where e1: "(v, t1) = codegen_expr s (Some a)"
      by (cases "codegen_expr s (Some a)") simp
    have r1: "R s t1"
      using "7.IH"(1) [OF Cons] e1 [symmetric] by simp
    show ?thesis
    proof (cases v)
      case None
      then show ?thesis
        using e1 [symmetric] trans [OF r1 rep]
        by (simp add: codegen_call_args.simps [of s] Cons)
    next
      case (Some x)
      have r2: "R t1 (snd (codegen_call_args t1 func_name (i + 1) rest))"
        using "7.IH"(2) [OF Cons refl e1 Some] .
      show ?thesis
        using Some e1 [symmetric] trans [OF r1 r2]
        by (simp add: codegen_call_args.simps [of s] Cons split_def Let_def split: option.splits)
    qed
  qed
next
  case (8 s node)
  show ?case
  proof (cases node)
    case (NODE_PIPELINE ln left right)
    obtain lhs t1 where e1: "(lhs, t1) = codegen_expr s left"
      by (cases "codegen_expr s left") simp
    have r1: "R s t1"
      using "8.IH"(1) [OF NODE_PIPELINE] e1 [symmetric] by simp
    define t2 where "t2 = t1\<lparr>piped_value := lhs\<rparr>"
    have fin: "R s (t3\<lparr>piped_value := piped_value t1\<rparr>)" if "R t2 t3" for t3
      using that r1 pipe trans unfolding t2_def by blast
    note ih = "8.IH"(2-5) [OF NODE_PIPELINE refl e1 refl t2_def]
    show ?thesis
    proof (cases right)
      case (NODE_FUNCTION_CALL cl nm args)
      show ?thesis
        using fin [OF ih(1) [OF NODE_FUNCTION_CALL]] e1 [symmetric]
        by (simp add: codegen_pipeline.simps NODE_PIPELINE NODE_FUNCTION_CALL t2_def split_def
              Let_def)
    next
      case (NODE_IF_ELSE il c t e)
      show ?thesis
        using fin [OF ih(2) [OF NODE_IF_ELSE]] e1 [symmetric]
        by (simp add: codegen_pipeline.simps NODE_PIPELINE NODE_IF_ELSE t2_def split_def Let_def)
    next
      case (NODE_FOR_LOOP fl rg var body)
      show ?thesis
        using fin [OF ih(3) [OF NODE_FOR_LOOP]] e1 [symmetric]
        by (simp add: codegen_pipeline.simps NODE_PIPELINE NODE_FOR_LOOP t2_def split_def Let_def)
    next
      case (NODE_PRINT_CALL pl e)
      show ?thesis
        using fin [OF ih(4) [OF NODE_PRINT_CALL]] e1 [symmetric]
        by (simp add: codegen_pipeline.simps NODE_PIPELINE NODE_PRINT_CALL t2_def split_def
              Let_def)
    qed (use fin [OF rep] e1 [symmetric] in
          \<open>simp_all add: codegen_pipeline.simps NODE_PIPELINE t2_def split_def Let_def\<close>)
  qed (simp_all add: codegen_pipeline.simps rfl)
next
  case (9 s node)
  show ?case
  proof (cases node)
    case (NODE_IF_ELSE ln c thn els)
    obtain cv t1 where e1: "(cv, t1) = codegen_expr s c"
      by (cases "codegen_expr s c") simp
    have r1: "R s t1"
      using "9.IH"(1) [OF NODE_IF_ELSE] e1 [symmetric] by simp
    show ?thesis
    proof (cases cv)
      case None
      then show ?thesis
        using e1 [symmetric] r1 by (simp add: codegen_if_else.simps NODE_IF_ELSE)
    next
      case (Some c0)
      obtain c1 t2 where e2: "(c1, t2) = if_else_condition c0 t1"
        by (cases "if_else_condition c0 t1") simp
      have r2: "R s t2"
        using trans [OF r1 cond [of t1 c0]] e2 [symmetric] by simp
      show ?thesis
      proof (cases "current_function t2")
        case None
        then show ?thesis
          using Some e1 [symmetric] e2 [symmetric] trans [OF r2 rep]
          by (simp add: codegen_if_else.simps NODE_IF_ELSE)
      next
        case cf: (Some f)
        obtain else_bb merge_bb t3
          where e3: "if_else_branch f c1 (els \<noteq> None) t2 = (else_bb, merge_bb, t3)"
          by (cases "if_else_branch f c1 (els \<noteq> None) t2") auto
        define t4 where "t4 = codegen_statement_list_node t3 thn"
        have r4: "R t3 t4"
          unfolding t4_def
          using "9.IH"(2) [OF NODE_IF_ELSE refl e1 Some refl e2 cf refl, of else_bb "(merge_bb, t3)" merge_bb t3]
            e3 by simp
        show ?thesis
        proof (cases els)
          case None
          have "R t2 (if_else_merge f merge_bb (branch_if_open merge_bb t4))"
            using cf e3 [unfolded None] r4 by (intro ifthen [of t2 f c1 else_bb merge_bb t3]) simp_all
          from trans [OF r2 this] show ?thesis
            using Some None e1 [symmetric] e2 [symmetric] cf e3
            by (simp add: codegen_if_else.simps NODE_IF_ELSE t4_def)
        next
          case sm: (Some e)
          define t7 where "t7 = LLVMPositionBuilderAtEnd else_bb
              (LLVMAppendExistingBasicBlock f else_bb (branch_if_open merge_bb t4))"
          define t8 where "t8 = codegen_statement_list_node t7 els"
          have r8: "R t7 t8"
            unfolding t8_def t7_def t4_def
            using "9.IH"(3) [OF NODE_IF_ELSE refl e1 Some refl e2 cf refl, of else_bb "(merge_bb, t3)" merge_bb t3 _ _ e]
              e3 sm by simp
          have "R t2 (if_else_merge f merge_bb (branch_if_open merge_bb t8))"
            using cf e3 r4 r8 unfolding t7_def sm
            by (intro ifelse [of t2 f c1 else_bb merge_bb t3 t4]) simp_all
          from trans [OF r2 this] show ?thesis
            using Some sm e1 [symmetric] e2 [symmetric] cf e3
            by (simp add: codegen_if_else.simps NODE_IF_ELSE t4_def t7_def t8_def)
        qed
      qed
    qed
  qed (simp_all add: codegen_if_else.simps rfl)
next
  case (10 s node)
  show ?case
  proof (cases node)
    case (NODE_RANGE ln a b)
    obtain va t1 where e1: "(va, t1) = codegen_expr s a"
      by (cases "codegen_expr s a") simp
    have r1: "R s t1"
      using "10.IH"(1) [OF NODE_RANGE] e1 [symmetric] by simp
    have r2: "R t1 (snd (codegen_expr t1 b))"
      using "10.IH"(2) [OF NODE_RANGE refl e1] .
    show ?thesis
      using e1 [symmetric] trans [OF r1 r2] trans [OF trans [OF r1 r2] rep]
      by (simp add: codegen_range.simps NODE_RANGE split_def Let_def)
  qed (simp_all add: codegen_range.simps rfl)
next
  case (11 s node)
  show ?case
  proof (cases node)
    case (NODE_FOR_LOOP ln rg var body)
    show ?thesis
    proof (cases "current_function s = None")
      case True
      then show ?thesis by (auto simp: codegen_for_loop.simps NODE_FOR_LOOP rep)
    next
      case cf: False
      show ?thesis
      proof (cases rg)
        case None
        then show ?thesis using cf by (auto simp: codegen_for_loop.simps NODE_FOR_LOOP rep)
      next
        case (Some rn)
        show ?thesis
        proof (cases rn)
          case (NODE_RANGE rl a b)
          obtain va t1 where e1: "(va, t1) = codegen_expr s a"
            by (cases "codegen_expr s a") simp
          have r1: "R s t1"
            using "11.IH"(1) [OF NODE_FOR_LOOP cf Some NODE_RANGE] e1 [symmetric] by simp
          obtain vb t2 where e2: "(vb, t2) = codegen_expr t1 b"
            by (cases "codegen_expr t1 b") simp
          have r2: "R t1 t2"
            using "11.IH"(2) [OF NODE_FOR_LOOP cf Some NODE_RANGE refl e1] e2 [symmetric] by simp
          have r12: "R s t2" using r1 r2 by (rule trans)
          show ?thesis
          proof (cases "va = None \<or> vb = None")
            case True
            then show ?thesis
              using cf Some NODE_RANGE e1 [symmetric] e2 [symmetric] trans [OF r12 rep]
              by (auto simp: codegen_for_loop.simps NODE_FOR_LOOP split: option.splits)
          next
            case False
            then obtain x y where xy: "va = Some x" "vb = Some y" by auto
            show ?thesis
            proof (cases "for_loop_begin var x y t2")
              case None
              then show ?thesis
                using cf Some NODE_RANGE e1 [symmetric] e2 [symmetric] xy trans [OF r12 rep]
                by (auto simp: codegen_for_loop.simps NODE_FOR_LOOP)
            next
              case lb: (Some q)
              obtain c t3 where q: "q = (c, t3)" by (cases q)
              have r3: "R t3 (codegen_statement_list_node t3 body)"
                using "11.IH"(3) [OF NODE_FOR_LOOP cf Some NODE_RANGE refl e1 refl e2 xy
                    lb [unfolded q] refl] .
              have "R t2 (for_loop_end c (codegen_statement_list_node t3 body))"
                using lb [unfolded q] r3 by (rule forl)
              from trans [OF r12 this] show ?thesis
                using cf Some NODE_RANGE e1 [symmetric] e2 [symmetric] xy lb q
                by (auto simp: codegen_for_loop.simps NODE_FOR_LOOP)
            qed
          qed
        qed (use cf Some in \<open>auto simp: codegen_for_loop.simps NODE_FOR_LOOP rep\<close>)
      qed
    qed
  qed (simp_all add: codegen_for_loop.simps rfl)
next
  case (12 s node)
  show ?case
  proof (cases node)
    case (NODE_RETURN ln v)
    show ?thesis
    proof (cases "current_function s = None")
      case True
      then show ?thesis by (auto simp: codegen_return.simps NODE_RETURN rep)
    next
      case cf: False
      show ?thesis
      proof (cases v)
        case None
        then show ?thesis using cf by (auto simp: codegen_return.simps NODE_RETURN bld)
      next
        case (Some e)
        have r1: "R s (snd (codegen_expr s v))"
          using "12.IH" [OF NODE_RETURN cf Some] .
        show ?thesis
          using cf Some r1 trans [OF r1 bld]
          by (auto simp: codegen_return.simps NODE_RETURN split_def Let_def split: option.splits)
      qed
    qed
  qed (simp_all add: codegen_return.simps rfl)
next
  case (13 s node)
  show ?case
  proof (cases node)
    case (NODE_PRINT_CALL ln e)
    show ?thesis
    proof (cases e)
      case None
      have "R s (snd (print_piped_argument ln s))"
        by (simp add: print_piped_argument_def rfl rep split: option.splits)
      then show ?thesis
        using None trans [OF _ prt]
        by (simp add: codegen_print_call.simps NODE_PRINT_CALL split_def Let_def split: option.splits)
    next
      case (Some x)
      have r1: "R s (snd (codegen_expr s e))"
        using "13.IH" [OF NODE_PRINT_CALL Some] .
      show ?thesis
        using Some r1 trans [OF r1 prt]
        by (simp add: codegen_print_call.simps NODE_PRINT_CALL split_def Let_def split: option.splits)
    qed
  qed (simp_all add: codegen_print_call.simps rfl)
next
  case (14 s node)
  show ?case
  proof (cases node)
    case None
    then show ?thesis by (simp add: codegen_statement_list_node.simps rfl)
  next
    case (Some x)
    with "14.IH" show ?thesis
      by (cases x) (simp_all add: codegen_statement_list_node.simps rfl)
  qed
next
  case (15 s stmts)
  show ?case
  proof (cases stmts)
    case Nil
    then show ?thesis by (simp add: codegen_statement_list_payload.simps rfl)
  next
    case (Cons h rest)
    show ?thesis
    proof (cases h)
      case None
      then show ?thesis
        using "15.IH"(1) [OF Cons None]
        by (simp add: codegen_statement_list_payload.simps [of s] Cons)
    next
      case (Some x)
      show ?thesis
      proof (cases "insert_block_terminated s")
        case True
        then show ?thesis
          by (simp add: codegen_statement_list_payload.simps [of s] Cons Some rfl)
      next
        case nt: False
        show ?thesis
        proof (cases x)
          case (NODE_NUMBER a0 a1)
          show ?thesis
            using trans [OF "15.IH"(2) [OF Cons Some nt NODE_NUMBER] "15.IH"(3) [OF Cons Some nt NODE_NUMBER]] nt
            by (simp add: codegen_statement_list_payload.simps [of s] Cons Some NODE_NUMBER)
        next
          case (NODE_IDENTIFIER a0 a1)
          show ?thesis
            using trans [OF "15.IH"(4) [OF Cons Some nt NODE_IDENTIFIER] "15.IH"(5) [OF Cons Some nt NODE_IDENTIFIER]] nt
            by (simp add: codegen_statement_list_payload.simps [of s] Cons Some NODE_IDENTIFIER)
        next
          case (NODE_BINARY_OP a0 a1 a2 a3)
          show ?thesis
            using trans [OF "15.IH"(6) [OF Cons Some nt NODE_BINARY_OP] "15.IH"(7) [OF Cons Some nt NODE_BINARY_OP]] nt
            by (simp add: codegen_statement_list_payload.simps [of s] Cons Some NODE_BINARY_OP)
        next
          case (NODE_ASSIGNMENT a0 a1 a2)
          show ?thesis
            using trans [OF "15.IH"(8) [OF Cons Some nt NODE_ASSIGNMENT] "15.IH"(9) [OF Cons Some nt NODE_ASSIGNMENT]] nt
            by (simp add: codegen_statement_list_payload.simps [of s] Cons Some NODE_ASSIGNMENT)
        next
          case (NODE_FUNCTION_DEF a0 a1 a2 a3)
          show ?thesis
            using trans [OF "15.IH"(10) [OF Cons Some nt NODE_FUNCTION_DEF] "15.IH"(11) [OF Cons Some nt NODE_FUNCTION_DEF]] nt
            by (simp add: codegen_statement_list_payload.simps [of s] Cons Some NODE_FUNCTION_DEF)
        next
          case (NODE_FUNCTION_CALL a0 a1 a2)
          show ?thesis
            using trans [OF "15.IH"(12) [OF Cons Some nt NODE_FUNCTION_CALL] "15.IH"(13) [OF Cons Some nt NODE_FUNCTION_CALL]] nt
            by (simp add: codegen_statement_list_payload.simps [of s] Cons Some NODE_FUNCTION_CALL)
        next
          case (NODE_PIPELINE a0 a1 a2)
          show ?thesis
            using trans [OF "15.IH"(14) [OF Cons Some nt NODE_PIPELINE] "15.IH"(15) [OF Cons Some nt NODE_PIPELINE]] nt
            by (simp add: codegen_statement_list_payload.simps [of s] Cons Some NODE_PIPELINE)
        next
          case (NODE_IF_ELSE a0 a1 a2 a3)
          show ?thesis
            using trans [OF "15.IH"(16) [OF Cons Some nt NODE_IF_ELSE] "15.IH"(17) [OF Cons Some nt NODE_IF_ELSE]] nt
            by (simp add: codegen_statement_list_payload.simps [of s] Cons Some NODE_IF_ELSE)
        next
          case (NODE_FOR_LOOP a0 a1 a2 a3)
          show ?thesis
            using trans [OF "15.IH"(18) [OF Cons Some nt NODE_FOR_LOOP] "15.IH"(19) [OF Cons Some nt NODE_FOR_LOOP]] nt
            by (simp add: codegen_statement_list_payload.simps [of s] Cons Some NODE_FOR_LOOP)
        next
          case (NODE_RANGE a0 a1 a2)
          show ?thesis
            using trans [OF "15.IH"(20) [OF Cons Some nt NODE_RANGE] "15.IH"(21) [OF Cons Some nt NODE_RANGE]] nt
            by (simp add: codegen_statement_list_payload.simps [of s] Cons Some NODE_RANGE)
        next
          case (NODE_RETURN a0 a1)
          show ?thesis
            using "15.IH"(22) [OF Cons Some nt NODE_RETURN] nt
            by (simp add: codegen_statement_list_payload.simps [of s] Cons Some NODE_RETURN)
        next
          case (NODE_STATEMENT_LIST a0 a1)
          show ?thesis
            using trans [OF "15.IH"(23) [OF Cons Some nt NODE_STATEMENT_LIST] "15.IH"(24) [OF Cons Some nt NODE_STATEMENT_LIST]] nt
            by (simp add: codegen_statement_list_payload.simps [of s] Cons Some NODE_STATEMENT_LIST)
        next
          case (NODE_PRINT_CALL a0 a1)
          show ?thesis
            using trans [OF "15.IH"(25) [OF Cons Some nt NODE_PRINT_CALL] "15.IH"(26) [OF Cons Some nt NODE_PRINT_CALL]] nt
            by (simp add: codegen_statement_list_payload.simps [of s] Cons Some NODE_PRINT_CALL)
        next
          case (NODE_UNARY_OP a0 a1 a2)
          show ?thesis
            using trans [OF "15.IH"(27) [OF Cons Some nt NODE_UNARY_OP] "15.IH"(28) [OF Cons Some nt NODE_UNARY_OP]] nt
            by (simp add: codegen_statement_list_payload.simps [of s] Cons Some NODE_UNARY_OP)
        qed
      qed
    qed
  qed
qed

lemma context_of_piped_update:
  "context_of s3 = context_of (s1\<lparr>piped_value := v\<rparr>) \<Longrightarrow>
   context_of (s3\<lparr>piped_value := piped_value s1\<rparr>) = context_of s1"
  by (simp add: context_of_def)

lemma context_of_if_else_branch_eq:
  "if_else_branch f cv e s2 = (else_bb, merge_bb, s3) \<Longrightarrow> context_of s3 = context_of s2"
  using context_of_if_else_branch [of f cv e s2] by simp

lemma context_of_func_def_eq:
  "func_def_begin nm ps s = (fv, saved, s1) \<Longrightarrow> context_of s2 = context_of s1 \<Longrightarrow>
   context_of (func_def_end saved s2) = context_of s"
  using context_of_func_def [of s2 nm ps s] by simp

text \<open>
  Lowering leaves the piped value, the current function, the two scope pointers and the
  loop targets as it found them.
\<close>

lemma codegen_context:
  "context_of (snd (codegen_expr s n)) = context_of s"
  "context_of (snd (codegen_binop s1 n1)) = context_of s1"
  "context_of (snd (codegen_unaryop s2 n2)) = context_of s2"
  "context_of (snd (codegen_assignment s3 n3)) = context_of s3"
  "context_of (snd (codegen_func_def s4 n4)) = context_of s4"
  "context_of (snd (codegen_func_call s5 n5 p5)) = context_of s5"
  "context_of (snd (codegen_call_args s6 nm6 i6 args6)) = context_of s6"
  "context_of (snd (codegen_pipeline s7 n7)) = context_of s7"
  "context_of (snd (codegen_if_else s8 n8)) = context_of s8"
  "context_of (snd (codegen_range s9 n9)) = context_of s9"
  "context_of (snd (codegen_for_loop s10 n10)) = context_of s10"
  "context_of (snd (codegen_return s11 n11)) = context_of s11"
  "context_of (snd (codegen_print_call s12 n12)) = context_of s12"
  "context_of (codegen_statement_list_node s13 n13) = context_of s13"
  "context_of (codegen_statement_list_payload s14 n14) = context_of s14"
proof -
  let ?R = "\<lambda>s s'. context_of s' = context_of s"
  note r = codegen_rel [where R = ?R, OF refl]
  have andr: "\<And>L s1 bL m s2 s3 Rv.
        and_branch L s1 = Some (bL, m, s2) \<Longrightarrow> ?R s2 s3 \<Longrightarrow> ?R s1 (snd (and_merge bL m Rv s3))"
    by (simp add: context_of_and_branch)
  have orr: "\<And>L s1 bL m s2 s3 Rv.
        or_branch L s1 = Some (bL, m, s2) \<Longrightarrow> ?R s2 s3 \<Longrightarrow> ?R s1 (snd (or_merge bL m Rv s3))"
    by (simp add: context_of_or_branch)
  have ifthen: "\<And>f cv s2 else_bb merge_bb s3 s4.
        current_function s2 = Some f \<Longrightarrow>
        if_else_branch f cv False s2 = (else_bb, merge_bb, s3) \<Longrightarrow> ?R s3 s4 \<Longrightarrow>
        ?R s2 (if_else_merge f merge_bb (branch_if_open merge_bb s4))"
    by (simp add: context_of_if_else_branch_eq)
  have ifelse: "\<And>f cv s2 else_bb merge_bb s3 s4 s8.
        current_function s2 = Some f \<Longrightarrow>
        if_else_branch f cv True s2 = (else_bb, merge_bb, s3) \<Longrightarrow> ?R s3 s4 \<Longrightarrow>
        ?R (LLVMPositionBuilderAtEnd else_bb
             (LLVMAppendExistingBasicBlock f else_bb (branch_if_open merge_bb s4))) s8 \<Longrightarrow>
        ?R s2 (if_else_merge f merge_bb (branch_if_open merge_bb s8))"
    by (simp add: context_of_if_else_branch_eq)
  note r' = r [OF _ context_of_report context_of_build context_of_codegen_identifier
      context_of_binop_switch context_of_unaryop_switch context_of_assignment_store
      andr orr context_of_func_def_eq context_of_build_call context_of_piped_update
      context_of_if_else_condition ifthen ifelse context_of_for_loop context_of_print_call_emit]
  show "context_of (snd (codegen_expr s n)) = context_of s"
  "context_of (snd (codegen_binop s1 n1)) = context_of s1"
  "context_of (snd (codegen_unaryop s2 n2)) = context_of s2"
  "context_of (snd (codegen_assignment s3 n3)) = context_of s3"
  "context_of (snd (codegen_func_def s4 n4)) = context_of s4"
  "context_of (snd (codegen_func_call s5 n5 p5)) = context_of s5"
  "context_of (snd (codegen_call_args s6 nm6 i6 args6)) = context_of s6"
  "context_of (snd (codegen_pipeline s7 n7)) = context_of s7"
  "context_of (snd (codegen_if_else s8 n8)) = context_of s8"
  "context_of (snd (codegen_range s9 n9)) = context_of s9"
  "context_of (snd (codegen_for_loop s10 n10)) = context_of s10"
  "context_of (snd (codegen_return s11 n11)) = context_of s11"
  "context_of (snd (codegen_print_call s12 n12)) = context_of s12"
  "context_of (codegen_statement_list_node s13 n13) = context_of s13"
  "context_of (codegen_statement_list_payload s14 n14) = context_of s14"
    by (rule r'; simp)+
qed

subsection \<open>The lowering routines at each kind of node\<close>

lemmas codegen_expr_eq =
  codegen_expr.simps [where node = "None", simplified option.case]
  codegen_expr.simps [where node = "Some (NODE_NUMBER ln v)",
    simplified option.case ASTNode.case line_num.simps node_type.simps]
  codegen_expr.simps [where node = "Some (NODE_IDENTIFIER ln nm)",
    simplified option.case ASTNode.case line_num.simps node_type.simps]
  codegen_expr.simps [where node = "Some (NODE_BINARY_OP ln op l r)",
    simplified option.case ASTNode.case line_num.simps node_type.simps]
  codegen_expr.simps [where node = "Some (NODE_ASSIGNMENT ln nm e)",
    simplified option.case ASTNode.case line_num.simps node_type.simps]
  codegen_expr.simps [where node = "Some (NODE_FUNCTION_DEF ln nm ps b)",
    simplified option.case ASTNode.case line_num.simps node_type.simps]
  codegen_expr.simps [where node = "Some (NODE_FUNCTION_CALL ln nm args)",
    simplified option.case ASTNode.case line_num.simps node_type.simps]
  codegen_expr.simps [where node = "Some (NODE_PIPELINE ln l r)",
    simplified option.case ASTNode.case line_num.simps node_type.simps]
  codegen_expr.simps [where node = "Some (NODE_IF_ELSE ln c t e)",
    simplified option.case ASTNode.case line_num.simps node_type.simps]
  codegen_expr.simps [where node = "Some (NODE_FOR_LOOP ln r v b)",
    simplified option.case ASTNode.case line_num.simps node_type.simps]
  codegen_expr.simps [where node = "Some (NODE_RANGE ln a b)",
    simplified option.case ASTNode.case line_num.simps node_type.simps]
  codegen_expr.simps [where node = "Some (NODE_RETURN ln v)",
    simplified option.case ASTNode.case line_num.simps node_type.simps]
  codegen_expr.simps [where node = "Some (NODE_STATEMENT_LIST ln stmts)",
    simplified option.case ASTNode.case line_num.simps node_type.simps]
  codegen_expr.simps [where node = "Some (NODE_PRINT_CALL ln e)",
    simplified option.case ASTNode.case line_num.simps node_type.simps]
  codegen_expr.simps [where node = "Some (NODE_UNARY_OP ln op x)",
    simplified option.case ASTNode.case line_num.simps node_type.simps]
  for ln v nm op l r e ps b args c t a stmts x

lemmas codegen_binop_eq =
  codegen_binop.simps [where node = "NODE_BINARY_OP ln op left right", simplified ASTNode.case]
  for ln op left right

lemmas codegen_unaryop_eq =
  codegen_unaryop.simps [where node = "NODE_UNARY_OP ln op operand_node", simplified ASTNode.case]
  for ln op operand_node

lemmas codegen_assignment_eq =
  codegen_assignment.simps [where node = "NODE_ASSIGNMENT ln var_name expression", simplified ASTNode.case]
  for ln var_name expression

lemmas codegen_func_def_eq =
  codegen_func_def.simps [where node = "NODE_FUNCTION_DEF ln func_name param_names body_stmts_node", simplified ASTNode.case]
  for ln func_name param_names body_stmts_node

lemmas codegen_func_call_eq =
  codegen_func_call.simps [where node = "NODE_FUNCTION_CALL ln func_name args", simplified ASTNode.case]
  for ln func_name args

lemmas codegen_pipeline_eq =
  codegen_pipeline.simps [where node = "NODE_PIPELINE ln left_expr right_op", simplified ASTNode.case]
  for ln left_expr right_op

lemmas codegen_if_else_eq =
  codegen_if_else.simps [where node = "NODE_IF_ELSE ln condition_expr then_stmts_node else_stmts_node", simplified ASTNode.case]
  for ln condition_expr then_stmts_node else_stmts_node

lemmas codegen_range_eq =
  codegen_range.simps [where node = "NODE_RANGE ln start_node end_node", simplified ASTNode.case]
  for ln start_node end_node

lemmas codegen_for_loop_eq =
  codegen_for_loop.simps [where node = "NODE_FOR_LOOP ln range_expr loop_var_name body_stmts_node", simplified ASTNode.case]
  for ln range_expr loop_var_name body_stmts_node

lemmas codegen_return_eq =
  codegen_return.simps [where node = "NODE_RETURN ln val", simplified ASTNode.case]
  for ln val

lemmas codegen_print_call_eq =
  codegen_print_call.simps [where node = "NODE_PRINT_CALL ln expression", simplified ASTNode.case]
  for ln expression

lemmas codegen_call_args_eq =
  codegen_call_args.simps [where args = "[]", simplified list.case]
  codegen_call_args.simps [where args = "a # rest", simplified list.case]
  for a rest

lemmas codegen_statement_list_node_eq =
  codegen_statement_list_node.simps [where node = "None", simplified option.case]
  codegen_statement_list_node.simps [where node = "Some (NODE_STATEMENT_LIST ln stmts)",
    simplified option.case ASTNode.case]
  for ln stmts

lemmas codegen_statement_list_payload_eq =
  codegen_statement_list_payload.simps [where stmts = "[]", simplified list.case]
  codegen_statement_list_payload.simps [where stmts = "None # rest",
    simplified list.case option.case]
  codegen_statement_list_payload.simps [where stmts = "Some stmt_node # rest",
    simplified list.case option.case]
  for stmt_node rest

subsection \<open>Running the generator on a given program\<close>

lemmas codegen_unfold =
  codegen_expr_eq codegen_binop_eq codegen_unaryop_eq codegen_assignment_eq codegen_func_def_eq
  codegen_func_call_eq codegen_call_args_eq codegen_pipeline_eq codegen_if_else_eq
  codegen_range_eq codegen_for_loop_eq codegen_return_eq codegen_print_call_eq
  codegen_statement_list_node_eq codegen_statement_list_payload_eq
  codegen_number_def codegen_identifier_def binop_switch_def and_branch_def and_merge_def
  or_branch_def or_merge_def unaryop_switch_def declare_variable_def assignment_store_def
  func_def_begin_def func_def_end_def branch_if_open_def if_else_branch_def
  if_else_condition_def if_else_merge_def for_loop_begin_def for_loop_end_def
  printf_signature_def get_printf_function_def print_call_emit_def print_piped_argument_def
  build_call_def LLVMCountParamTypes_def is_function_type_def
  create_llvm_generator_state_def generate_code_begin_def llvm_generate_code_def
  report_def get_symtab_def create_symbol_table_def free_symbol_table_def add_symbol_def
  SYMBOL_TABLE_SIZE_def
  LLVMGetInsertBlock_def LLVMPositionBuilderAtEnd_def LLVMClearInsertionPosition_def
  block_instrs_def LLVMGetBasicBlockTerminator_def LLVMGetBasicBlockParent_def
  LLVMGetEntryBasicBlock_def LLVMCreateBasicBlockInContext_def LLVMAppendExistingBasicBlock_def
  LLVMAppendBasicBlockInContext_def LLVMAddFunction_def LLVMGetNamedFunction_def
  LLVMAddGlobal_def LLVMBuildGlobalStringPtr_def append_instr_def prepend_instr_def build_def
  build_entry_alloca_def LLVMBuildAlloca_def insert_block_terminated_def insert_block_open_def
  returning_def bind_params.simps find_symbol.simps Let_def

text \<open>
  The same equations with the tuple patterns replaced by projections: with the weak
  congruence rule for \<open>let\<close> the simplifier then runs a lowering by value, one binding
  after the other.
\<close>

lemmas codegen_eval = codegen_unfold [unfolded split_def]

lemma example_start_eq:
  "example_start =
     \<lparr>ctx_blocks = [\<lparr>bb_name = ''main_script_entry'', bb_parent = Some 0, bb_instrs = []\<rparr>],
      mod_functions =
        [\<lparr>fn_name = ''main'', fn_type = FunctionType LLVMInt32Type [] False, fn_blocks = [0]\<rparr>],
      mod_globals = [], next_value = 0, builder = Some 0, current_function = Some 0,
      current_scope_symbols = 1, global_symbols = 0,
      symtabs = [Some \<lparr>entries = [], parent = None\<rparr>, Some \<lparr>entries = [], parent = Some 0\<rparr>],
      piped_value = None, current_loop_var_name = None, current_loop_var_ptr = None,
      current_loop_cond_bb = None, current_loop_end_bb = None, stderr = []\<rparr>"
  by (simp add: example_start_def codegen_eval cong: let_weak_cong)

lemma example_after_add_eq:
  "example_after_add =
  \<lparr>ctx_blocks =
    [\<lparr>bb_name = ''main_script_entry'', bb_parent = Some 0, bb_instrs = []\<rparr>,
     \<lparr>bb_name = ''entry'', bb_parent = Some 1,
        bb_instrs =
          [(0, Alloca LLVMInt32Type ''a''),
           (1, Store (Argument 1 0 LLVMInt32Type) (AllocaInst 0 LLVMInt32Type)),
           (2, Alloca LLVMInt32Type ''b''),
           (3, Store (Argument 1 1 LLVMInt32Type) (AllocaInst 2 LLVMInt32Type)),
           (4, Load LLVMInt32Type (AllocaInst 0 LLVMInt32Type)),
           (5, Load LLVMInt32Type (AllocaInst 2 LLVMInt32Type)),
           (6, Add (Instruction 4 LLVMInt32Type) (Instruction 5 LLVMInt32Type)),
           (7, Ret (Instruction 6 LLVMInt32Type))]\<rparr>],
    mod_functions =
      [\<lparr>fn_name = ''main'', fn_type = FunctionType LLVMInt32Type [] False, fn_blocks = [0]\<rparr>,
       \<lparr>fn_name = ''add'',
          fn_type = FunctionType LLVMInt32Type [LLVMInt32Type, LLVMInt32Type] False,
          fn_blocks = [1]\<rparr>],
    mod_globals = [], next_value = 8, builder = Some 0,
    current_function = Some 0, current_scope_symbols = 1, global_symbols = 0,
    symtabs =
      [Some
        \<lparr>entries =
           [\<lparr>sym_name = ''add'',
               sym_value =
                 Function 1 (FunctionType LLVMInt32Type [LLVMInt32Type, LLVMInt32Type] False),
               sym_type = FunctionType LLVMInt32Type [LLVMInt32Type, LLVMInt32Type] False,
               is_param = False\<rparr>],
           parent = None\<rparr>,
       Some \<lparr>entries = [], parent = Some 0\<rparr>, None],
    piped_value = None, current_loop_var_name = None,
    current_loop_var_ptr = None, current_loop_cond_bb = None,
    current_loop_end_bb = None, stderr = []\<rparr>"
  by (simp add: example_after_add_def example_add_def example_start_eq codegen_eval cong: let_weak_cong)

lemma terminated_skips:
  "insert_block_terminated s \<Longrightarrow> codegen_statement_list_payload s ys = s"
proof (induction ys)
  case Nil
  then show ?case by (simp add: codegen_statement_list_payload_eq)
next
  case (Cons h ys)
  then show ?case
    by (cases h) (simp_all add: codegen_statement_list_payload_eq)
qed

subsection \<open>Statements after a terminator\<close>

text \<open>
  C7. When the lowering of a statement list has left the insert block with a terminator,
  the statements that follow in the list are skipped: the state after the longer list is
  the state after the part already lowered, so no instruction and no block is added for
  them.
\<close>

theorem statement_list_skips_after_terminator:
  "insert_block_terminated (codegen_statement_list_payload s xs) \<Longrightarrow>
   codegen_statement_list_payload s (xs @ ys) = codegen_statement_list_payload s xs"
proof (induction xs arbitrary: s)
  case Nil
  then show ?case
    by (simp add: codegen_statement_list_payload_eq terminated_skips)
next
  case (Cons h xs)
  show ?case
  proof (cases h)
    case None
    with Cons show ?thesis
      by (simp add: codegen_statement_list_payload_eq)
  next
    case (Some x)
    show ?thesis
    proof (cases "insert_block_terminated s")
      case True
      then show ?thesis
        by (simp add: terminated_skips)
    next
      case False
      with Cons.prems Some show ?thesis
        by (cases x) (simp_all add: codegen_statement_list_payload_eq Cons.IH)
    qed
  qed
qed

theorem statement_list_skips_after_terminator_witness:
  "insert_block_terminated
     (codegen_statement_list_payload example_start
        [Some (NODE_STATEMENT_LIST 1 [Some (NODE_RETURN 1 None)])]) \<and>
   codegen_statement_list_payload example_start
     ([Some (NODE_STATEMENT_LIST 1 [Some (NODE_RETURN 1 None)])] @
      [Some (NODE_PRINT_CALL 2 (Some (NODE_NUMBER 2 5)))]) =
   codegen_statement_list_payload example_start
     [Some (NODE_STATEMENT_LIST 1 [Some (NODE_RETURN 1 None)])]"
proof -
  have h: "insert_block_terminated
     (codegen_statement_list_payload example_start
        [Some (NODE_STATEMENT_LIST 1 [Some (NODE_RETURN 1 None)])])"
    by code_simp
  from h statement_list_skips_after_terminator [OF h] show ?thesis by blast
qed

subsection \<open>The piped value across a pipeline\<close>

text \<open>
  C4. After a pipeline node is lowered, whatever its right-hand node is and whether or not
  the lowering failed, the piped-value slot of the generator holds the value it held
  before the lowering began.
\<close>

theorem pipeline_restores_piped_value:
  "piped_value (snd (codegen_pipeline s (NODE_PIPELINE ln left_expr right_op))) = piped_value s"
  using codegen_context(8) [of s "NODE_PIPELINE ln left_expr right_op"]
  by (simp add: context_of_def)

subsection \<open>A range piped into a for-each loop\<close>

lemma codegen_range_no_value: "fst (codegen_range s (NODE_RANGE ln a b)) = None"
  by (simp add: codegen_range_eq split_def Let_def)

lemma report_piped_restore:
  "(report d (s\<lparr>piped_value := v\<rparr>))\<lparr>piped_value := piped_value s\<rparr> = report d s"
  by (simp add: report_def)

text \<open>
  C10. A pipeline from a range into a for-each loop lowers the start and the end of the
  range once, when it lowers its left expression. The loop with the range spliced in is
  handed to \<^verbatim>\<open>codegen_expr\<close>, which has no case for a loop node: it reports a node
  that is not an expression and returns no value, so the loop lowerer never runs and
  nothing is lowered a second time.
\<close>

theorem pipeline_for_each_lowers_range_once:
  "codegen_pipeline s
     (NODE_PIPELINE ln (Some (NODE_RANGE rl a b)) (NODE_FOR_LOOP fl rg var body)) =
   (None, report (NotAnExpression fl T_FOR_LOOP) (snd (codegen_range s (NODE_RANGE rl a b))))"
proof -
  obtain v s1 where r: "codegen_range s (NODE_RANGE rl a b) = (v, s1)"
    by (cases "codegen_range s (NODE_RANGE rl a b)")
  have v: "v = None"
    using codegen_range_no_value [of s rl a b] r by simp
  show ?thesis
    using r v
    by (simp add: codegen_pipeline_eq codegen_expr_eq Let_def report_piped_restore)
qed

subsection \<open>Calls and their argument count\<close>

lemma codegen_call_args_length:
  "codegen_call_args s nm i args = (Some vs, s') \<Longrightarrow> length vs = length args"
proof (induction args arbitrary: s i vs s')
  case Nil
  then show ?case by (simp add: codegen_call_args_eq)
next
  case (Cons a rest)
  obtain v s1 where e: "codegen_expr s (Some a) = (v, s1)"
    by (cases "codegen_expr s (Some a)")
  show ?case
  proof (cases v)
    case None
    with Cons.prems e show ?thesis by (simp add: codegen_call_args_eq)
  next
    case (Some x)
    obtain ws s2 where r: "codegen_call_args s1 nm (i + 1) rest = (ws, s2)"
      by (cases "codegen_call_args s1 nm (i + 1) rest")
    show ?thesis
    proof (cases ws)
      case None
      with Cons.prems e Some r show ?thesis by (simp add: codegen_call_args_eq)
    next
      case ws: (Some xs)
      with Cons.prems e Some r have "vs = x # xs" by (simp add: codegen_call_args_eq)
      moreover have "length xs = length rest"
        using Cons.IH [of s1 "i + 1" xs s2] r ws by simp
      ultimately show ?thesis by simp
    qed
  qed
qed

lemma block_instrs_build:
  "builder s = Some b \<Longrightarrow> b < length (ctx_blocks s) \<Longrightarrow>
   block_instrs (snd (build opc t s)) b = block_instrs s b @ [(next_value s, opc)]"
  by (simp add: build_def Let_def append_instr_def block_instrs_def)


text \<open>
  C2. Let the callee resolve to a function symbol. When the number of its parameters
  differs from the actual argument count (the explicit arguments, plus one for a piped
  value), the call returns no value and the state changes by the diagnostic only, so no
  instruction is emitted. When the counts agree and the arguments lower to values, one
  call instruction is appended to the insert block; its arguments are the piped value, if
  there is one, followed by the explicit arguments, and they are as many as the callee
  has parameters.
\<close>

theorem func_call_arity:
  assumes "find_symbol s (global_symbols s) nm = Some symb"
    and "is_function_type (sym_type symb)"
  shows
    "(LLVMCountParamTypes (sym_type symb) \<noteq> actual_arg_count args piped \<longrightarrow>
        codegen_func_call s (NODE_FUNCTION_CALL ln nm args) piped =
          (None, report (IncorrectArgumentCount ln nm (LLVMCountParamTypes (sym_type symb))
                           (actual_arg_count args piped)) s)) \<and>
     (LLVMCountParamTypes (sym_type symb) = actual_arg_count args piped \<longrightarrow>
        (\<forall>vs s1 b. codegen_call_args s nm 0 args = (Some vs, s1) \<longrightarrow>
           builder s1 = Some b \<longrightarrow> b < length (ctx_blocks s1) \<longrightarrow>
           block_instrs (snd (codegen_func_call s (NODE_FUNCTION_CALL ln nm args) piped)) b =
             block_instrs s1 b @
               [(next_value s1,
                 Call (sym_type symb) (sym_value symb)
                   ((case piped of Some p \<Rightarrow> [p] | None \<Rightarrow> []) @ vs))] \<and>
           length ((case piped of Some p \<Rightarrow> [p] | None \<Rightarrow> []) @ vs) =
             LLVMCountParamTypes (sym_type symb)))"
proof (intro conjI impI allI)
  assume "LLVMCountParamTypes (sym_type symb) \<noteq> actual_arg_count args piped"
  with assms show "codegen_func_call s (NODE_FUNCTION_CALL ln nm args) piped =
          (None, report (IncorrectArgumentCount ln nm (LLVMCountParamTypes (sym_type symb))
                           (actual_arg_count args piped)) s)"
    by (simp add: codegen_func_call_eq actual_arg_count_def Let_def)
next
  fix vs s1 b
  assume eq: "LLVMCountParamTypes (sym_type symb) = actual_arg_count args piped"
    and args: "codegen_call_args s nm 0 args = (Some vs, s1)"
    and b: "builder s1 = Some b" "b < length (ctx_blocks s1)"
  have "codegen_func_call s (NODE_FUNCTION_CALL ln nm args) piped = build_call symb piped vs s1"
    using assms eq args by (simp add: codegen_func_call_eq actual_arg_count_def Let_def)
  then show "block_instrs (snd (codegen_func_call s (NODE_FUNCTION_CALL ln nm args) piped)) b =
             block_instrs s1 b @
               [(next_value s1,
                 Call (sym_type symb) (sym_value symb)
                   ((case piped of Some p \<Rightarrow> [p] | None \<Rightarrow> []) @ vs))]"
    using b by (simp add: build_call_def block_instrs_build)
  show "length ((case piped of Some p \<Rightarrow> [p] | None \<Rightarrow> []) @ vs) =
             LLVMCountParamTypes (sym_type symb)"
    using eq codegen_call_args_length [OF args]
    by (simp add: actual_arg_count_def split: option.splits)
qed

theorem func_call_arity_witness:
  "codegen_func_call example_after_add (NODE_FUNCTION_CALL 2 ''add'' [NODE_NUMBER 2 3]) None =
     (None, report (IncorrectArgumentCount 2 ''add'' 2 1) example_after_add) \<and>
   block_instrs
     (snd (codegen_func_call example_after_add (NODE_FUNCTION_CALL 2 ''add'' [NODE_NUMBER 2 4])
             (Some (ConstInt LLVMInt32Type 3)))) 0 =
     block_instrs example_after_add 0 @
       [(next_value example_after_add,
         Call (FunctionType LLVMInt32Type [LLVMInt32Type, LLVMInt32Type] False)
           (Function 1 (FunctionType LLVMInt32Type [LLVMInt32Type, LLVMInt32Type] False))
           [ConstInt LLVMInt32Type 3, ConstInt LLVMInt32Type 4])]"
proof -
  let ?ft = "FunctionType LLVMInt32Type [LLVMInt32Type, LLVMInt32Type] False"
  let ?symb = "\<lparr>sym_name = ''add'', sym_value = Function 1 ?ft, sym_type = ?ft, is_param = False\<rparr>"
  have a1: "find_symbol example_after_add (global_symbols example_after_add) ''add'' = Some ?symb"
    by (simp add: example_after_add_eq codegen_eval cong: let_weak_cong)
  have a2: "is_function_type (sym_type ?symb)"
    by (simp add: is_function_type_def)
  have c1: "LLVMCountParamTypes (sym_type ?symb) \<noteq> actual_arg_count [NODE_NUMBER 2 3] None"
    by (simp add: LLVMCountParamTypes_def actual_arg_count_def)
  have c2: "LLVMCountParamTypes (sym_type ?symb) =
      actual_arg_count [NODE_NUMBER 2 4] (Some (ConstInt LLVMInt32Type 3))"
    by (simp add: LLVMCountParamTypes_def actual_arg_count_def)
  have c3: "codegen_call_args example_after_add ''add'' 0 [NODE_NUMBER 2 4] =
      (Some [ConstInt LLVMInt32Type 4], example_after_add)"
    by (simp add: codegen_call_args_eq codegen_expr_eq codegen_number_def)
  have c4: "builder example_after_add = Some 0"
    by (simp add: example_after_add_eq)
  have c5: "0 < length (ctx_blocks example_after_add)"
    by (simp add: example_after_add_eq)
  have w1: "codegen_func_call example_after_add (NODE_FUNCTION_CALL 2 ''add'' [NODE_NUMBER 2 3])
      None = (None, report (IncorrectArgumentCount 2 ''add'' 2 1) example_after_add)"
    using func_call_arity [OF a1 a2, of "[NODE_NUMBER 2 3]" None 2] c1
    by (simp add: LLVMCountParamTypes_def actual_arg_count_def numeral_2_eq_2)
  have w2: "block_instrs
     (snd (codegen_func_call example_after_add (NODE_FUNCTION_CALL 2 ''add'' [NODE_NUMBER 2 4])
             (Some (ConstInt LLVMInt32Type 3)))) 0 =
     block_instrs example_after_add 0 @
       [(next_value example_after_add,
         Call ?ft (Function 1 ?ft) [ConstInt LLVMInt32Type 3, ConstInt LLVMInt32Type 4])]"
    using func_call_arity [OF a1 a2, of "[NODE_NUMBER 2 4]" "Some (ConstInt LLVMInt32Type 3)" 2]
      c2 c3 c4 c5
    by simp
  from w1 w2 show ?thesis by simp
qed

subsection \<open>Format strings of print calls\<close>

lemma print_call_emit_globals:
  assumes "LLVMGetInsertBlock s \<noteq> None"
  shows "\<exists>g. mod_globals (snd (print_call_emit ln v s)) = mod_globals s @ [g] \<and>
           g_constant g \<and> g_init g = StringInit (print_format (LLVMTypeOf v))"
proof -
  obtain f s1 where p: "get_printf_function s = (f, s1)"
    by (cases "get_printf_function s")
  have g1: "mod_globals s1 = mod_globals s" and b1: "LLVMGetInsertBlock s1 \<noteq> None"
    using p assms
    by (auto simp: get_printf_function_def LLVMGetInsertBlock_def LLVMAddFunction_def
             split: option.splits)
  show ?thesis
    using g1 b1
    by (cases "LLVMTypeOf v" rule: print_format.cases)
       (simp_all add: print_call_emit_def p LLVMBuildGlobalStringPtr_def split_def Let_def)
qed

text \<open>
  C9 (as the code has it). Every print call that has a value to print, in a positioned
  builder, adds one more constant global that holds the format string of the value's kind:
  nothing is looked up or shared, so \<open>n\<close> print calls of one kind leave \<open>n\<close> such globals
  in the module. This holds for the print call with an expression of its own and for the
  one that prints the piped value.
\<close>

theorem print_call_adds_format_global:
  "(codegen_expr s (Some e) = (Some v, s1) \<and> LLVMGetInsertBlock s1 \<noteq> None \<longrightarrow>
      (\<exists>g. mod_globals (snd (codegen_print_call s (NODE_PRINT_CALL ln (Some e)))) =
             mod_globals s1 @ [g] \<and>
           g_constant g \<and> g_init g = StringInit (print_format (LLVMTypeOf v)))) \<and>
   (piped_value s = Some v \<and> LLVMGetInsertBlock s \<noteq> None \<longrightarrow>
      (\<exists>g. mod_globals (snd (codegen_print_call s (NODE_PRINT_CALL ln None))) =
             mod_globals s @ [g] \<and>
           g_constant g \<and> g_init g = StringInit (print_format (LLVMTypeOf v))))"
  using print_call_emit_globals [of s1 ln v] print_call_emit_globals [of s ln v]
  by (simp add: codegen_print_call_eq print_piped_argument_def)

theorem print_call_adds_format_global_witness:
  "(\<exists>g. mod_globals
          (snd (codegen_print_call example_start (NODE_PRINT_CALL 1 (Some (NODE_NUMBER 1 7))))) =
          mod_globals example_start @ [g] \<and>
        g_constant g \<and> g_init g = StringInit fmt_int_ln) \<and>
   (\<exists>g. mod_globals
          (snd (codegen_print_call (example_start\<lparr>piped_value := Some (ConstInt LLVMInt32Type 7)\<rparr>)
                  (NODE_PRINT_CALL 1 None))) =
          mod_globals example_start @ [g] \<and>
        g_constant g \<and> g_init g = StringInit fmt_int_ln)"
proof -
  have e: "codegen_expr example_start (Some (NODE_NUMBER 1 7)) =
      (Some (ConstInt LLVMInt32Type 7), example_start)"
    by (simp add: codegen_expr_eq codegen_number_def)
  have b: "LLVMGetInsertBlock example_start \<noteq> None"
    by (simp add: example_start_eq LLVMGetInsertBlock_def)
  have p: "piped_value (example_start\<lparr>piped_value := Some (ConstInt LLVMInt32Type 7)\<rparr>) =
      Some (ConstInt LLVMInt32Type 7)"
    by simp
  have b': "LLVMGetInsertBlock (example_start\<lparr>piped_value := Some (ConstInt LLVMInt32Type 7)\<rparr>)
      \<noteq> None"
    using b by (simp add: LLVMGetInsertBlock_def)
  from print_call_adds_format_global
         [of example_start "NODE_NUMBER 1 7" "ConstInt LLVMInt32Type 7" example_start 1]
       print_call_adds_format_global
         [of "example_start\<lparr>piped_value := Some (ConstInt LLVMInt32Type 7)\<rparr>" "NODE_NUMBER 1 7"
             "ConstInt LLVMInt32Type 7" example_start 1]
       e b p b'
  show ?thesis by simp
qed

text \<open>
  C9 (counterexample). The program \<^verbatim>\<open>print(1); print(2);\<close> prints two integers, and the
  module that \<^verbatim>\<open>llvm_generate_code\<close> builds for it has two constant globals that hold the
  integer format string.
\<close>

theorem two_prints_two_format_globals:
  "map (\<lambda>g. (g_init g, g_constant g))
     (mod_globals (llvm_generate_code create_llvm_generator_state (Some example_two_prints))) =
     [(StringInit fmt_int_ln, True), (StringInit fmt_int_ln, True)]"
  by (simp add: example_two_prints_def codegen_eval cong: let_weak_cong)

subsection \<open>The scope of a function body\<close>

lemma add_symbol_length [simp]:
  "length (symtabs (add_symbol st nm v t p s)) = length (symtabs s)"
  by (simp add: add_symbol_def report_def Let_def split: option.splits)

lemma add_symbol_other:
  "st' \<noteq> st \<Longrightarrow> get_symtab (add_symbol st nm v t p s) st' = get_symtab s st'"
  by (simp add: add_symbol_def report_def Let_def get_symtab_def split: option.splits)

lemma add_symbol_parent:
  "map_option parent (get_symtab (add_symbol st nm v t p s) st') =
     map_option parent (get_symtab s st')"
  by (cases "st' = st")
     (auto simp: add_symbol_def report_def Let_def get_symtab_def split: option.splits)

lemma add_symbol_full:
  "get_symtab s st = Some tab \<Longrightarrow> SYMBOL_TABLE_SIZE \<le> length (entries tab) \<Longrightarrow>
   add_symbol st nm v t p s = report (SymbolTableOverflow nm) s"
  by (simp add: add_symbol_def)

lemma find_update_entry:
  "find (\<lambda>e. sym_name e = sym_name y)
     (case update_entry y es of Some es' \<Rightarrow> es' | None \<Rightarrow> es @ [y]) = Some y"
  by (induction es) (auto split: option.splits)

lemma find_update_entry_other:
  "nm \<noteq> sym_name y \<Longrightarrow>
   find (\<lambda>e. sym_name e = nm)
     (case update_entry y es of Some es' \<Rightarrow> es' | None \<Rightarrow> es @ [y]) =
   find (\<lambda>e. sym_name e = nm) es"
  by (induction es) (auto split: option.splits)

lemma update_entry_new:
  "sym_name y \<notin> sym_name ` set es \<Longrightarrow> update_entry y es = None"
  by (induction es) auto

lemma add_symbol_find:
  assumes "get_symtab s st = Some tab" and "length (entries tab) < SYMBOL_TABLE_SIZE"
  shows "\<exists>tab'. get_symtab (add_symbol st nm v t p s) st = Some tab' \<and>
           find (\<lambda>e. sym_name e = nm) (entries tab') =
             Some \<lparr>sym_name = nm, sym_value = v, sym_type = t, is_param = p\<rparr>"
  using assms
    find_update_entry [of "\<lparr>sym_name = nm, sym_value = v, sym_type = t, is_param = p\<rparr>"
                          "entries tab"]
  by (auto simp: add_symbol_def Let_def get_symtab_def split: if_splits)

lemma add_symbol_find_other:
  assumes "nm' \<noteq> nm"
  shows "map_option (\<lambda>tab. find (\<lambda>e. sym_name e = nm') (entries tab))
           (get_symtab (add_symbol st nm v t p s) st') =
         map_option (\<lambda>tab. find (\<lambda>e. sym_name e = nm') (entries tab)) (get_symtab s st')"
proof (cases "st' = st")
  case False
  then show ?thesis by (simp add: add_symbol_other)
next
  case True
  show ?thesis
  proof (cases "get_symtab s st")
    case None
    then show ?thesis by (simp add: True add_symbol_def)
  next
    case (Some tab)
    show ?thesis
    proof (cases "SYMBOL_TABLE_SIZE \<le> length (entries tab)")
      case full: True
      then show ?thesis
        by (simp add: True add_symbol_full [OF Some] get_symtab_def report_def)
    next
      case False
      then show ?thesis
        using Some assms
          find_update_entry_other
            [of nm' "\<lparr>sym_name = nm, sym_value = v, sym_type = t, is_param = p\<rparr>" "entries tab"]
        by (auto simp: True add_symbol_def Let_def get_symtab_def split: if_splits)
    qed
  qed
qed

text \<open>The global table after \<^verbatim>\<open>add_symbol\<close>.\<close>

lemma lookup_global_add_symbol:
  "lookup_global (add_symbol st nm v t p s) nm' =
     (if st = global_symbols s \<and> nm' = nm \<and>
         (\<exists>tab. get_symtab s st = Some tab \<and> length (entries tab) < SYMBOL_TABLE_SIZE)
      then Some \<lparr>sym_name = nm, sym_value = v, sym_type = t, is_param = p\<rparr>
      else lookup_global s nm')"
proof (cases "nm' = nm")
  case False
  from add_symbol_find_other [OF False, of st v t p s "global_symbols s"]
  show ?thesis
    using False by (auto simp: lookup_global_def split: option.splits)
next
  case True
  show ?thesis
  proof (cases "st = global_symbols s")
    case False
    then show ?thesis
      by (simp add: lookup_global_def add_symbol_other)
  next
    case g: True
    show ?thesis
    proof (cases "get_symtab s st")
      case None
      then show ?thesis by (simp add: add_symbol_def)
    next
      case (Some tab)
      show ?thesis
      proof (cases "SYMBOL_TABLE_SIZE \<le> length (entries tab)")
        case full: True
        then show ?thesis
          using Some by (simp add: add_symbol_full [OF Some] lookup_global_def get_symtab_def report_def)
      next
        case False
        then have "length (entries tab) < SYMBOL_TABLE_SIZE" by simp
        from add_symbol_find [OF Some this, of nm v t p]
        show ?thesis
          using Some False True g by (auto simp: lookup_global_def)
      qed
    qed
  qed
qed

lemma lookup_global_cong:
  "symtabs s' = symtabs s \<Longrightarrow> global_symbols s' = global_symbols s \<Longrightarrow>
   lookup_global s' nm = lookup_global s nm"
  by (simp add: lookup_global_def get_symtab_def)

lemma same_scopes_refl [simp]: "same_scopes s s"
  by (simp add: same_scopes_def)

lemma same_scopes_trans: "same_scopes a b \<Longrightarrow> same_scopes b c \<Longrightarrow> same_scopes a c"
  by (simp add: same_scopes_def)

lemma same_scopes_keeps:
  assumes "same_scopes s s'"
  shows "keeps_globals s s'"
proof -
  have "lookup_global s' nm = lookup_global s nm" for nm
    using assms by (intro lookup_global_cong) (simp_all add: same_scopes_def)
  then show ?thesis
    using assms by (simp add: same_scopes_def keeps_globals_def)
qed

lemma keeps_globals_refl: "keeps_globals s s"
  by (simp add: keeps_globals_def)

lemma keeps_globals_trans:
  assumes "keeps_globals a b" and "keeps_globals b c"
  shows "keeps_globals a c"
proof -
  have g: "global_symbols b = global_symbols a" "global_symbols c = global_symbols a"
    and l: "length (symtabs a) \<le> length (symtabs b)"
    and m: "length (mod_functions a) \<le> length (mod_functions b)"
    using assms by (simp_all add: keeps_globals_def)
  have "\<exists>e''. lookup_global c nm = Some e'' \<and>
          (e'' = e \<or> (\<exists>i t. sym_value e'' = Function i t \<and> length (mod_functions a) \<le> i))"
    if v: "global_symbols a < length (symtabs a)" and e: "lookup_global a nm = Some e" for nm e
  proof -
    from assms(1) v e obtain e' where e': "lookup_global b nm = Some e'"
      and r1: "e' = e \<or> (\<exists>i t. sym_value e' = Function i t \<and> length (mod_functions a) \<le> i)"
      unfolding keeps_globals_def by blast
    have "global_symbols b < length (symtabs b)"
      using v g l by simp
    with assms(2) e' obtain e'' where e'': "lookup_global c nm = Some e''"
      and r2: "e'' = e' \<or> (\<exists>i t. sym_value e'' = Function i t \<and> length (mod_functions b) \<le> i)"
      unfolding keeps_globals_def by blast
    from r1 r2 m have "e'' = e \<or> (\<exists>i t. sym_value e'' = Function i t \<and> length (mod_functions a) \<le> i)"
      by (metis le_trans)
    with e'' show ?thesis by blast
  qed
  then show ?thesis
    using assms by (simp add: keeps_globals_def)
qed
lemma length_mod_functions_append_existing [simp]:
  "length (mod_functions (LLVMAppendExistingBasicBlock f b s)) = length (mod_functions s)"
  by (simp add: LLVMAppendExistingBasicBlock_def)

lemma length_mod_functions_append_block [simp]:
  "length (mod_functions (snd (LLVMAppendBasicBlockInContext f nm s))) = length (mod_functions s)"
  by (simp add: LLVMAppendBasicBlockInContext_def split_def Let_def)

lemma length_mod_functions_add_function [simp]:
  "length (mod_functions (snd (LLVMAddFunction nm t s))) = Suc (length (mod_functions s))"
  by (simp add: LLVMAddFunction_def)

lemma same_scopes_report [simp]: "same_scopes s (report d s)"
  by (simp add: same_scopes_def)

lemma same_scopes_build [simp]: "same_scopes s (snd (build opc t s))"
  by (simp add: same_scopes_def)

lemma same_scopes_position [simp]: "same_scopes s (LLVMPositionBuilderAtEnd b s)"
  by (simp add: same_scopes_def)

lemma same_scopes_append_existing [simp]: "same_scopes s (LLVMAppendExistingBasicBlock f b s)"
  by (simp add: same_scopes_def)

lemma same_scopes_append_block [simp]:
  "same_scopes s (snd (LLVMAppendBasicBlockInContext f nm s))"
  by (simp add: same_scopes_def)

lemma same_scopes_piped [simp]: "same_scopes s (s\<lparr>piped_value := v\<rparr>)"
  by (simp add: same_scopes_def)

lemma same_scopes_codegen_identifier [simp]:
  "same_scopes s (snd (codegen_identifier s nm ln))"
  by (simp add: codegen_identifier_def split: option.splits)

lemma same_scopes_binop_switch [simp]: "same_scopes s (snd (binop_switch op L R ln s))"
  by (simp add: binop_switch_def split: OperatorType.splits)

lemma same_scopes_unaryop_switch [simp]: "same_scopes s (snd (unaryop_switch op v ln s))"
  by (simp add: unaryop_switch_def split: OperatorType.splits)

lemma same_scopes_build_call [simp]: "same_scopes s (snd (build_call symb p vs s))"
  by (simp add: build_call_def)

lemma same_scopes_if_else_condition [simp]: "same_scopes s (snd (if_else_condition c s))"
  by (simp add: if_else_condition_def)

lemma same_scopes_branch_if_open [simp]: "same_scopes s (branch_if_open b s)"
  by (simp add: branch_if_open_def)

lemma same_scopes_if_else_merge [simp]: "same_scopes s (if_else_merge f b s)"
  by (simp add: if_else_merge_def same_scopes_def)

lemma same_scopes_if_else_branch [simp]:
  "same_scopes s (snd (snd (if_else_branch f c e s)))"
  by (simp add: if_else_branch_def Let_def split_def same_scopes_def)

lemma same_scopes_and_branch:
  "and_branch L s = Some (a, b, s') \<Longrightarrow> same_scopes s s'"
  by (auto simp: and_branch_def Let_def split_def same_scopes_def split: option.splits)

lemma same_scopes_or_branch:
  "or_branch L s = Some (a, b, s') \<Longrightarrow> same_scopes s s'"
  by (auto simp: or_branch_def Let_def split_def same_scopes_def split: option.splits)

lemma same_scopes_and_merge [simp]: "same_scopes s (snd (and_merge a b R s))"
  by (simp add: and_merge_def Let_def split_def same_scopes_def split: option.splits)

lemma same_scopes_or_merge [simp]: "same_scopes s (snd (or_merge a b R s))"
  by (simp add: or_merge_def Let_def split_def same_scopes_def split: option.splits)

lemma same_scopes_get_printf [simp]: "same_scopes s (snd (get_printf_function s))"
  by (simp add: get_printf_function_def same_scopes_def split: option.splits)

lemma same_scopes_print_call_emit [simp]: "same_scopes s (snd (print_call_emit ln v s))"
proof -
  have "same_scopes s (snd (get_printf_function s))" by simp
  then show ?thesis
    by (simp add: print_call_emit_def Let_def split_def same_scopes_def split: LLVMType.splits)
qed

lemma same_scopes_declare_variable:
  "declare_variable nm t s = Some (v, s') \<Longrightarrow> same_scopes s s'"
  by (auto simp: declare_variable_def build_entry_alloca_def LLVMAddGlobal_def Let_def
        same_scopes_def split: option.splits)

text \<open>A symbol that is added where the global table has none of that name, or a new function.\<close>

lemma add_symbol_keeps:
  assumes "same_scopes s s0"
    and "st = global_symbols s \<Longrightarrow> lookup_global s nm = None \<or>
           (\<exists>i t'. v = Function i t' \<and> length (mod_functions s) \<le> i)"
  shows "keeps_globals s (add_symbol st nm v t p s0)"
proof -
  have g: "global_symbols s0 = global_symbols s" and l: "symtabs s0 = symtabs s"
    and m: "length (mod_functions s) \<le> length (mod_functions s0)"
    using assms(1) by (simp_all add: same_scopes_def)
  have e: "lookup_global s0 nm' = lookup_global s nm'" for nm'
    by (rule lookup_global_cong [OF l g])
  have "\<exists>e'. lookup_global (add_symbol st nm v t p s0) nm' = Some e' \<and>
          (e' = e \<or> (\<exists>i t. sym_value e' = Function i t \<and> length (mod_functions s) \<le> i))"
    if "lookup_global s nm' = Some e" for nm' e
    using that assms(2) by (auto simp: lookup_global_add_symbol e g)
  then show ?thesis
    using g l m by (simp add: keeps_globals_def)
qed

lemma find_symbol_none_lookup:
  "find_symbol s (global_symbols s) nm = None \<Longrightarrow> lookup_global s nm = None"
  by (subst (asm) find_symbol.simps) (auto simp: lookup_global_def split: option.splits)

lemma find_symbol_lookup:
  "lookup_global s nm = Some e \<Longrightarrow> find_symbol s (global_symbols s) nm = Some e"
  by (subst find_symbol.simps) (auto simp: lookup_global_def split: option.splits)

lemma keeps_assignment_store: "keeps_globals s (snd (assignment_store ln nm v s))"
proof (cases "find_symbol s (current_scope_symbols s) nm")
  case None
  show ?thesis
  proof (cases "declare_variable nm (LLVMTypeOf v) s")
    case N2: None
    with None show ?thesis
      by (simp add: assignment_store_def same_scopes_keeps)
  next
    case (Some r)
    obtain p s1 where r: "r = (p, s1)" by (cases r)
    from Some r have d: "same_scopes s s1"
      by (simp add: same_scopes_declare_variable)
    from Some r have c: "current_scope_symbols s1 = current_scope_symbols s"
      using context_of_declare_variable [of nm "LLVMTypeOf v" s p s1]
      by (simp add: context_of_def)
    have k: "keeps_globals s (add_symbol (current_scope_symbols s1) nm p (LLVMTypeOf v) False s1)"
      using None by (intro add_symbol_keeps [OF d]) (simp add: c find_symbol_none_lookup)
    have "keeps_globals (add_symbol (current_scope_symbols s1) nm p (LLVMTypeOf v) False s1)
        (snd (build (Store v p) VoidType
           (add_symbol (current_scope_symbols s1) nm p (LLVMTypeOf v) False s1)))"
      by (intro same_scopes_keeps) simp
    from keeps_globals_trans [OF k this] None Some r show ?thesis
      by (simp add: assignment_store_def Let_def split_def)
  qed
next
  case (Some symb)
  have "same_scopes s (snd (assignment_store ln nm v s))"
    using Some by (simp add: assignment_store_def Let_def split_def same_scopes_def)
  then show ?thesis by (rule same_scopes_keeps)
qed
lemma bind_params_scope [simp]:
  "current_scope_symbols (bind_params f i ps s) = current_scope_symbols s"
  "global_symbols (bind_params f i ps s) = global_symbols s"
  "length (symtabs (bind_params f i ps s)) = length (symtabs s)"
  "mod_functions (bind_params f i ps s) = mod_functions s"
  by (induction ps arbitrary: i s) (simp_all add: bind_params.simps split_def Let_def)

lemma bind_params_other:
  "st \<noteq> current_scope_symbols s \<Longrightarrow> get_symtab (bind_params f i ps s) st = get_symtab s st"
proof (induction ps arbitrary: i s)
  case Nil
  then show ?case by (simp add: bind_params.simps)
next
  case (Cons p ps)
  then show ?case
    by (simp add: bind_params.simps split_def Let_def add_symbol_other)
       (simp add: get_symtab_def)
qed

lemma bind_params_parent:
  "map_option parent (get_symtab (bind_params f i ps s) st) = map_option parent (get_symtab s st)"
proof (induction ps arbitrary: i s)
  case Nil
  then show ?case by (simp add: bind_params.simps)
next
  case (Cons p ps)
  then show ?case
    by (simp add: bind_params.simps split_def Let_def add_symbol_parent)
       (simp add: get_symtab_def)
qed

lemma add_symbol_stderr: "\<exists>rest. stderr (add_symbol st nm v t p s) = stderr s @ rest"
  by (simp add: add_symbol_def report_def Let_def split: option.splits)

lemma bind_params_stderr: "\<exists>rest. stderr (bind_params f i ps s) = stderr s @ rest"
proof (induction ps arbitrary: i s)
  case Nil
  then show ?case by (simp add: bind_params.simps)
next
  case (Cons p ps)
  let ?s2 = "snd (build (Store (Argument f i LLVMInt32Type) (fst (LLVMBuildAlloca LLVMInt32Type p s)))
                    VoidType (snd (LLVMBuildAlloca LLVMInt32Type p s)))"
  let ?s3 = "add_symbol (current_scope_symbols ?s2) p (fst (LLVMBuildAlloca LLVMInt32Type p s))
               LLVMInt32Type True ?s2"
  obtain r1 where r1: "stderr ?s3 = stderr ?s2 @ r1"
    using add_symbol_stderr by blast
  obtain r2 where r2: "stderr (bind_params f (Suc i) ps ?s3) = stderr ?s3 @ r2"
    using Cons.IH by blast
  have "stderr (bind_params f i (p # ps) s) = stderr s @ (r1 @ r2)"
    using r1 r2 by (simp add: bind_params.simps split_def Let_def)
  then show ?case by blast
qed

lemma lookup_global_table:
  "global_symbols s' = global_symbols s \<Longrightarrow>
   get_symtab s' (global_symbols s) = get_symtab s (global_symbols s) \<Longrightarrow>
   lookup_global s' nm = lookup_global s nm"
  by (simp add: lookup_global_def)

lemma lookup_global_freed:
  assumes "symtabs s' = (symtabs s)[st := None]" and "global_symbols s' = global_symbols s"
    and "st \<noteq> global_symbols s"
  shows "lookup_global s' nm = lookup_global s nm"
  using assms by (intro lookup_global_table) (simp_all add: get_symtab_def)

text \<open>
  The state in which the body of a function is lowered, seen from the state \<open>s\<close> at the
  definition site.
\<close>

lemma func_def_begin_scope:
  assumes "func_def_begin func_name param_names s = (func_val, saved, s1)"
  shows "current_scope_symbols s1 = length (symtabs s)"
    and "global_symbols s1 = global_symbols s"
    and "map_option parent (get_symtab s1 (current_scope_symbols s1)) =
           Some (Some (global_symbols s))"
    and "st < length (symtabs s) \<Longrightarrow> st \<noteq> global_symbols s \<Longrightarrow>
           get_symtab s1 st = get_symtab s st"
    and "length (symtabs s1) = Suc (length (symtabs s))"
    and "length (mod_functions s1) = Suc (length (mod_functions s))"
    and "func_val = Function (length (mod_functions s))
           (FunctionType LLVMInt32Type (replicate (length param_names) LLVMInt32Type) False)"
    and "global_symbols s < length (symtabs s) \<Longrightarrow>
         lookup_global s1 nm =
           (if nm = func_name \<and>
               (\<exists>tab. get_symtab s (global_symbols s) = Some tab \<and>
                  length (entries tab) < SYMBOL_TABLE_SIZE)
            then Some \<lparr>sym_name = func_name, sym_value = func_val,
                       sym_type = FunctionType LLVMInt32Type
                                    (replicate (length param_names) LLVMInt32Type) False,
                       is_param = False\<rparr>
            else lookup_global s nm)"
    and "get_symtab s (global_symbols s) = Some tab \<Longrightarrow>
         SYMBOL_TABLE_SIZE \<le> length (entries tab) \<Longrightarrow>
           get_symtab s1 (global_symbols s) = Some tab \<and>
           (\<exists>rest. stderr s1 = stderr s @ SymbolTableOverflow func_name # rest)"
    and "global_symbols s < length (symtabs s) \<Longrightarrow>
         get_symtab s1 (global_symbols s) =
           get_symtab
             (add_symbol (global_symbols s) func_name func_val
                (FunctionType LLVMInt32Type (replicate (length param_names) LLVMInt32Type) False)
                False
                (snd (LLVMAddFunction func_name
                        (FunctionType LLVMInt32Type (replicate (length param_names) LLVMInt32Type)
                           False) s)))
             (global_symbols s)"
proof -
  let ?ft = "FunctionType LLVMInt32Type (replicate (length param_names) LLVMInt32Type) False"
  let ?g = "global_symbols s"
  define sa where "sa = snd (LLVMAddFunction func_name ?ft s)"
  define s2 where "s2 = add_symbol ?g func_name func_val ?ft False sa"
  define s4 where "s4 = LLVMPositionBuilderAtEnd (length (ctx_blocks s2))
      (snd (LLVMAppendBasicBlockInContext (length (mod_functions s)) ''entry''
         (snd (create_symbol_table (Some ?g) (s2\<lparr>current_function := Some (length (mod_functions s))\<rparr>))
            \<lparr>current_scope_symbols := length (symtabs s2)\<rparr>)))"
  have fv: "func_val = fst (LLVMAddFunction func_name ?ft s)"
    using assms by (simp add: func_def_begin_def Let_def split_def)
  then show fv': "func_val = Function (length (mod_functions s)) ?ft"
    by (simp add: LLVMAddFunction_def)
  have s1: "s1 = bind_params (length (mod_functions s)) 0 param_names s4"
    using assms
    by (simp add: func_def_begin_def Let_def split_def s4_def s2_def sa_def fv
          create_symbol_table_def LLVMAppendBasicBlockInContext_def
          LLVMCreateBasicBlockInContext_def)
  have sa: "symtabs sa = symtabs s" "global_symbols sa = ?g"
    "length (mod_functions sa) = Suc (length (mod_functions s))" "stderr sa = stderr s"
    by (simp_all add: sa_def)
  have len2: "length (symtabs s2) = length (symtabs s)"
    by (simp add: s2_def sa)
  have cur4: "current_scope_symbols s4 = length (symtabs s)"
    and glob4: "global_symbols s4 = ?g"
    and tabs4: "symtabs s4 = symtabs s2 @ [Some \<lparr>entries = [], parent = Some ?g\<rparr>]"
    and mods4: "length (mod_functions s4) = Suc (length (mod_functions s))"
    by (simp_all add: s4_def len2 create_symbol_table_def s2_def sa)
  have err4: "stderr s4 = stderr s2"
    by (simp add: s4_def create_symbol_table_def)
  show c: "current_scope_symbols s1 = length (symtabs s)"
    by (simp add: s1 cur4)
  show g: "global_symbols s1 = ?g"
    by (simp add: s1 glob4)
  show "length (symtabs s1) = Suc (length (symtabs s))"
    by (simp add: s1 tabs4 len2)
  show "length (mod_functions s1) = Suc (length (mod_functions s))"
    by (simp add: s1 mods4)
  have "map_option parent (get_symtab s1 (length (symtabs s))) =
      map_option parent (get_symtab s4 (length (symtabs s)))"
    unfolding s1 by (rule bind_params_parent)
  also have "\<dots> = Some (Some ?g)"
    by (simp add: get_symtab_def tabs4 len2 nth_append)
  finally show "map_option parent (get_symtab s1 (current_scope_symbols s1)) = Some (Some ?g)"
    by (simp add: c)
  have old: "get_symtab s1 st = get_symtab s2 st" if "st < length (symtabs s)" for st
  proof -
    have "get_symtab s1 st = get_symtab s4 st"
      unfolding s1 using that by (intro bind_params_other) (simp add: cur4)
    also have "\<dots> = get_symtab s2 st"
      using that by (simp add: get_symtab_def tabs4 len2 nth_append)
    finally show ?thesis .
  qed
  show "get_symtab s1 ?g = get_symtab (add_symbol ?g func_name func_val ?ft False
      (snd (LLVMAddFunction func_name ?ft s))) ?g" if "?g < length (symtabs s)"
    using old [OF that] by (simp add: s2_def sa_def)
  show "get_symtab s1 st = get_symtab s st"
    if "st < length (symtabs s)" "st \<noteq> ?g"
  proof -
    have "get_symtab s2 st = get_symtab sa st"
      unfolding s2_def using that by (intro add_symbol_other) simp
    then show ?thesis
      using old [OF that(1)] by (simp add: get_symtab_def sa)
  qed
  have tsa: "get_symtab sa st = get_symtab s st" for st
    by (simp add: get_symtab_def sa)
  have lsa: "lookup_global sa nm = lookup_global s nm" for nm
    by (rule lookup_global_cong) (simp_all add: sa)
  show "lookup_global s1 nm =
      (if nm = func_name \<and>
          (\<exists>tab. get_symtab s ?g = Some tab \<and> length (entries tab) < SYMBOL_TABLE_SIZE)
       then Some \<lparr>sym_name = func_name, sym_value = func_val, sym_type = ?ft, is_param = False\<rparr>
       else lookup_global s nm)"
    if v: "?g < length (symtabs s)"
  proof -
    have "lookup_global s1 nm = lookup_global s2 nm"
      using old [OF v] by (intro lookup_global_table) (simp_all add: g s2_def sa)
    also have "\<dots> =
      (if nm = func_name \<and>
          (\<exists>tab. get_symtab s ?g = Some tab \<and> length (entries tab) < SYMBOL_TABLE_SIZE)
       then Some \<lparr>sym_name = func_name, sym_value = func_val, sym_type = ?ft, is_param = False\<rparr>
       else lookup_global s nm)"
      unfolding s2_def by (auto simp: lookup_global_add_symbol sa tsa lsa)
    finally show ?thesis .
  qed
  show "get_symtab s1 ?g = Some tab \<and>
      (\<exists>rest. stderr s1 = stderr s @ SymbolTableOverflow func_name # rest)"
    if t: "get_symtab s ?g = Some tab" "SYMBOL_TABLE_SIZE \<le> length (entries tab)"
  proof -
    have v: "?g < length (symtabs s)"
      using t(1) by (cases "?g < length (symtabs s)") (simp_all add: get_symtab_def)
    have "get_symtab sa ?g = Some tab"
      using t(1) by (simp add: tsa)
    then have r: "s2 = report (SymbolTableOverflow func_name) sa"
      unfolding s2_def using t(2) by (rule add_symbol_full)
    have "get_symtab s1 ?g = get_symtab s2 ?g"
      using v by (rule old)
    also have "\<dots> = get_symtab sa ?g"
      by (simp add: r get_symtab_def)
    also have "\<dots> = Some tab"
      using t(1) by (simp add: tsa)
    finally have 1: "get_symtab s1 ?g = Some tab" .
    obtain rest where "stderr s1 = stderr s4 @ rest"
      unfolding s1 using bind_params_stderr by blast
    then have "stderr s1 = stderr s @ SymbolTableOverflow func_name # rest"
      by (simp add: err4 r report_def sa)
    with 1 show ?thesis by blast
  qed
qed
lemma func_def_end_tables:
  "symtabs (func_def_end saved s) = (symtabs s)[current_scope_symbols s := None]"
  "mod_functions (func_def_end saved s) = mod_functions s"
  by (simp_all add: func_def_end_def Let_def free_symbol_table_def split: option.splits)

lemma for_loop_end_tables:
  "symtabs (for_loop_end c s) = (symtabs s)[loop_scope c := None]"
  "mod_functions (for_loop_end c s) = mod_functions s"
  by (simp_all add: for_loop_end_def Let_def split_def free_symbol_table_def branch_if_open_def)

lemma for_loop_begin_tables:
  assumes "for_loop_begin nm a b s = Some (c, s1)"
  shows "loop_scope c = length (symtabs s)"
    and "length (symtabs s1) = Suc (length (symtabs s))"
    and "length (mod_functions s1) = length (mod_functions s)"
    and "st < length (symtabs s) \<Longrightarrow> get_symtab s1 st = get_symtab s st"
proof -
  from assms obtain f where f: "current_function s = Some f"
    by (auto simp: for_loop_begin_def split: option.splits)
  from assms f obtain slot sb where sb: "build_entry_alloca f LLVMInt32Type nm s = Some (slot, sb)"
    by (auto simp: for_loop_begin_def split: option.splits)
  have tb: "symtabs sb = symtabs s" and mb: "mod_functions sb = mod_functions s"
    using sb by (auto simp: build_entry_alloca_def Let_def split: option.splits)
  define sc where "sc = add_symbol (length (symtabs s)) nm slot LLVMInt32Type False
      (snd (create_symbol_table (Some (current_scope_symbols sb)) sb)
         \<lparr>current_scope_symbols := length (symtabs s)\<rparr>)"
  let ?r = "the (for_loop_begin nm a b s)"
  have r: "c = fst ?r" "s1 = snd ?r"
    using assms by simp_all
  have "symtabs (snd ?r) = symtabs sc"
    and "length (mod_functions (snd ?r)) = length (mod_functions sc)"
    and "loop_scope (fst ?r) = length (symtabs s)"
    by (simp_all add: for_loop_begin_def f sb Let_def split_def sc_def tb create_symbol_table_def)
  then have t1: "symtabs s1 = symtabs sc"
    and m1: "length (mod_functions s1) = length (mod_functions sc)"
    and lc: "loop_scope c = length (symtabs s)"
    by (simp_all add: r)
  show "loop_scope c = length (symtabs s)" by (rule lc)
  show "length (symtabs s1) = Suc (length (symtabs s))"
    by (simp add: t1 sc_def create_symbol_table_def tb)
  show "length (mod_functions s1) = length (mod_functions s)"
    by (simp add: m1 sc_def create_symbol_table_def mb)
  show "get_symtab s1 st = get_symtab s st" if "st < length (symtabs s)"
  proof -
    have "get_symtab s1 st = get_symtab sc st"
      by (simp add: get_symtab_def t1)
    also have "\<dots> = get_symtab (snd (create_symbol_table (Some (current_scope_symbols sb)) sb)
         \<lparr>current_scope_symbols := length (symtabs s)\<rparr>) st"
      unfolding sc_def using that by (intro add_symbol_other) simp
    also have "\<dots> = get_symtab s st"
      using that by (simp add: get_symtab_def create_symbol_table_def tb nth_append)
    finally show ?thesis .
  qed
qed

lemma keeps_func_def:
  assumes b: "func_def_begin nm ps s = (fv, saved, s1)"
    and k: "keeps_globals s1 s2" and c: "context_of s2 = context_of s1"
  shows "keeps_globals s (func_def_end saved s2)"
proof -
  note f = func_def_begin_scope [OF b]
  let ?s' = "func_def_end saved s2"
  have g2: "global_symbols s2 = global_symbols s" and l2: "length (symtabs s1) \<le> length (symtabs s2)"
    and m2: "length (mod_functions s1) \<le> length (mod_functions s2)"
    using k f(2) by (simp_all add: keeps_globals_def)
  have c2: "current_scope_symbols s2 = length (symtabs s)"
    using c f(1) by (simp add: context_of_def)
  have "\<exists>e'. lookup_global ?s' nm' = Some e' \<and>
          (e' = e \<or> (\<exists>i t. sym_value e' = Function i t \<and> length (mod_functions s) \<le> i))"
    if v: "global_symbols s < length (symtabs s)" and e: "lookup_global s nm' = Some e" for nm' e
  proof -
    obtain e1 where e1: "lookup_global s1 nm' = Some e1"
      and r1: "e1 = e \<or> (\<exists>i t. sym_value e1 = Function i t \<and> length (mod_functions s) \<le> i)"
      using f(8) [OF v, of nm'] e f(7) by (auto split: if_splits)
    have "global_symbols s1 < length (symtabs s1)"
      using v f(2) f(5) by simp
    with k e1 obtain e2 where e2: "lookup_global s2 nm' = Some e2"
      and r2: "e2 = e1 \<or> (\<exists>i t. sym_value e2 = Function i t \<and> length (mod_functions s1) \<le> i)"
      unfolding keeps_globals_def by blast
    have "lookup_global ?s' nm' = lookup_global s2 nm'"
      using v by (intro lookup_global_freed [where st = "current_scope_symbols s2"])
                 (simp_all add: func_def_end_tables c2 g2)
    moreover have "e2 = e \<or> (\<exists>i t. sym_value e2 = Function i t \<and> length (mod_functions s) \<le> i)"
      using r1 r2 f(6) by auto
    ultimately show ?thesis
      using e2 by simp
  qed
  then show ?thesis
    using g2 l2 m2 f(5) f(6) by (simp add: keeps_globals_def func_def_end_tables)
qed

lemma keeps_for_loop:
  assumes b: "for_loop_begin nm x y s = Some (c, s1)" and k: "keeps_globals s1 s2"
  shows "keeps_globals s (for_loop_end c s2)"
proof -
  note f = for_loop_begin_tables [OF b]
  note g = for_loop_begin_frame [OF b]
  let ?s' = "for_loop_end c s2"
  have g2: "global_symbols s2 = global_symbols s" and l2: "length (symtabs s1) \<le> length (symtabs s2)"
    and m2: "length (mod_functions s1) \<le> length (mod_functions s2)"
    using k g(1) by (simp_all add: keeps_globals_def)
  have "\<exists>e'. lookup_global ?s' nm' = Some e' \<and>
          (e' = e \<or> (\<exists>i t. sym_value e' = Function i t \<and> length (mod_functions s) \<le> i))"
    if v: "global_symbols s < length (symtabs s)" and e: "lookup_global s nm' = Some e" for nm' e
  proof -
    have "lookup_global s1 nm' = lookup_global s nm'"
      using f(4) [OF v] g(1) by (intro lookup_global_table) simp_all
    then have e1: "lookup_global s1 nm' = Some e"
      using e by simp
    have "global_symbols s1 < length (symtabs s1)"
      using v g(1) f(2) by simp
    with k e1 obtain e2 where e2: "lookup_global s2 nm' = Some e2"
      and r2: "e2 = e \<or> (\<exists>i t. sym_value e2 = Function i t \<and> length (mod_functions s1) \<le> i)"
      unfolding keeps_globals_def by blast
    have "lookup_global ?s' nm' = lookup_global s2 nm'"
      using v by (intro lookup_global_freed [where st = "loop_scope c"])
                 (simp_all add: for_loop_end_tables f(1) g2)
    then show ?thesis
      using e2 r2 f(3) by auto
  qed
  then show ?thesis
    using g2 l2 m2 f(2) f(3) by (simp add: keeps_globals_def for_loop_end_tables)
qed

lemma same_scopes_if_close [simp]:
  "same_scopes s (if_else_merge f m (branch_if_open m s))"
  by (rule same_scopes_trans [OF same_scopes_branch_if_open same_scopes_if_else_merge])

lemma same_scopes_else_open [simp]:
  "same_scopes s
     (LLVMPositionBuilderAtEnd e (LLVMAppendExistingBasicBlock f e (branch_if_open m s)))"
  by (rule same_scopes_trans [OF same_scopes_branch_if_open
        same_scopes_trans [OF same_scopes_append_existing same_scopes_position]])

text \<open>
  Lowering keeps every name of the global table bound, to the symbol it had or to a
  function defined since.
\<close>

lemma codegen_keeps:
  "keeps_globals s (snd (codegen_expr s n)) \<and> context_of (snd (codegen_expr s n)) = context_of s"
  "keeps_globals s13 (codegen_statement_list_node s13 n13) \<and>
   context_of (codegen_statement_list_node s13 n13) = context_of s13"
  "keeps_globals s14 (codegen_statement_list_payload s14 n14) \<and>
   context_of (codegen_statement_list_payload s14 n14) = context_of s14"
proof -
  let ?R = "\<lambda>s s'. keeps_globals s s' \<and> context_of s' = context_of s"
  have rfl: "\<And>s. ?R s s"
    by (simp add: keeps_globals_refl)
  have trans: "\<And>a b c. ?R a b \<Longrightarrow> ?R b c \<Longrightarrow> ?R a c"
    using keeps_globals_trans by auto
  have same: "\<And>s s'. same_scopes s s' \<Longrightarrow> context_of s' = context_of s \<Longrightarrow> ?R s s'"
    by (simp add: same_scopes_keeps)
  have andr: "\<And>L s1 bL m s2 s3 Rv.
        and_branch L s1 = Some (bL, m, s2) \<Longrightarrow> ?R s2 s3 \<Longrightarrow> ?R s1 (snd (and_merge bL m Rv s3))"
  proof -
    fix L s1 bL m s2 s3 Rv
    assume a: "and_branch L s1 = Some (bL, m, s2)" and r: "?R s2 s3"
    have 1: "?R s1 s2"
      using a by (intro same) (simp_all add: same_scopes_and_branch context_of_and_branch)
    have 3: "?R s3 (snd (and_merge bL m Rv s3))"
      by (intro same) simp_all
    from trans [OF trans [OF 1 r] 3] show "?R s1 (snd (and_merge bL m Rv s3))" .
  qed
  have orr: "\<And>L s1 bL m s2 s3 Rv.
        or_branch L s1 = Some (bL, m, s2) \<Longrightarrow> ?R s2 s3 \<Longrightarrow> ?R s1 (snd (or_merge bL m Rv s3))"
  proof -
    fix L s1 bL m s2 s3 Rv
    assume a: "or_branch L s1 = Some (bL, m, s2)" and r: "?R s2 s3"
    have 1: "?R s1 s2"
      using a by (intro same) (simp_all add: same_scopes_or_branch context_of_or_branch)
    have 3: "?R s3 (snd (or_merge bL m Rv s3))"
      by (intro same) simp_all
    from trans [OF trans [OF 1 r] 3] show "?R s1 (snd (or_merge bL m Rv s3))" .
  qed
  have fdef: "\<And>nm ps s fv saved s1 s2.
        func_def_begin nm ps s = (fv, saved, s1) \<Longrightarrow> ?R s1 s2 \<Longrightarrow> ?R s (func_def_end saved s2)"
    using keeps_func_def context_of_func_def_eq by blast
  have pipe: "\<And>s1 v s3.
        ?R (s1\<lparr>piped_value := v\<rparr>) s3 \<Longrightarrow> ?R s1 (s3\<lparr>piped_value := piped_value s1\<rparr>)"
  proof -
    fix s1 v s3
    assume r: "?R (s1\<lparr>piped_value := v\<rparr>) s3"
    have 1: "keeps_globals s1 (s1\<lparr>piped_value := v\<rparr>)"
      by (intro same_scopes_keeps) simp
    have 2: "keeps_globals s3 (s3\<lparr>piped_value := piped_value s1\<rparr>)"
      by (intro same_scopes_keeps) simp
    from keeps_globals_trans [OF keeps_globals_trans [OF 1 conjunct1 [OF r]] 2]
      context_of_piped_update [OF conjunct2 [OF r]]
    show "?R s1 (s3\<lparr>piped_value := piped_value s1\<rparr>)"
      by simp
  qed
  have ifthen: "\<And>f cv s2 else_bb merge_bb s3 s4.
        current_function s2 = Some f \<Longrightarrow>
        if_else_branch f cv False s2 = (else_bb, merge_bb, s3) \<Longrightarrow> ?R s3 s4 \<Longrightarrow>
        ?R s2 (if_else_merge f merge_bb (branch_if_open merge_bb s4))"
  proof -
    fix f cv s2 else_bb merge_bb s3 s4
    assume b: "if_else_branch f cv False s2 = (else_bb, merge_bb, s3)" and r: "?R s3 s4"
    have 1: "?R s2 s3"
      using same_scopes_if_else_branch [of s2 f cv False] context_of_if_else_branch_eq [OF b] b
      by (intro same) simp_all
    have 3: "?R s4 (if_else_merge f merge_bb (branch_if_open merge_bb s4))"
      by (intro same) simp_all
    from trans [OF trans [OF 1 r] 3]
    show "?R s2 (if_else_merge f merge_bb (branch_if_open merge_bb s4))" .
  qed
  have ifelse: "\<And>f cv s2 else_bb merge_bb s3 s4 s8.
        current_function s2 = Some f \<Longrightarrow>
        if_else_branch f cv True s2 = (else_bb, merge_bb, s3) \<Longrightarrow> ?R s3 s4 \<Longrightarrow>
        ?R (LLVMPositionBuilderAtEnd else_bb
             (LLVMAppendExistingBasicBlock f else_bb (branch_if_open merge_bb s4))) s8 \<Longrightarrow>
        ?R s2 (if_else_merge f merge_bb (branch_if_open merge_bb s8))"
  proof -
    fix f cv s2 else_bb merge_bb s3 s4 s8
    assume b: "if_else_branch f cv True s2 = (else_bb, merge_bb, s3)" and r: "?R s3 s4"
      and r': "?R (LLVMPositionBuilderAtEnd else_bb
             (LLVMAppendExistingBasicBlock f else_bb (branch_if_open merge_bb s4))) s8"
    have 1: "?R s2 s3"
      using same_scopes_if_else_branch [of s2 f cv True] context_of_if_else_branch_eq [OF b] b
      by (intro same) simp_all
    have 2: "?R s4 (LLVMPositionBuilderAtEnd else_bb
             (LLVMAppendExistingBasicBlock f else_bb (branch_if_open merge_bb s4)))"
      by (intro same) simp_all
    have 3: "?R s8 (if_else_merge f merge_bb (branch_if_open merge_bb s8))"
      by (intro same) simp_all
    from trans [OF trans [OF trans [OF trans [OF 1 r] 2] r'] 3]
    show "?R s2 (if_else_merge f merge_bb (branch_if_open merge_bb s8))" .
  qed
  have forl: "\<And>nm a b s c s1 s2.
        for_loop_begin nm a b s = Some (c, s1) \<Longrightarrow> ?R s1 s2 \<Longrightarrow> ?R s (for_loop_end c s2)"
    using keeps_for_loop context_of_for_loop by blast
  note br = rfl trans andr orr fdef pipe ifthen ifelse forl
  show "keeps_globals s (snd (codegen_expr s n)) \<and> context_of (snd (codegen_expr s n)) = context_of s"
    by (rule codegen_rel [where R = ?R]; (fact br | simp add: same keeps_assignment_store))
  show "keeps_globals s13 (codegen_statement_list_node s13 n13) \<and>
      context_of (codegen_statement_list_node s13 n13) = context_of s13"
    by (rule codegen_rel [where R = ?R]; (fact br | simp add: same keeps_assignment_store))
  show "keeps_globals s14 (codegen_statement_list_payload s14 n14) \<and>
      context_of (codegen_statement_list_payload s14 n14) = context_of s14"
    by (rule codegen_rel [where R = ?R]; (fact br | simp add: same keeps_assignment_store))
qed
text \<open>
  C6 (as the code has it). When \<^verbatim>\<open>codegen_func_def\<close> lowers a definition in a state \<open>s\<close>,
  the body is lowered in a state \<open>s1\<close> whose current scope is a table that did not exist
  in \<open>s\<close> and whose parent is the global scope of \<open>s\<close>, whatever scope was current in \<open>s\<close>.
  Of the tables of \<open>s\<close> only the global one is written: every other one, the scope of the
  definition site included, is as it was. When the global table holds fewer than
  \<open>SYMBOL_TABLE_SIZE\<close> symbols, it holds the function's name with the function value and
  its signature while the body is lowered, and after the whole definition the name is
  still bound there, to that symbol or to a function that the body has defined under the
  same name. When the global table is full, it is left as it was and the overflow is
  reported.
\<close>

theorem func_def_scope_is_child_of_global:
  assumes "func_def_begin func_name param_names s = (func_val, saved, s1)"
  shows "codegen_func_def s (NODE_FUNCTION_DEF ln func_name param_names body) =
           (Some func_val, func_def_end saved (codegen_statement_list_node s1 body)) \<and>
         current_scope_symbols s1 = length (symtabs s) \<and>
         get_symtab s (current_scope_symbols s1) = None \<and>
         map_option parent (get_symtab s1 (current_scope_symbols s1)) =
           Some (Some (global_symbols s)) \<and>
         (\<forall>st. st < length (symtabs s) \<and> st \<noteq> global_symbols s \<longrightarrow>
            get_symtab s1 st = get_symtab s st) \<and>
         (\<forall>tab. get_symtab s (global_symbols s) = Some tab \<longrightarrow>
            (if length (entries tab) < SYMBOL_TABLE_SIZE
             then find_symbol s1 (global_symbols s) func_name =
                    Some \<lparr>sym_name = func_name, sym_value = func_val,
                          sym_type = FunctionType LLVMInt32Type
                                       (replicate (length param_names) LLVMInt32Type) False,
                          is_param = False\<rparr> \<and>
                  (\<exists>symb. find_symbol
                            (snd (codegen_func_def s
                                    (NODE_FUNCTION_DEF ln func_name param_names body)))
                            (global_symbols s) func_name = Some symb \<and>
                     (symb = \<lparr>sym_name = func_name, sym_value = func_val,
                              sym_type = FunctionType LLVMInt32Type
                                           (replicate (length param_names) LLVMInt32Type) False,
                              is_param = False\<rparr> \<or>
                      (\<exists>i t. sym_value symb = Function i t \<and> length (mod_functions s) < i)))
             else get_symtab s1 (global_symbols s) = Some tab \<and>
                  (\<exists>rest. stderr s1 = stderr s @ SymbolTableOverflow func_name # rest)))"
proof -
  note f = func_def_begin_scope [OF assms]
  let ?g = "global_symbols s"
  let ?h = "\<lparr>sym_name = func_name, sym_value = func_val,
            sym_type = FunctionType LLVMInt32Type
                         (replicate (length param_names) LLVMInt32Type) False,
            is_param = False\<rparr>"
  let ?s2 = "codegen_statement_list_node s1 body"
  have r: "codegen_func_def s (NODE_FUNCTION_DEF ln func_name param_names body) =
      (Some func_val, func_def_end saved ?s2)"
    using assms by (simp add: codegen_func_def_eq)
  have k: "keeps_globals s1 ?s2" and c: "context_of ?s2 = context_of s1"
    using codegen_keeps(2) [of s1 body] by simp_all
  have room: "find_symbol s1 ?g func_name = Some ?h \<and>
      (\<exists>symb. find_symbol (func_def_end saved ?s2) ?g func_name = Some symb \<and>
         (symb = ?h \<or> (\<exists>i t. sym_value symb = Function i t \<and> length (mod_functions s) < i)))"
    if t: "get_symtab s ?g = Some tab" "length (entries tab) < SYMBOL_TABLE_SIZE" for tab
  proof -
    have v: "?g < length (symtabs s)"
      using t(1) by (cases "?g < length (symtabs s)") (simp_all add: get_symtab_def)
    have l1: "lookup_global s1 func_name = Some ?h"
      using f(8) [OF v, of func_name] t by auto
    have v1: "global_symbols s1 < length (symtabs s1)"
      using v f(2) f(5) by simp
    from k l1 v1 obtain e2 where e2: "lookup_global ?s2 func_name = Some e2"
      and r2: "e2 = ?h \<or> (\<exists>i t. sym_value e2 = Function i t \<and> length (mod_functions s1) \<le> i)"
      unfolding keeps_globals_def by blast
    have g2: "global_symbols ?s2 = ?g" and c2: "current_scope_symbols ?s2 = length (symtabs s)"
      using c f(1) f(2) by (simp_all add: context_of_def)
    have "lookup_global (func_def_end saved ?s2) func_name = lookup_global ?s2 func_name"
      using v by (intro lookup_global_freed [where st = "current_scope_symbols ?s2"])
                 (simp_all add: func_def_end_tables c2 g2)
    then have "find_symbol (func_def_end saved ?s2) (global_symbols (func_def_end saved ?s2))
        func_name = Some e2"
      using e2 by (intro find_symbol_lookup) simp
    then have 1: "find_symbol (func_def_end saved ?s2) ?g func_name = Some e2"
      by (simp add: g2)
    have 2: "e2 = ?h \<or> (\<exists>i t. sym_value e2 = Function i t \<and> length (mod_functions s) < i)"
      using r2 f(6) by auto
    have "find_symbol s1 (global_symbols s1) func_name = Some ?h"
      using l1 by (rule find_symbol_lookup)
    then show ?thesis
      using 1 2 by (simp add: f(2))
  qed
  have fresh: "get_symtab s (current_scope_symbols s1) = None"
    by (simp add: f(1) get_symtab_def)
  show ?thesis
    using r room fresh f(1,3,4,9) by (auto simp: r)
qed
lemma example_in_add_scopes:
  "current_scope_symbols example_in_add = 2"
  "global_symbols example_in_add = 0"
  "symtabs example_in_add =
     [Some \<lparr>entries =
              [\<lparr>sym_name = ''add'',
                sym_value = Function 1 (FunctionType LLVMInt32Type [LLVMInt32Type, LLVMInt32Type] False),
                sym_type = FunctionType LLVMInt32Type [LLVMInt32Type, LLVMInt32Type] False,
                is_param = False\<rparr>],
            parent = None\<rparr>,
      Some \<lparr>entries = [], parent = Some 0\<rparr>,
      Some \<lparr>entries =
              [\<lparr>sym_name = ''a'', sym_value = AllocaInst 0 LLVMInt32Type,
                sym_type = LLVMInt32Type, is_param = True\<rparr>,
               \<lparr>sym_name = ''b'', sym_value = AllocaInst 2 LLVMInt32Type,
                sym_type = LLVMInt32Type, is_param = True\<rparr>],
            parent = Some 0\<rparr>]"
  "length (mod_functions example_in_add) = 2"
  by (simp_all add: example_in_add_def example_start_eq codegen_eval numeral_2_eq_2
        cong: let_weak_cong)

theorem func_def_scope_is_child_of_global_witness:
  "current_scope_symbols example_in_add = 2 \<and>
   current_scope_symbols (snd (snd (func_def_begin ''inner'' [] example_in_add))) = 3 \<and>
   map_option parent
     (get_symtab (snd (snd (func_def_begin ''inner'' [] example_in_add))) 3) = Some (Some 0) \<and>
   get_symtab (snd (snd (func_def_begin ''inner'' [] example_in_add))) 2 =
     get_symtab example_in_add 2 \<and>
   find_symbol (snd (snd (func_def_begin ''inner'' [] example_in_add))) 0 ''inner'' =
     Some \<lparr>sym_name = ''inner'', sym_value = Function 2 (FunctionType LLVMInt32Type [] False),
           sym_type = FunctionType LLVMInt32Type [] False, is_param = False\<rparr> \<and>
   (\<exists>symb. find_symbol
             (snd (codegen_func_def example_in_add (NODE_FUNCTION_DEF 3 ''inner'' [] None)))
             0 ''inner'' = Some symb \<and>
      (symb = \<lparr>sym_name = ''inner'', sym_value = Function 2 (FunctionType LLVMInt32Type [] False),
               sym_type = FunctionType LLVMInt32Type [] False, is_param = False\<rparr> \<or>
       (\<exists>i t. sym_value symb = Function i t \<and> 2 < i)))"
proof -
  let ?r = "func_def_begin ''inner'' [] example_in_add"
  let ?tab = "\<lparr>entries =
              [\<lparr>sym_name = ''add'',
                sym_value = Function 1 (FunctionType LLVMInt32Type [LLVMInt32Type, LLVMInt32Type] False),
                sym_type = FunctionType LLVMInt32Type [LLVMInt32Type, LLVMInt32Type] False,
                is_param = False\<rparr>],
            parent = None\<rparr>"
  let ?h = "\<lparr>sym_name = ''inner'', sym_value = fst ?r,
            sym_type = FunctionType LLVMInt32Type
                         (replicate (length ([] :: string list)) LLVMInt32Type) False,
            is_param = False\<rparr>"
  have r: "?r = (fst ?r, fst (snd ?r), snd (snd ?r))"
    by simp
  have f: "fst ?r = Function 2 (FunctionType LLVMInt32Type [] False)"
    by (simp add: func_def_begin_def split_def Let_def LLVMAddFunction_def example_in_add_scopes)
  have g: "get_symtab example_in_add 0 = Some ?tab"
    by (simp add: get_symtab_def example_in_add_scopes)
  note t = func_def_scope_is_child_of_global [OF r, of 3 None]
  have l: "length (symtabs example_in_add) = 3" "global_symbols example_in_add = 0"
    "length (mod_functions example_in_add) = 2"
    by (simp_all add: example_in_add_scopes)
  from t have c: "current_scope_symbols (snd (snd ?r)) = 3"
    unfolding l by blast
  from t have "map_option parent (get_symtab (snd (snd ?r)) (current_scope_symbols (snd (snd ?r))))
      = Some (Some 0)"
    unfolding l by blast
  then have p: "map_option parent (get_symtab (snd (snd ?r)) 3) = Some (Some 0)"
    by (simp only: c)
  from t have "\<forall>st. st < 3 \<and> st \<noteq> 0 \<longrightarrow>
      get_symtab (snd (snd ?r)) st = get_symtab example_in_add st"
    unfolding l by blast
  then have o: "get_symtab (snd (snd ?r)) 2 = get_symtab example_in_add 2"
    by simp
  from t have "\<forall>tab. get_symtab example_in_add 0 = Some tab \<longrightarrow>
      (if length (entries tab) < SYMBOL_TABLE_SIZE
       then find_symbol (snd (snd ?r)) 0 ''inner'' = Some ?h \<and>
            (\<exists>symb. find_symbol
                      (snd (codegen_func_def example_in_add (NODE_FUNCTION_DEF 3 ''inner'' [] None)))
                      0 ''inner'' = Some symb \<and>
               (symb = ?h \<or> (\<exists>i t. sym_value symb = Function i t \<and> 2 < i)))
       else get_symtab (snd (snd ?r)) 0 = Some tab \<and>
            (\<exists>rest. stderr (snd (snd ?r)) =
                      stderr example_in_add @ SymbolTableOverflow ''inner'' # rest))"
    unfolding l by blast
  with g have fs: "find_symbol (snd (snd ?r)) 0 ''inner'' = Some ?h \<and>
      (\<exists>symb. find_symbol
                (snd (codegen_func_def example_in_add (NODE_FUNCTION_DEF 3 ''inner'' [] None)))
                0 ''inner'' = Some symb \<and>
         (symb = ?h \<or> (\<exists>i t. sym_value symb = Function i t \<and> 2 < i)))"
    by (simp add: SYMBOL_TABLE_SIZE_def)
  from c p o fs show ?thesis
    by (simp add: example_in_add_scopes f)
qed

subsection \<open>A full global table\<close>

lemma find_symbol_miss:
  assumes "get_symtab s st = Some tab" and "nm \<notin> set (map sym_name (entries tab))"
    and "parent tab = None"
  shows "find_symbol s st nm = None"
proof -
  have "find (\<lambda>e. sym_name e = nm) (entries tab) = None"
    using assms(2) by (auto simp: find_None_iff)
  then show ?thesis
    using assms(1,3) by (subst find_symbol.simps) simp
qed

lemma add_symbol_new_entry:
  assumes "get_symtab s st = Some tab" and "length (entries tab) < SYMBOL_TABLE_SIZE"
    and "nm \<notin> set (map sym_name (entries tab))"
  shows "get_symtab (add_symbol st nm v t p s) st =
           Some (tab\<lparr>entries := entries tab @
                   [\<lparr>sym_name = nm, sym_value = v, sym_type = t, is_param = p\<rparr>]\<rparr>)"
proof -
  have "update_entry \<lparr>sym_name = nm, sym_value = v, sym_type = t, is_param = p\<rparr> (entries tab) = None"
    using assms(3) by (intro update_entry_new) auto
  then show ?thesis
    using assms(1,2) by (auto simp: add_symbol_def Let_def get_symtab_def split: if_splits)
qed

text \<open>
  The definition of a function without parameters and with an empty body, lowered in an
  empty block: the builder comes back to that block, which is still empty, and the global
  table has the new name at its end.
\<close>

lemma func_def_empty_body:
  assumes b: "builder s = Some b" "b < length (ctx_blocks s)" "block_instrs s b = []"
    and t: "get_symtab s (global_symbols s) = Some tab"
      "length (entries tab) < SYMBOL_TABLE_SIZE" "nm \<notin> set (map sym_name (entries tab))"
  defines "s' \<equiv> snd (codegen_func_def s (the (example_empty_def nm)))"
  shows "builder s' = Some b" and "b < length (ctx_blocks s')" and "block_instrs s' b = []"
    and "global_symbols s' = global_symbols s"
    and "\<exists>y. get_symtab s' (global_symbols s) = Some (tab\<lparr>entries := entries tab @ [y]\<rparr>) \<and>
           sym_name y = nm"
proof -
  let ?g = "global_symbols s"
  let ?ft = "FunctionType LLVMInt32Type (replicate (length ([] :: string list)) LLVMInt32Type) False"
  obtain fv saved s1 where r: "func_def_begin nm [] s = (fv, saved, s1)"
    by (cases "func_def_begin nm [] s") auto
  note f = func_def_begin_scope [OF r]
  have s': "s' = func_def_end saved s1"
    by (simp add: s'_def example_empty_def_def codegen_func_def_eq r
          codegen_statement_list_node_eq codegen_statement_list_payload_eq)
  have saved: "saved = \<lparr>preserved_insert_block = builder s, preserved_current_func = current_function s,
      preserved_current_scope = current_scope_symbols s\<rparr>"
    using func_def_begin_saved [of nm "[]" s] r by simp
  show "builder s' = Some b"
    by (simp add: s' saved b)
  show "global_symbols s' = ?g"
    by (simp add: s' f(2))
  have blocks1: "ctx_blocks s1 = ctx_blocks s @
      [\<lparr>bb_name = ''entry'', bb_parent = Some (length (mod_functions s)), bb_instrs = []\<rparr>]"
    and builder1: "builder s1 = Some (length (ctx_blocks s))"
    using r
    by (auto simp: func_def_begin_def Let_def split_def bind_params.simps
          LLVMAppendBasicBlockInContext_def LLVMCreateBasicBlockInContext_def
          LLVMAppendExistingBasicBlock_def LLVMPositionBuilderAtEnd_def create_symbol_table_def)
  have blocks': "length (ctx_blocks s') = Suc (length (ctx_blocks s))"
    "ctx_blocks s' ! b = ctx_blocks s ! b"
    using b(2)
    by (simp_all add: s' func_def_end_def Let_def insert_block_open_def LLVMGetInsertBlock_def
          LLVMGetBasicBlockTerminator_def block_instrs_def builder1 blocks1 build_def
          append_instr_def free_symbol_table_def LLVMPositionBuilderAtEnd_def
          LLVMClearInsertionPosition_def nth_append split: option.splits)
  show "b < length (ctx_blocks s')"
    using b(2) blocks' by simp
  then show "block_instrs s' b = []"
    using b(2,3) blocks' by (simp add: block_instrs_def)
  have v: "?g < length (symtabs s)"
    using t(1) by (cases "?g < length (symtabs s)") (simp_all add: get_symtab_def)
  let ?y = "\<lparr>sym_name = nm, sym_value = fv, sym_type = ?ft, is_param = False\<rparr>"
  have l1: "lookup_global s1 nm' =
      (if nm' = nm then Some ?y else lookup_global s nm')" for nm'
    using f(8) [OF v, of nm'] t by auto
  have "get_symtab s' ?g = get_symtab s1 ?g"
    using v by (simp add: s' get_symtab_def func_def_end_tables f(1) f(5))
  moreover have "get_symtab s1 ?g = Some (tab\<lparr>entries := entries tab @ [?y]\<rparr>)"
  proof -
    let ?sa = "snd (LLVMAddFunction nm ?ft s)"
    have "get_symtab ?sa ?g = get_symtab s ?g"
      by (simp add: get_symtab_def)
    then have a: "get_symtab ?sa ?g = Some tab"
      using t(1) by simp
    have "get_symtab s1 ?g = get_symtab (add_symbol ?g nm fv ?ft False ?sa) ?g"
      using f(10) [OF v] by simp
    also have "\<dots> = Some (tab\<lparr>entries := entries tab @ [?y]\<rparr>)"
      using a t(2,3) by (rule add_symbol_new_entry)
    finally show ?thesis .
  qed
  ultimately show "\<exists>y. get_symtab s' ?g = Some (tab\<lparr>entries := entries tab @ [y]\<rparr>) \<and>
      sym_name y = nm"
    by auto
qed
lemma empty_defs_fill_table:
  assumes "builder s = Some b" and "b < length (ctx_blocks s)" and "block_instrs s b = []"
    and "get_symtab s (global_symbols s) = Some tab"
    and "distinct xs" and "set xs \<inter> set (map sym_name (entries tab)) = {}"
    and "length (entries tab) + length xs \<le> SYMBOL_TABLE_SIZE"
  shows "\<exists>tab'. get_symtab (codegen_statement_list_payload s (map example_empty_def xs))
                   (global_symbols s) = Some tab' \<and>
           map sym_name (entries tab') = map sym_name (entries tab) @ xs \<and>
           parent tab' = parent tab \<and>
           global_symbols (codegen_statement_list_payload s (map example_empty_def xs)) =
             global_symbols s"
  using assms
proof (induction xs arbitrary: s tab)
  case Nil
  then show ?case
    by (simp add: codegen_statement_list_payload_eq)
next
  case (Cons x xs)
  let ?s' = "snd (codegen_func_def s (the (example_empty_def x)))"
  have open_block: "\<not> insert_block_terminated s"
    using Cons.prems(1,3)
    by (simp add: insert_block_terminated_def LLVMGetInsertBlock_def
          LLVMGetBasicBlockTerminator_def)
  have step: "codegen_statement_list_payload s (map example_empty_def (x # xs)) =
      codegen_statement_list_payload ?s' (map example_empty_def xs)"
    using open_block
    by (simp add: codegen_statement_list_payload_eq example_empty_def_def)
  have room: "length (entries tab) < SYMBOL_TABLE_SIZE"
    using Cons.prems(7) by simp
  have new: "x \<notin> set (map sym_name (entries tab))"
    using Cons.prems(6) by auto
  note e = func_def_empty_body [OF Cons.prems(1,2,3,4) room new]
  from e(5) obtain y where y: "get_symtab ?s' (global_symbols s) =
      Some (tab\<lparr>entries := entries tab @ [y]\<rparr>)" "sym_name y = x"
    by blast
  let ?tab = "tab\<lparr>entries := entries tab @ [y]\<rparr>"
  have t: "get_symtab ?s' (global_symbols ?s') = Some ?tab"
    using y(1) e(4) by simp
  have d: "distinct xs" and i: "set xs \<inter> set (map sym_name (entries ?tab)) = {}"
    and l: "length (entries ?tab) + length xs \<le> SYMBOL_TABLE_SIZE"
    using Cons.prems(5,6,7) y(2) by auto
  from Cons.IH [OF e(1) e(2) e(3) t d i l] obtain tab' where
    "get_symtab (codegen_statement_list_payload ?s' (map example_empty_def xs))
       (global_symbols ?s') = Some tab'"
    "map sym_name (entries tab') = map sym_name (entries ?tab) @ xs"
    "parent tab' = parent ?tab"
    "global_symbols (codegen_statement_list_payload ?s' (map example_empty_def xs)) =
       global_symbols ?s'"
    by blast
  then show ?case
    unfolding step using y(2) e(4) by simp
qed

lemma example_names_facts:
  "length example_names = 100" "distinct example_names" "''g'' \<notin> set example_names"
proof -
  show "length example_names = 100"
    by (simp add: example_names_def)
  have "inj_on (\<lambda>i. replicate (Suc i) (CHR ''f'')) {0..<100}"
    by (rule inj_onI) (metis length_replicate nat.inject)
  then show "distinct example_names"
    by (simp add: example_names_def distinct_map)
  show "''g'' \<notin> set example_names"
    by (auto simp: example_names_def)
qed

lemma example_hundred_table:
  "\<exists>tab. get_symtab example_hundred 0 = Some tab \<and>
         map sym_name (entries tab) = example_names \<and> parent tab = None \<and>
         global_symbols example_hundred = 0"
proof -
  have s: "builder example_start = Some 0" "0 < length (ctx_blocks example_start)"
    "block_instrs example_start 0 = []" "global_symbols example_start = 0"
    "get_symtab example_start (global_symbols example_start) =
       Some \<lparr>entries = [], parent = None\<rparr>"
    by (simp_all add: example_start_eq block_instrs_def get_symtab_def)
  from empty_defs_fill_table [OF s(1) s(2) s(3) s(5), of example_names]
  show ?thesis
    by (simp add: example_names_facts SYMBOL_TABLE_SIZE_def example_hundred_def s(4))
qed

text \<open>
  C6 (counterexample). After the hundred definitions the global table is full. A further
  definition, of \<^verbatim>\<open>g\<close>, is lowered, and \<^verbatim>\<open>g\<close> is not found in the global scope: neither
  while its body is lowered nor afterwards.
\<close>

theorem full_global_table_drops_function:
  "find_symbol (snd (snd (func_def_begin ''g'' [] example_hundred)))
     (global_symbols example_hundred) ''g'' = None \<and>
   find_symbol (snd (codegen_func_def example_hundred (NODE_FUNCTION_DEF 2 ''g'' [] None)))
     (global_symbols example_hundred) ''g'' = None"
proof -
  obtain tab where t: "get_symtab example_hundred 0 = Some tab"
    "map sym_name (entries tab) = example_names" "parent tab = None"
    and g: "global_symbols example_hundred = 0"
    using example_hundred_table by blast
  obtain fv saved s1 where r: "func_def_begin ''g'' [] example_hundred = (fv, saved, s1)"
    by (cases "func_def_begin ''g'' [] example_hundred") auto
  note f = func_def_begin_scope [OF r]
  have full: "SYMBOL_TABLE_SIZE \<le> length (entries tab)"
    using arg_cong [OF t(2), of length] by (simp add: example_names_facts SYMBOL_TABLE_SIZE_def)
  have miss: "''g'' \<notin> set (map sym_name (entries tab))"
    by (simp only: t(2) example_names_facts not_False_eq_True)
  have t1: "get_symtab s1 0 = Some tab"
    using f(9) [of tab] t(1) full by (simp add: g)
  have 1: "find_symbol s1 0 ''g'' = None"
    using t1 miss t(3) by (rule find_symbol_miss)
  have v: "0 < length (symtabs example_hundred)"
    using t(1) by (cases "0 < length (symtabs example_hundred)") (simp_all add: get_symtab_def)
  have "get_symtab (func_def_end saved s1) 0 = get_symtab s1 0"
    using v by (simp add: get_symtab_def func_def_end_tables f(1) f(5))
  then have "find_symbol (func_def_end saved s1) 0 ''g'' = None"
    using t1 miss t(3) by (intro find_symbol_miss [where tab = tab]) simp_all
  then show ?thesis
    using 1 by (simp add: g r codegen_func_def_eq codegen_statement_list_node_eq)
qed

subsection \<open>The slot of a new variable\<close>

lemma block_instrs_prepend:
  "b < length (ctx_blocks s) \<Longrightarrow>
   block_instrs (prepend_instr b i s) b' =
     (if b' = b then i # block_instrs s b else block_instrs s b')"
  by (simp add: prepend_instr_def block_instrs_def)

lemma block_instrs_append:
  "block_instrs (append_instr b i s) b' =
     (if b' = b \<and> b < length (ctx_blocks s) then block_instrs s b @ [i] else block_instrs s b')"
  by (simp add: append_instr_def block_instrs_def)

lemma block_instrs_next_value [simp]:
  "block_instrs (s\<lparr>next_value := n\<rparr>) b = block_instrs s b"
  by (simp add: block_instrs_def)

lemma block_instrs_build_at:
  "block_instrs (snd (build opc t s)) b' =
     (if builder s = Some b' \<and> b' < length (ctx_blocks s)
      then block_instrs s b' @ [(next_value s, opc)] else block_instrs s b')"
  by (cases "builder s") (auto simp: build_def Let_def block_instrs_append)

lemma block_instrs_cong:
  "ctx_blocks s' = ctx_blocks s \<Longrightarrow> block_instrs s' b = block_instrs s b"
  by (simp add: block_instrs_def)

text \<open>
  C5. Let the right-hand side of an assignment lower to a value \<open>v\<close>, in a state \<open>s1\<close>
  in which the name has no binding in any scope that is visible from the current one. If
  the assignment is lowered while a function \<open>f\<close> is current, and \<open>f\<close> has an entry
  block, then the assignment succeeds and the entry block of \<open>f\<close> afterwards starts with
  the allocation of the new slot, followed by everything that the block held before. The
  store into the slot is the only other instruction that is emitted; it goes to the end of
  the insert block, so it comes after the allocation also when the insert block is the
  entry block.
\<close>

theorem assignment_allocates_at_entry:
  assumes "codegen_expr s expression = (Some v, s1)"
    and "find_symbol s1 (current_scope_symbols s1) var_name = None"
    and "current_function s = Some f"
    and "LLVMGetEntryBasicBlock s1 f = Some entry_block"
    and "entry_block < length (ctx_blocks s1)"
  shows "\<exists>s'. codegen_assignment s (NODE_ASSIGNMENT ln var_name expression) = (Some v, s') \<and>
           (\<forall>b. block_instrs s' b =
              (if b = entry_block
               then [(next_value s1, Alloca (LLVMTypeOf v) var_name)] else []) @
              block_instrs s1 b @
              (if builder s1 = Some b \<and> b < length (ctx_blocks s1)
               then [(Suc (next_value s1),
                      Store v (AllocaInst (next_value s1) (LLVMTypeOf v)))]
               else []))"
proof -
  let ?n = "next_value s1"
  let ?t = "LLVMTypeOf v"
  define sa where
    "sa = prepend_instr entry_block (?n, Alloca ?t var_name) (s1\<lparr>next_value := Suc ?n\<rparr>)"
  define sb where
    "sb = add_symbol (current_scope_symbols sa) var_name (AllocaInst ?n ?t) ?t False sa"
  define s' where "s' = snd (build (Store v (AllocaInst ?n ?t)) VoidType sb)"
  have "context_of (snd (codegen_expr s expression)) = context_of s"
    by (rule codegen_context)
  then have f: "current_function s1 = Some f"
    using assms(1,3) by (simp add: context_of_def)
  have d: "declare_variable var_name ?t s1 = Some (AllocaInst ?n ?t, sa)"
    using f assms(4) by (simp add: declare_variable_def build_entry_alloca_def Let_def sa_def)
  have r: "codegen_assignment s (NODE_ASSIGNMENT ln var_name expression) = (Some v, s')"
    using assms(1,2) d
    by (simp add: codegen_assignment_eq assignment_store_def Let_def split_def s'_def sb_def)
  have a: "block_instrs sb b =
      (if b = entry_block then [(?n, Alloca ?t var_name)] else []) @ block_instrs s1 b" for b
  proof -
    have "block_instrs sb b = block_instrs sa b"
      unfolding sb_def by (rule block_instrs_cong) simp
    also have "\<dots> =
        (if b = entry_block then [(?n, Alloca ?t var_name)] else []) @ block_instrs s1 b"
      using assms(5) by (simp add: sa_def block_instrs_prepend)
    finally show ?thesis .
  qed
  have b: "builder sb = builder s1" "next_value sb = Suc ?n"
    "length (ctx_blocks sb) = length (ctx_blocks s1)"
    by (simp_all add: sb_def sa_def prepend_instr_def)
  have "block_instrs s' b =
      (if b = entry_block then [(?n, Alloca ?t var_name)] else []) @ block_instrs s1 b @
      (if builder s1 = Some b \<and> b < length (ctx_blocks s1)
       then [(Suc ?n, Store v (AllocaInst ?n ?t))] else [])" for b
    by (simp add: s'_def block_instrs_build_at a b)
  with r show ?thesis
    by blast
qed

lemma example_in_add_eq:
  "example_in_add =
     \<lparr>ctx_blocks =
        [\<lparr>bb_name = ''main_script_entry'', bb_parent = Some 0, bb_instrs = []\<rparr>,
         \<lparr>bb_name = ''entry'', bb_parent = Some 1,
          bb_instrs =
            [(0, Alloca LLVMInt32Type ''a''),
             (1, Store (Argument 1 0 LLVMInt32Type) (AllocaInst 0 LLVMInt32Type)),
             (2, Alloca LLVMInt32Type ''b''),
             (3, Store (Argument 1 1 LLVMInt32Type) (AllocaInst 2 LLVMInt32Type))]\<rparr>],
      mod_functions =
        [\<lparr>fn_name = ''main'', fn_type = FunctionType LLVMInt32Type [] False, fn_blocks = [0]\<rparr>,
         \<lparr>fn_name = ''add'',
          fn_type = FunctionType LLVMInt32Type [LLVMInt32Type, LLVMInt32Type] False,
          fn_blocks = [1]\<rparr>],
      mod_globals = [], next_value = 4, builder = Some 1, current_function = Some 1,
      current_scope_symbols = 2, global_symbols = 0,
      symtabs =
        [Some \<lparr>entries =
                 [\<lparr>sym_name = ''add'',
                   sym_value =
                     Function 1 (FunctionType LLVMInt32Type [LLVMInt32Type, LLVMInt32Type] False),
                   sym_type = FunctionType LLVMInt32Type [LLVMInt32Type, LLVMInt32Type] False,
                   is_param = False\<rparr>],
               parent = None\<rparr>,
         Some \<lparr>entries = [], parent = Some 0\<rparr>,
         Some \<lparr>entries =
                 [\<lparr>sym_name = ''a'', sym_value = AllocaInst 0 LLVMInt32Type,
                   sym_type = LLVMInt32Type, is_param = True\<rparr>,
                  \<lparr>sym_name = ''b'', sym_value = AllocaInst 2 LLVMInt32Type,
                   sym_type = LLVMInt32Type, is_param = True\<rparr>],
               parent = Some 0\<rparr>],
      piped_value = None, current_loop_var_name = None, current_loop_var_ptr = None,
      current_loop_cond_bb = None, current_loop_end_bb = None, stderr = []\<rparr>"
  by (simp add: example_in_add_def example_start_eq codegen_eval numeral_2_eq_2 numeral_3_eq_3
        eval_nat_numeral cong: let_weak_cong)

theorem assignment_allocates_at_entry_witness:
  "\<exists>s'. codegen_assignment example_in_add
           (NODE_ASSIGNMENT 2 ''c'' (Some (NODE_NUMBER 2 5))) =
           (Some (ConstInt LLVMInt32Type 5), s') \<and>
         block_instrs s' 1 =
           [(4, Alloca LLVMInt32Type ''c''),
            (0, Alloca LLVMInt32Type ''a''),
            (1, Store (Argument 1 0 LLVMInt32Type) (AllocaInst 0 LLVMInt32Type)),
            (2, Alloca LLVMInt32Type ''b''),
            (3, Store (Argument 1 1 LLVMInt32Type) (AllocaInst 2 LLVMInt32Type)),
            (5, Store (ConstInt LLVMInt32Type 5) (AllocaInst 4 LLVMInt32Type))] \<and>
         block_instrs s' 0 = []"
proof -
  have e: "codegen_expr example_in_add (Some (NODE_NUMBER 2 5)) =
      (Some (ConstInt LLVMInt32Type 5), example_in_add)"
    by (simp add: codegen_expr_eq codegen_number_def)
  have n: "find_symbol example_in_add (current_scope_symbols example_in_add) ''c'' = None"
    by (simp add: example_in_add_eq find_symbol.simps get_symtab_def)
  have f: "current_function example_in_add = Some 1"
    by (simp add: example_in_add_eq)
  have b: "LLVMGetEntryBasicBlock example_in_add 1 = Some 1"
    by (simp add: example_in_add_eq LLVMGetEntryBasicBlock_def)
  have l: "1 < length (ctx_blocks example_in_add)"
    by (simp add: example_in_add_eq)
  from assignment_allocates_at_entry [OF e n f b l, of 2]
  obtain s' where s': "codegen_assignment example_in_add
        (NODE_ASSIGNMENT 2 ''c'' (Some (NODE_NUMBER 2 5))) = (Some (ConstInt LLVMInt32Type 5), s')"
    and i: "\<And>b. block_instrs s' b =
              (if b = 1
               then [(next_value example_in_add, Alloca (LLVMTypeOf (ConstInt LLVMInt32Type 5)) ''c'')]
               else []) @
              block_instrs example_in_add b @
              (if builder example_in_add = Some b \<and> b < length (ctx_blocks example_in_add)
               then [(Suc (next_value example_in_add),
                      Store (ConstInt LLVMInt32Type 5)
                        (AllocaInst (next_value example_in_add)
                           (LLVMTypeOf (ConstInt LLVMInt32Type 5))))]
               else [])"
    by blast
  have nv: "next_value example_in_add = 4" and bd: "builder example_in_add = Some 1"
    by (simp_all add: example_in_add_eq)
  have x1: "block_instrs example_in_add 1 =
      [(0, Alloca LLVMInt32Type ''a''),
       (1, Store (Argument 1 0 LLVMInt32Type) (AllocaInst 0 LLVMInt32Type)),
       (2, Alloca LLVMInt32Type ''b''),
       (3, Store (Argument 1 1 LLVMInt32Type) (AllocaInst 2 LLVMInt32Type))]"
    and x0: "block_instrs example_in_add 0 = []"
    by (simp_all add: example_in_add_eq block_instrs_def)
  have "block_instrs s' 1 =
           [(4, Alloca LLVMInt32Type ''c''),
            (0, Alloca LLVMInt32Type ''a''),
            (1, Store (Argument 1 0 LLVMInt32Type) (AllocaInst 0 LLVMInt32Type)),
            (2, Alloca LLVMInt32Type ''b''),
            (3, Store (Argument 1 1 LLVMInt32Type) (AllocaInst 2 LLVMInt32Type)),
            (5, Store (ConstInt LLVMInt32Type 5) (AllocaInst 4 LLVMInt32Type))]"
    using x1 l by (simp add: i nv bd)
  moreover have "block_instrs s' 0 = []"
    using x0 by (simp add: i nv bd)
  ultimately show ?thesis
    using s' by blast
qed

subsection \<open>Blocks that a lowering finds are kept\<close>

















































subsection \<open>The blocks of a conditional\<close>







subsection \<open>The blocks of a short-circuit conjunction\<close>

lemma block_instrs_position [simp]:
  "block_instrs (LLVMPositionBuilderAtEnd b s) b' = block_instrs s b'"
  by (simp add: block_instrs_def)

lemma builder_position [simp]: "builder (LLVMPositionBuilderAtEnd b s) = Some b"
  by (simp add: LLVMPositionBuilderAtEnd_def)




lemma append_block_frame [simp]:
  "builder (snd (LLVMAppendBasicBlockInContext f nm s)) = builder s"
  "next_value (snd (LLVMAppendBasicBlockInContext f nm s)) = next_value s"
  by (simp_all add: LLVMAppendBasicBlockInContext_def LLVMCreateBasicBlockInContext_def
        LLVMAppendExistingBasicBlock_def Let_def split_def)

lemma next_value_build [simp]: "next_value (snd (build opc t s)) = Suc (next_value s)"
  by (simp add: build_def Let_def append_instr_def split: option.splits)

lemma length_blocks_build [simp]:
  "length (ctx_blocks (snd (build opc t s))) = length (ctx_blocks s)"
  by (simp add: build_def Let_def append_instr_def split: option.splits)



end
